theory Spec2Isabelle
  imports Main "HOL-Library.Word"
begin

unbundle bit_operations_syntax

section \<open>HeIMDALL DAQ: coherent multichannel RTL-SDR receiver (rtl\_daq.c)\<close>

text \<open>
  A shallow embedding of \<^verbatim>\<open>Firmware/_daq_core/rtl_daq.c\<close>. The three kinds of
  thread of the program (control FIFO reader, one reader per tuner, the main acquisition
  loop) are modelled as atomic events on one state record: the control thread mutates the
  globals with the mutex held, the main thread (which never locks the mutex itself) holds it
  from the return of \<^verbatim>\<open>pthread_cond_wait\<close> to the next call, so one pass through the body
  of its loop is one event, and one invocation of the driver callback is taken as one
  event.

  Machine integers: \<^verbatim>\<open>uint8_t\<close> samples and \<^verbatim>\<open>overdrive_flags\<close> are \<open>8 word\<close>, the
  \<^verbatim>\<open>unsigned long long\<close> block counters are \<open>64 word\<close>, the \<^verbatim>\<open>uint32_t\<close>/\<^verbatim>\<open>uint64_t\<close> header
  fields are words. \<^verbatim>\<open>ch_no\<close> and \<^verbatim>\<open>buffer_size\<close> (both \<^verbatim>\<open>uint32_t\<close>) are naturals below
  \<open>2 ^ 32\<close>, the reduction written out where they are assigned or multiplied. The
  \<^verbatim>\<open>int\<close> flags and gains are \<open>int\<close>.
\<close>

subsection \<open>Constants\<close>

definition NUM_BUFF :: nat where
  "NUM_BUFF = 8"

definition ASYNC_BUF_NUMBER :: nat where
  "ASYNC_BUF_NUMBER = 12"

definition NO_DUMMY_FRAMES :: int where
  "NO_DUMMY_FRAMES = 8"

definition CFN :: string where
  "CFN = ''_data_control/rec_control_fifo''"

text \<open>
  Modelled from the spec: \<^verbatim>\<open>iq_header.h\<close> is not among the sources, so the numeric values
  of \<^verbatim>\<open>FRAME_TYPE_DATA\<close>, \<^verbatim>\<open>FRAME_TYPE_DUMMY\<close> and \<^verbatim>\<open>FRAME_TYPE_CAL\<close> are unknown; the
  spec lists them as the distinct frame types DATA, CAL and DUMMY.
\<close>

datatype frame_type_t = FRAME_TYPE_DATA | FRAME_TYPE_DUMMY | FRAME_TYPE_CAL

datatype log_level = LOG_TRACE | LOG_DEBUG | LOG_INFO | LOG_WARN | LOG_ERROR | LOG_FATAL

type_synonym log_entry = "log_level \<times> string"

subsection \<open>Data model\<close>

text \<open>
  \<^verbatim>\<open>configuration\<close>: the values loaded from the ini file. The fields carry the prefix
  \<open>cfg_\<close> because \<^verbatim>\<open>gain\<close>, \<^verbatim>\<open>center_freq\<close> and \<^verbatim>\<open>sample_rate\<close> are also fields of the
  receiver record.
\<close>

record configuration =
  cfg_num_ch :: int
  cfg_daq_buffer_size :: int
  cfg_sample_rate :: int
  cfg_center_freq :: int
  cfg_gain :: int
  cfg_en_noise_source_ctr :: int
  cfg_ctr_channel_serial_no :: int
  cfg_log_level :: int
  cfg_hw_name :: string
  cfg_hw_unit_id :: int
  cfg_ioo_type :: int

text \<open>
  Modelled from the spec: \<^verbatim>\<open>struct rtl_rec_struct\<close> is declared in \<^verbatim>\<open>rtl_daq.h\<close>, which is
  not among the sources. The fields are the ones \<^verbatim>\<open>rtl_daq.c\<close> uses, with the types of
  their uses there: \<^verbatim>\<open>buff_ind\<close> is printed with \<^verbatim>\<open>%llu\<close> and compared with an
  \<^verbatim>\<open>unsigned long long\<close>, \<^verbatim>\<open>buffer\<close> is an octet array of \<^verbatim>\<open>NUM_BUFF * buffer_size\<close>
  octets, \<^verbatim>\<open>dev\<close> is the driver's handle (here a number naming the device).
\<close>

record rtl_rec_struct =
  dev_ind :: int
  gain :: int
  dev :: nat
  buffer :: "8 word list"
  buff_ind :: "64 word"
  center_freq :: "32 word"
  sample_rate :: "32 word"

text \<open>
  Modelled from the spec: \<^verbatim>\<open>struct iq_header_struct\<close> is declared in \<^verbatim>\<open>iq_header.h\<close>, which
  is not among the sources. The fields are the ones \<^verbatim>\<open>main\<close> assigns, with the widths of
  the casts at the assignments. \<^verbatim>\<open>if_gains\<close> is an array whose declared length is not in
  the sources: it is a function of the index. The header field \<^verbatim>\<open>noise_source_state\<close> is
  \<open>hdr_noise_source_state\<close> and \<^verbatim>\<open>ioo_type\<close> is \<open>hdr_ioo_type\<close>, apart from the global and
  the configuration field of those names.
\<close>

record iq_header_struct =
  sync_word :: "32 word"
  header_version :: "32 word"
  hardware_id :: string
  unit_id :: "32 word"
  active_ant_chs :: "32 word"
  hdr_ioo_type :: "32 word"
  rf_center_freq :: "64 word"
  adc_sampling_freq :: "64 word"
  sampling_freq :: "64 word"
  cpi_length :: "32 word"
  time_stamp :: "64 word"
  daq_block_index :: "32 word"
  cpi_index :: "32 word"
  ext_integration_cntr :: "32 word"
  frame_type :: frame_type_t
  data_type :: "32 word"
  sample_bit_depth :: "32 word"
  adc_overdrive_flags :: "32 word"
  if_gains :: "nat \<Rightarrow> 32 word"
  delay_sync_flag :: "32 word"
  iq_sync_flag :: "32 word"
  sync_state :: "32 word"
  hdr_noise_source_state :: "32 word"

text \<open>
  One frame on standard output: the header written by the first \<^verbatim>\<open>fwrite\<close> of a cycle and
  the octets written by the \<^verbatim>\<open>fwrite\<close> calls of the payload loop of that cycle, in order.
\<close>

record frame =
  hdr :: iq_header_struct
  payload :: "8 word list"

text \<open>
  An access outside the \<^verbatim>\<open>rtl_receivers\<close> array or outside a ring buffer: undefined
  behaviour in C, an error value here.
\<close>

datatype access_error = OutOfBounds int

text \<open>
  The program state: the globals of \<^verbatim>\<open>rtl_daq.c\<close>, the locals of \<^verbatim>\<open>main\<close> that live across
  iterations of the acquisition loop (\<^verbatim>\<open>read_buff_ind\<close>, \<^verbatim>\<open>rd_buff_ind\<close>,
  \<^verbatim>\<open>overdrive_flags\<close>, \<^verbatim>\<open>iq_header\<close>, \<^verbatim>\<open>config\<close>), the locals of \<^verbatim>\<open>fifo_read_tf\<close> that live
  across iterations of its loop, and what the program has written: the frames on standard
  output, the log (every call of a \<^verbatim>\<open>log_\<close> function with its level and format
  string, whatever the level set) and the calls of \<^verbatim>\<open>rtlsdr_set_gpio\<close> (handle and the
  two arguments). \<open>main_done\<close> says that \<^verbatim>\<open>main\<close> has left the acquisition loop;
  \<open>fault\<close> records an out-of-bounds access, after which nothing is defined.
\<close>

record daq_state =
  en_dummy_frame :: int
  dummy_frame_cntr :: int
  rtl_receivers :: "rtl_rec_struct list"
  reconfig_trigger :: int
  exit_flag :: int
  noise_source_state :: int
  last_noise_source_state :: int
  gain_change_flag :: int
  new_gains :: "int list"
  new_center_freq :: "32 word"
  center_freq_change_flag :: int
  ch_no :: nat
  buffer_size :: nat
  ctr_channel_dev_index :: int
  config :: configuration
  iq_header :: iq_header_struct
  read_buff_ind :: "64 word"
  rd_buff_ind :: nat
  overdrive_flags :: "8 word"
  gain_read :: int
  center_freq_read :: "32 word"
  sample_rate_read :: "32 word"
  stdout :: "frame list"
  log_out :: "log_entry list"
  gpio_trace :: "(nat \<times> int \<times> int) list"
  main_done :: bool
  fault :: "access_error option"

text \<open>
  The driver (\<^verbatim>\<open>rtl-sdr.h\<close>, external): what each call returns for a device handle at the
  time of one event.
\<close>

record driver =
  rtlsdr_set_dithering :: "nat \<Rightarrow> int \<Rightarrow> int"
  rtlsdr_set_tuner_gain_mode :: "nat \<Rightarrow> int \<Rightarrow> int"
  rtlsdr_set_center_freq :: "nat \<Rightarrow> 32 word \<Rightarrow> int"
  rtlsdr_get_center_freq :: "nat \<Rightarrow> 32 word"
  rtlsdr_set_tuner_gain :: "nat \<Rightarrow> int \<Rightarrow> int"
  rtlsdr_set_sample_rate :: "nat \<Rightarrow> 32 word \<Rightarrow> int"
  rtlsdr_get_sample_rate :: "nat \<Rightarrow> 32 word"
  rtlsdr_set_gpio :: "nat \<Rightarrow> int \<Rightarrow> int \<Rightarrow> int"
  rtlsdr_reset_buffer :: "nat \<Rightarrow> int"
  rtlsdr_cancel_async :: "nat \<Rightarrow> int"

definition log_msg :: "log_level \<Rightarrow> string \<Rightarrow> daq_state \<Rightarrow> daq_state" where
  "log_msg lvl msg st = st\<lparr>log_out := log_out st @ [(lvl, msg)]\<rparr>"

subsection \<open>The ring buffers\<close>

text \<open>
  The octets \<^verbatim>\<open>buffer + buffer_size * ind\<close> .. \<^verbatim>\<open>+ buffer_size\<close> of a ring buffer. The product
  is computed in \<^verbatim>\<open>uint32_t\<close>.
\<close>

definition slot_offset :: "nat \<Rightarrow> nat \<Rightarrow> nat" where
  "slot_offset bs ind = (bs * ind) mod 2 ^ 32"

definition slot_bytes :: "nat \<Rightarrow> nat \<Rightarrow> 8 word list \<Rightarrow> 8 word list" where
  "slot_bytes bs ind buf = take bs (drop (slot_offset bs ind) buf)"

text \<open>
  \<^verbatim>\<open>rtlsdrCallback\<close>: copy \<^verbatim>\<open>len\<close> octets of \<^verbatim>\<open>buf\<close> to slot \<^verbatim>\<open>buff_ind % NUM_BUFF\<close> and
  increment \<^verbatim>\<open>buff_ind\<close>. A copy that would run past the end of the ring buffer is an
  error.
\<close>

definition rtlsdrCallback :: "nat \<Rightarrow> 8 word list \<Rightarrow> rtl_rec_struct \<Rightarrow> access_error + rtl_rec_struct" where
  "rtlsdrCallback bs buf rtl_rec =
     (let wr_buff_ind = unat (buff_ind rtl_rec mod of_nat NUM_BUFF);
          off = slot_offset bs wr_buff_ind
      in if off + length buf \<le> length (buffer rtl_rec)
         then Inr (rtl_rec\<lparr>buffer := take off (buffer rtl_rec) @ buf @
                                 drop (off + length buf) (buffer rtl_rec),
                            buff_ind := buff_ind rtl_rec + 1\<rparr>)
         else Inl (OutOfBounds (int (off + length buf))))"

subsection \<open>The acquisition loop of main: composing and writing one frame\<close>

text \<open>Lines 532 to 538: every reader has passed \<^verbatim>\<open>read_buff_ind\<close>.\<close>

definition data_ready :: "daq_state \<Rightarrow> bool" where
  "data_ready st =
     list_all (\<lambda>i. \<not> buff_ind (rtl_receivers st ! i) \<le> read_buff_ind st) [0..<ch_no st]"

text \<open>
  Lines 556 to 560: the overdrive scan of one channel over the slot \<^verbatim>\<open>rd_buff_ind\<close>. The
  flags are a \<^verbatim>\<open>uint8_t\<close>: \<^verbatim>\<open>1<<i\<close> is cut to its low eight bits when it is stored.
\<close>

definition check_overdrive :: "nat \<Rightarrow> 8 word list \<Rightarrow> 8 word \<Rightarrow> 8 word" where
  "check_overdrive i bytes flags =
     fold (\<lambda>b fl. if b = 255 then fl OR push_bit i 1 else fl) bytes flags"

text \<open>Lines 550 to 560: one iteration of the loop that completes the header.\<close>

definition fill_header_ch :: "nat \<Rightarrow> daq_state \<Rightarrow> daq_state" where
  "fill_header_ch i st =
     (let rtl_rec = rtl_receivers st ! i
      in st\<lparr>iq_header := (iq_header st)
               \<lparr>rf_center_freq := ucast (center_freq rtl_rec),
                if_gains := (if_gains (iq_header st))(i := word_of_int (gain rtl_rec))\<rparr>,
             overdrive_flags :=
               check_overdrive i (slot_bytes (buffer_size st) (rd_buff_ind st) (buffer rtl_rec))
                 (overdrive_flags st)\<rparr>)"

text \<open>Lines 546 to 583: the header of the frame.\<close>

definition complete_header :: "64 word \<Rightarrow> daq_state \<Rightarrow> daq_state" where
  "complete_header now st =
     (let st1 = st\<lparr>iq_header := (iq_header st)
                      \<lparr>time_stamp := now, daq_block_index := ucast (read_buff_ind st)\<rparr>\<rparr>;
          st2 = fold fill_header_ch [0..<ch_no st1] st1;
          h2 = (iq_header st2)
                 \<lparr>adc_overdrive_flags := ucast (overdrive_flags st2),
                  hdr_noise_source_state := word_of_int (noise_source_state st2)\<rparr>;
          h3 = (if en_dummy_frame st2 \<noteq> 0
                then h2\<lparr>frame_type := FRAME_TYPE_DUMMY, data_type := 0, cpi_length := 0\<rparr>
                else h2\<lparr>cpi_length := word_of_int (cfg_daq_buffer_size (config st2)),
                        data_type := 1,
                        frame_type := (if noise_source_state st2 = 1 then FRAME_TYPE_CAL
                                       else FRAME_TYPE_DATA)\<rparr>)
      in st2\<lparr>iq_header := h3\<rparr>)"

text \<open>
  Lines 596 to 601: one iteration of the payload loop; the octets written so far are the
  second component.
\<close>

definition write_payload_ch :: "nat \<Rightarrow> daq_state \<times> 8 word list \<Rightarrow> daq_state \<times> 8 word list" where
  "write_payload_ch i p =
     (let st = fst p;
          rtl_rec = rtl_receivers st ! i;
          st' = st\<lparr>rd_buff_ind := unat (read_buff_ind st mod of_nat NUM_BUFF)\<rparr>
      in (st', snd p @ slot_bytes (buffer_size st') (rd_buff_ind st') (buffer rtl_rec)))"

text \<open>Lines 585 to 615: write the frame, then advance the counters.\<close>

definition write_frame :: "daq_state \<Rightarrow> daq_state" where
  "write_frame st =
     (let h = iq_header st;
          p = (if en_dummy_frame st = 0 then fold write_payload_ch [0..<ch_no st] (st, [])
               else (st, []));
          st1 = (fst p)\<lparr>stdout := stdout st @ [\<lparr>hdr = h, payload = snd p\<rparr>]\<rparr>;
          st2 = (if overdrive_flags st1 \<noteq> 0
                 then log_msg LOG_WARN ''Overdrive detected, flags: 0x%02X'' st1 else st1);
          st3 = st2\<lparr>overdrive_flags := 0, read_buff_ind := read_buff_ind st2 + 1\<rparr>;
          st4 = (if en_dummy_frame st3 \<noteq> 0
                 then (let c = dummy_frame_cntr st3 + 1
                       in st3\<lparr>dummy_frame_cntr := c,
                              en_dummy_frame := (if c = NO_DUMMY_FRAMES then 0
                                                 else en_dummy_frame st3)\<rparr>)
                 else st3)
      in log_msg LOG_DEBUG ''IQ frame writen, block index: %d, type:%d'' st4)"

definition emit_frame :: "64 word \<Rightarrow> daq_state \<Rightarrow> daq_state" where
  "emit_frame now st = write_frame (complete_header now st)"


subsection \<open>The control FIFO thread\<close>

text \<open>
  What one iteration of the loop of \<^verbatim>\<open>fifo_read_tf\<close> reads: the command octet (the first
  \<^verbatim>\<open>fread\<close>, which returned one item), and what each later \<^verbatim>\<open>fread\<close> delivers if the
  command makes it: \<open>None\<close> is a read that stores nothing and leaves the variable as it
  was; \<open>rd_new_gains\<close> holds the items the \<^verbatim>\<open>fread\<close> into \<^verbatim>\<open>new_gains\<close> delivers (at most
  \<^verbatim>\<open>ch_no\<close> are stored). \<^verbatim>\<open>CHK_CTR_READ\<close> is a macro of \<^verbatim>\<open>rtl_daq.h\<close>, which is not among the
  sources; an iteration whose command read returns no item is not modelled.
\<close>

record ctl_read =
  signal :: "8 word"
  rd_center_freq :: "32 word option"
  rd_sample_rate :: "32 word option"
  rd_gain :: "int option"
  rd_new_gains :: "int list"

text \<open>Lines 186 to 195: the FIFO is opened; a failure sets \<^verbatim>\<open>exit_flag\<close>.\<close>

definition fifo_read_tf_open :: "bool \<Rightarrow> daq_state \<Rightarrow> daq_state" where
  "fifo_read_tf_open fd_ok st =
     (if \<not> fd_ok then (log_msg LOG_FATAL ''Failed to open control FIFO'' st)\<lparr>exit_flag := 1\<rparr>
      else st)"

text \<open>The loops over \<^verbatim>\<open>i < ch_no\<close> that assign to a field of every receiver.\<close>

definition upd_receivers :: "nat \<Rightarrow> (rtl_rec_struct \<Rightarrow> rtl_rec_struct) \<Rightarrow> rtl_rec_struct list \<Rightarrow> rtl_rec_struct list" where
  "upd_receivers n f recs = map f (take n recs) @ drop n recs"

text \<open>
  Lines 199 to 262: one command. The octets are \<open>114 = 'r'\<close>, \<open>99 = 'c'\<close>, \<open>103 = 'g'\<close>,
  \<open>110 = 'n'\<close>, \<open>102 = 'f'\<close>. The log texts are the source's without the quotes around the
  command letter.
\<close>

definition fifo_read_tf_cmd :: "ctl_read \<Rightarrow> daq_state \<Rightarrow> daq_state" where
  "fifo_read_tf_cmd rd st =
     (let st1 =
        (if signal rd = 114 then
           (let s1 = log_msg LOG_INFO ''Signal r: Reconfiguring the tuner'' st;
                s2 = s1\<lparr>center_freq_read :=
                          (case rd_center_freq rd of Some v \<Rightarrow> v | None \<Rightarrow> center_freq_read s1),
                        sample_rate_read :=
                          (case rd_sample_rate rd of Some v \<Rightarrow> v | None \<Rightarrow> sample_rate_read s1),
                        gain_read := (case rd_gain rd of Some v \<Rightarrow> v | None \<Rightarrow> gain_read s1)\<rparr>;
                s3 = log_msg LOG_INFO ''Gain: %d dB''
                       (log_msg LOG_INFO ''Sample rate: %u MSps''
                         (log_msg LOG_INFO ''Center freq: %u MHz'' s2))
            in s3\<lparr>rtl_receivers :=
                     upd_receivers (ch_no s3)
                       (\<lambda>r. r\<lparr>gain := gain_read s3, center_freq := center_freq_read s3,
                               sample_rate := sample_rate_read s3\<rparr>)
                       (rtl_receivers s3),
                   reconfig_trigger := 1\<rparr>)
         else if signal rd = 99 then
           (let s1 = log_msg LOG_INFO ''Signal c: Center frequency tuning request'' st;
                s2 = s1\<lparr>center_freq_read :=
                          (case rd_center_freq rd of Some v \<Rightarrow> v | None \<Rightarrow> center_freq_read s1)\<rparr>;
                s3 = s2\<lparr>new_center_freq := center_freq_read s2, center_freq_change_flag := 1\<rparr>
            in log_msg LOG_INFO ''New center frequency: %u MHz'' s3)
         else if signal rd = 103 then
           (let s1 = log_msg LOG_INFO ''Signal g: Gain tuning request'' st;
                items = take (ch_no s1) (rd_new_gains rd)
            in s1\<lparr>new_gains := items @ drop (length items) (new_gains s1),
                   gain_change_flag := 1\<rparr>)
         else if signal rd = 110 then
           (log_msg LOG_INFO ''Signal n: Turn on noise source'' st)\<lparr>noise_source_state := 1\<rparr>
         else if signal rd = 102 then
           (log_msg LOG_INFO ''Signal f: Turn off noise source'' st)\<lparr>noise_source_state := 0\<rparr>
         else if signal rd = 2 then
           (log_msg LOG_INFO ''Signal 2: FIFO read thread exiting '' st)\<lparr>exit_flag := 1\<rparr>
         else st)
      in st1\<lparr>en_dummy_frame := 1, dummy_frame_cntr := 0\<rparr>)"

subsection \<open>The reader threads\<close>

text \<open>Lines 336 to 345 of \<^verbatim>\<open>read_thread_entry\<close>, for receiver \<open>i\<close>: done once.\<close>

definition read_thread_init :: "driver \<Rightarrow> nat \<Rightarrow> daq_state \<Rightarrow> daq_state" where
  "read_thread_init drv i st =
     (let d = dev (rtl_receivers st ! i);
          st0 = log_msg LOG_INFO ''Initializing RTL-SDR device, index:%d'' st;
          st1 = (if rtlsdr_set_dithering drv d 0 \<noteq> 0
                 then log_msg LOG_ERROR ''Failed to disable dithering: %s'' st0 else st0)
      in if rtlsdr_set_tuner_gain_mode drv d 1 \<noteq> 0
         then log_msg LOG_ERROR ''Failed to disbale AGC: %s'' st1 else st1)"

text \<open>
  Lines 347 to 386: one iteration of the loop of \<^verbatim>\<open>read_thread_entry\<close> for receiver \<open>i\<close>, up
  to the barrier and the start of the asynchronous read. It runs at the start and again
  whenever the asynchronous read returns and \<^verbatim>\<open>exit_flag\<close> is not set.
\<close>

definition read_thread_configure :: "driver \<Rightarrow> nat \<Rightarrow> daq_state \<Rightarrow> daq_state" where
  "read_thread_configure drv i st =
     (if exit_flag st \<noteq> 0 then st
      else
        (let rtl_rec = rtl_receivers st ! i;
             d = dev rtl_rec;
             st1 = (if rtlsdr_set_center_freq drv d (center_freq rtl_rec) \<noteq> 0
                    then log_msg LOG_ERROR ''Failed to set center frequency: %s'' st else st);
             rtl_rec1 = rtl_rec\<lparr>center_freq := rtlsdr_get_center_freq drv d\<rparr>;
             st2 = st1\<lparr>rtl_receivers := (rtl_receivers st1)[i := rtl_rec1]\<rparr>;
             st3 = (if rtlsdr_set_tuner_gain drv d (gain rtl_rec1) \<noteq> 0
                    then log_msg LOG_ERROR ''Failed to set gain value: %s'' st2 else st2);
             st4 = (if rtlsdr_set_sample_rate drv d (sample_rate rtl_rec1) \<noteq> 0
                    then log_msg LOG_ERROR ''Failed to set sample rate: %s'' st3 else st3);
             st5 = st4\<lparr>gpio_trace := gpio_trace st4 @ [(d, 0, 0)]\<rparr>;
             st6 = (if rtlsdr_reset_buffer drv d \<noteq> 0
                    then log_msg LOG_ERROR ''Failed to reset receiver buffer: %s'' st5 else st5);
             st7 = log_msg LOG_INFO ''Device is initialized %d'' st6
         in if dev_ind rtl_rec1 = 0
            then log_msg LOG_INFO ''Exact center frequency: %d Hz''
                   (log_msg LOG_INFO ''Exact sample rate: %d Hz'' st7)
            else st7))"

text \<open>One call of the driver callback for receiver \<open>i\<close>.\<close>

definition reader_callback :: "nat \<Rightarrow> 8 word list \<Rightarrow> daq_state \<Rightarrow> daq_state" where
  "reader_callback i buf st =
     (case rtlsdrCallback (buffer_size st) buf (rtl_receivers st ! i) of
        Inl e \<Rightarrow> st\<lparr>fault := Some e\<rparr>
      | Inr r \<Rightarrow> log_msg LOG_DEBUG ''Read at device:%d, buff index:%llu, write index:%d''
                 (st\<lparr>rtl_receivers := (rtl_receivers st)[i := r]\<rparr>))"

subsection \<open>The acquisition loop of main: tuner control\<close>

text \<open>Lines 624 to 634.\<close>

definition cancel_async_ch :: "driver \<Rightarrow> nat \<Rightarrow> daq_state \<Rightarrow> daq_state" where
  "cancel_async_ch drv i st =
     (if rtlsdr_cancel_async drv (dev (rtl_receivers st ! i)) \<noteq> 0
      then log_msg LOG_ERROR ''Async read stop failed: %s'' st else st)"

definition apply_reconfig :: "driver \<Rightarrow> daq_state \<Rightarrow> daq_state" where
  "apply_reconfig drv st =
     (if reconfig_trigger st = 1
      then (fold (cancel_async_ch drv) [0..<ch_no st] st)\<lparr>reconfig_trigger := 0\<rparr>
      else st)"

text \<open>Lines 636 to 652.\<close>

definition center_freq_ch :: "driver \<Rightarrow> nat \<Rightarrow> daq_state \<Rightarrow> daq_state" where
  "center_freq_ch drv i st =
     (let rtl_rec = rtl_receivers st ! i
      in if rtlsdr_set_center_freq drv (dev rtl_rec) (new_center_freq st) \<noteq> 0
         then log_msg LOG_ERROR ''Failed to set center frequency: %s'' st
         else log_msg LOG_INFO ''Center frequency changed at ch: %d, frequency: %d''
                (st\<lparr>rtl_receivers := (rtl_receivers st)
                       [i := rtl_rec\<lparr>center_freq := rtlsdr_get_center_freq drv (dev rtl_rec)\<rparr>]\<rparr>))"

definition apply_center_freq :: "driver \<Rightarrow> daq_state \<Rightarrow> daq_state" where
  "apply_center_freq drv st =
     (if center_freq_change_flag st = 1
      then (fold (center_freq_ch drv) [0..<ch_no st] st)\<lparr>center_freq_change_flag := 0\<rparr>
      else st)"

text \<open>Lines 655 to 669.\<close>

definition gain_ch :: "driver \<Rightarrow> nat \<Rightarrow> daq_state \<Rightarrow> daq_state" where
  "gain_ch drv i st =
     (let rtl_rec = rtl_receivers st ! i
      in if rtlsdr_set_tuner_gain drv (dev rtl_rec) (new_gains st ! i) \<noteq> 0
         then log_msg LOG_ERROR ''Failed to set gain value: %s'' st
         else (log_msg LOG_INFO ''Gain change at ch: %d, gain %d'' st)
                \<lparr>rtl_receivers := (rtl_receivers st)[i := rtl_rec\<lparr>gain := new_gains st ! i\<rparr>]\<rparr>)"

definition apply_gain :: "driver \<Rightarrow> daq_state \<Rightarrow> daq_state" where
  "apply_gain drv st =
     (if gain_change_flag st = 1
      then (fold (gain_ch drv) [0..<ch_no st] st)\<lparr>gain_change_flag := 0\<rparr>
      else st)"

text \<open>
  Lines 671 to 695: the noise source switch. \<^verbatim>\<open>rtl_receivers\<close> is indexed by
  \<^verbatim>\<open>ctr_channel_dev_index\<close> and by the constant 7; an index outside the array is an error.
\<close>

definition get_receiver :: "rtl_rec_struct list \<Rightarrow> int \<Rightarrow> access_error + rtl_rec_struct" where
  "get_receiver recs i =
     (if 0 \<le> i \<and> i < int (length recs) then Inr (recs ! nat i) else Inl (OutOfBounds i))"

definition set_gpio_at :: "int \<Rightarrow> daq_state \<Rightarrow> access_error + daq_state" where
  "set_gpio_at idx st =
     (if noise_source_state st = 1 then
        (case get_receiver (rtl_receivers st) idx of
           Inl e \<Rightarrow> Inl e
         | Inr r \<Rightarrow> Inr (st\<lparr>gpio_trace := gpio_trace st @ [(dev r, 1, 0)]\<rparr>))
      else if noise_source_state st = 0 then
        (case get_receiver (rtl_receivers st) idx of
           Inl e \<Rightarrow> Inl e
         | Inr r \<Rightarrow> Inr (st\<lparr>gpio_trace := gpio_trace st @ [(dev r, 0, 0)]\<rparr>))
      else Inr st)"

definition noise_source_log :: "daq_state \<Rightarrow> daq_state" where
  "noise_source_log st =
     (if noise_source_state st = 1 then log_msg LOG_INFO ''Noise source turned on '' st
      else if noise_source_state st = 0 then log_msg LOG_INFO ''Noise source turned off '' st
      else st)"

definition noise_source_switch :: "daq_state \<Rightarrow> access_error + daq_state" where
  "noise_source_switch st =
     (if last_noise_source_state st \<noteq> noise_source_state st
         \<and> cfg_en_noise_source_ctr (config st) = 1
      then
        (case set_gpio_at (ctr_channel_dev_index st) st of
           Inl e \<Rightarrow> Inl e
         | Inr st1 \<Rightarrow>
             (let st2 = noise_source_log st1
              in if 4 < ch_no st2
                 then set_gpio_at 7
                        (log_msg LOG_WARN
                           ''Noise source is controlled on the second Kerberos SDR as well'' st2)
                 else Inr st2))
      else Inr st)"

definition tuner_control :: "driver \<Rightarrow> daq_state \<Rightarrow> daq_state" where
  "tuner_control drv st =
     (let st3 = apply_gain drv (apply_center_freq drv (apply_reconfig drv st))
      in case noise_source_switch st3 of
           Inl e \<Rightarrow> st3\<lparr>fault := Some e\<rparr>
         | Inr st4 \<Rightarrow> st4\<lparr>last_noise_source_state := noise_source_state st4\<rparr>)"

text \<open>
  Lines 531 to 697: the body of the acquisition loop after \<^verbatim>\<open>pthread_cond_wait\<close> returns,
  at time \<open>now\<close> (the value of \<^verbatim>\<open>time(NULL)\<close>).
\<close>

definition main_loop_body :: "64 word \<Rightarrow> driver \<Rightarrow> daq_state \<Rightarrow> daq_state" where
  "main_loop_body now drv st =
     (if data_ready st then tuner_control drv (emit_frame now st) else st)"

text \<open>
  One wake-up of \<^verbatim>\<open>main\<close> out of \<^verbatim>\<open>pthread_cond_wait\<close>: the body, then the loop condition
  \<^verbatim>\<open>!exit_flag\<close> of line 525.
\<close>

definition main_wake :: "64 word \<Rightarrow> driver \<Rightarrow> daq_state \<Rightarrow> daq_state" where
  "main_wake now drv st =
     (if main_done st \<or> fault st \<noteq> None then st
      else (let st' = main_loop_body now drv st in st'\<lparr>main_done := (exit_flag st' \<noteq> 0)\<rparr>))"

subsection \<open>Shutdown and the exit code\<close>

text \<open>Lines 700 to 719: the loop returns \<open>-1\<close> from \<^verbatim>\<open>main\<close> at the first failing cancel.\<close>

fun shutdown_loop :: "driver \<Rightarrow> nat list \<Rightarrow> daq_state \<Rightarrow> int option \<times> daq_state" where
  "shutdown_loop drv [] st = (None, st)"
| "shutdown_loop drv (i # is) st =
     (if rtlsdr_cancel_async drv (dev (rtl_receivers st ! i)) \<noteq> 0
      then (Some (- 1), log_msg LOG_FATAL ''Async read stop failed: %s'' st)
      else shutdown_loop drv is st)"

text \<open>Lines 699 to 724: what \<^verbatim>\<open>main\<close> returns once it has left the acquisition loop.\<close>

definition main_exit :: "driver \<Rightarrow> daq_state \<Rightarrow> int \<times> daq_state" where
  "main_exit drv st =
     (case shutdown_loop drv [0..<ch_no st] (log_msg LOG_INFO ''Exiting..'' st) of
        (Some rc, st1) \<Rightarrow> (rc, st1)
      | (None, st1) \<Rightarrow> (0, log_msg LOG_INFO ''All the resources are free now'' st1))"

subsection \<open>Runs\<close>

text \<open>
  The events of a run after startup: the outcome of opening the control FIFO, one command
  read by the control thread (its loop runs while \<^verbatim>\<open>exit_flag\<close> is not set), one call of the
  driver callback of a receiver, one (re)configuration of a receiver by its reader thread,
  and one wake-up of \<^verbatim>\<open>main\<close>.
\<close>

datatype event =
    FifoOpen bool
  | Control ctl_read
  | Callback nat "8 word list"
  | Configure nat driver
  | Wake "64 word" driver

fun step :: "event \<Rightarrow> daq_state \<Rightarrow> daq_state" where
  "step (FifoOpen ok) st = fifo_read_tf_open ok st"
| "step (Control rd) st = (if exit_flag st \<noteq> 0 then st else fifo_read_tf_cmd rd st)"
| "step (Callback i buf) st = (if fault st \<noteq> None then st else reader_callback i buf st)"
| "step (Configure i drv) st = read_thread_configure drv i st"
| "step (Wake now drv) st = main_wake now drv st"

definition run :: "event list \<Rightarrow> daq_state \<Rightarrow> daq_state" where
  "run evs st = fold step evs st"

text \<open>The frames a run writes, beyond those already on standard output.\<close>

definition frames_of :: "event list \<Rightarrow> daq_state \<Rightarrow> frame list" where
  "frames_of evs st = drop (length (stdout st)) (stdout (run evs st))"

subsection \<open>Startup\<close>

text \<open>
  What \<^verbatim>\<open>main\<close> gets from outside before the acquisition loop: the return value of
  \<^verbatim>\<open>ini_parse\<close> and the configuration its handler stored, the value of the macro
  \<^verbatim>\<open>SYNC_WORD\<close> (defined in \<^verbatim>\<open>iq_header.h\<close>, not among the sources), the device index
  \<^verbatim>\<open>rtlsdr_get_index_by_serial\<close> returns for the serial number printed with \<^verbatim>\<open>%d\<close>, whether
  \<^verbatim>\<open>malloc\<close> of the ring buffer of channel \<open>i\<close> fails and the octets the fresh memory holds,
  and the return value and handle of \<^verbatim>\<open>rtlsdr_open\<close> for a device index.
\<close>

record startup_env =
  env_ini_parse :: int
  env_config :: configuration
  env_SYNC_WORD :: "32 word"
  env_index_by_serial :: "int \<Rightarrow> int"
  env_malloc_fails :: "nat \<Rightarrow> bool"
  env_mem :: "nat \<Rightarrow> nat \<Rightarrow> 8 word"
  env_open :: "int \<Rightarrow> int \<times> nat"

text \<open>Lines 463 to 488: the header after startup.\<close>

definition init_header :: "startup_env \<Rightarrow> nat \<Rightarrow> iq_header_struct" where
  "init_header env n =
     (let cfg = env_config env
      in \<lparr>sync_word = env_SYNC_WORD env,
          header_version = 7,
          hardware_id = cfg_hw_name cfg,
          unit_id = word_of_int (cfg_hw_unit_id cfg),
          active_ant_chs = of_nat n,
          hdr_ioo_type = word_of_int (cfg_ioo_type cfg),
          rf_center_freq = word_of_int (cfg_center_freq cfg),
          adc_sampling_freq = word_of_int (cfg_sample_rate cfg),
          sampling_freq = word_of_int (cfg_sample_rate cfg),
          cpi_length = word_of_int (cfg_daq_buffer_size cfg),
          time_stamp = 0,
          daq_block_index = 0,
          cpi_index = 0,
          ext_integration_cntr = 0,
          frame_type = FRAME_TYPE_DATA,
          data_type = 2,
          sample_bit_depth = 8,
          adc_overdrive_flags = 0,
          if_gains = (\<lambda>m. if m < n then word_of_int (cfg_gain cfg) else 0),
          delay_sync_flag = 0,
          iq_sync_flag = 0,
          sync_state = 0,
          hdr_noise_source_state = 0\<rparr>)"

text \<open>
  Lines 424 to 461 and 497 to 507: the receiver record of channel \<open>i\<close> once its device is
  open. The ring buffer is \<^verbatim>\<open>malloc(NUM_BUFF * buffer_size * sizeof(uint8_t))\<close>, the product
  of the first two computed in \<^verbatim>\<open>uint32_t\<close>.
\<close>

definition init_receiver :: "startup_env \<Rightarrow> nat \<Rightarrow> nat \<Rightarrow> rtl_rec_struct" where
  "init_receiver env bs i =
     (let cfg = env_config env;
          dev_index = env_index_by_serial env (1000 + int i)
      in \<lparr>dev_ind = dev_index,
          gain = cfg_gain cfg,
          dev = snd (env_open env dev_index),
          buffer = map (env_mem env i) [0..<(NUM_BUFF * bs) mod 2 ^ 32],
          buff_ind = 0,
          center_freq = word_of_int (cfg_center_freq cfg),
          sample_rate = word_of_int (cfg_sample_rate cfg)\<rparr>)"

text \<open>
  Lines 395 to 518: \<^verbatim>\<open>main\<close> up to the acquisition loop. \<open>Inl rc\<close> is \<^verbatim>\<open>return rc\<close>; \<open>Inr st\<close>
  is the state in which the loop is entered (the log holds the entries of the path
  without a fatal error).
\<close>

definition main_startup :: "startup_env \<Rightarrow> int + daq_state" where
  "main_startup env =
     (if env_ini_parse env < 0 then Inl (- 1)
      else
        (let cfg = env_config env;
             bs = nat ((cfg_daq_buffer_size cfg * 2) mod 2 ^ 32);
             n = nat (cfg_num_ch cfg mod 2 ^ 32);
             ctr = env_index_by_serial env (cfg_ctr_channel_serial_no cfg)
         in if list_ex (\<lambda>i. env_index_by_serial env (1000 + int i) = - 3) [0..<n] then Inl (- 1)
            else if list_ex (env_malloc_fails env) [0..<n] then Inl (- 1)
            else if list_ex (\<lambda>i. fst (env_open env (env_index_by_serial env (1000 + int i))) \<noteq> 0)
                      [0..<n]
            then Inl (- 1)
            else Inr
              \<lparr>en_dummy_frame = 0,
               dummy_frame_cntr = 0,
               rtl_receivers = map (init_receiver env bs) [0..<n],
               reconfig_trigger = 0,
               exit_flag = 0,
               noise_source_state = 0,
               last_noise_source_state = 0,
               gain_change_flag = 0,
               new_gains = replicate n 0,
               new_center_freq = 0,
               center_freq_change_flag = 0,
               ch_no = n,
               buffer_size = bs,
               ctr_channel_dev_index = (if ctr = - 3 then 0 else ctr),
               config = cfg,
               iq_header = init_header env n,
               read_buff_ind = 0,
               rd_buff_ind = 1,
               overdrive_flags = 0,
               gain_read = 0,
               center_freq_read = 0,
               sample_rate_read = 0,
               stdout = [],
               log_out =
                 [(LOG_INFO, ''Config succesfully loaded from %s''),
                  (LOG_INFO, ''Channel number: %d''),
                  (LOG_INFO, ''Number of IQ samples per channel: %d''),
                  (LOG_INFO, ''Starting multichannel coherent RTL-SDR receiver''),
                  (LOG_INFO, if cfg_en_noise_source_ctr cfg = 1
                             then ''Noise source control: enabled''
                             else ''Noise source control: disabled'')]
                 @ replicate n (LOG_INFO, ''Device serial:%s, index: %d'')
                 @ (if ctr = - 3
                    then [(LOG_WARN, ''Failed to identify control channel index based on its configured serial number:%s''),
                          (LOG_WARN, ''Set to default device index: 0'')]
                    else []),
               gpio_trace = [],
               main_done = False,
               fault = None\<rparr>))"

text \<open>
  The whole of \<^verbatim>\<open>main\<close>: startup, then the events of the run, then, once \<^verbatim>\<open>main\<close> has left
  the acquisition loop, the shutdown with the driver as it answers then. The result is the
  exit code of the process; it is \<open>None\<close> while \<^verbatim>\<open>main\<close> is still in its loop, or after an
  out-of-bounds access.
\<close>

definition main :: "startup_env \<Rightarrow> event list \<Rightarrow> driver \<Rightarrow> int option" where
  "main env evs drv =
     (case main_startup env of
        Inl rc \<Rightarrow> Some rc
      | Inr st \<Rightarrow>
          (let s = run evs st
           in if main_done s \<and> fault s = None then Some (fst (main_exit drv s)) else None))"

subsection \<open>What the loops of the acquisition cycle compute\<close>

text \<open>
  The overdrive flags after the first \<open>n\<close> iterations of the header loop: the scan reads
  slot \<^verbatim>\<open>rd_buff_ind\<close> as it stands when the header is composed.
\<close>

definition hdr_scan :: "nat \<Rightarrow> daq_state \<Rightarrow> 8 word" where
  "hdr_scan n st =
     fold (\<lambda>i fl. check_overdrive i
                     (slot_bytes (buffer_size st) (rd_buff_ind st) (buffer (rtl_receivers st ! i))) fl)
       [0..<n] (overdrive_flags st)"

text \<open>The header after the first \<open>n\<close> iterations of the header loop.\<close>

definition hdr_fill :: "nat \<Rightarrow> daq_state \<Rightarrow> iq_header_struct" where
  "hdr_fill n st =
     (if n = 0 then iq_header st
      else (iq_header st)
             \<lparr>rf_center_freq := ucast (center_freq (rtl_receivers st ! (n - 1))),
              if_gains := (\<lambda>i. if i < n then word_of_int (gain (rtl_receivers st ! i))
                                else if_gains (iq_header st) i)\<rparr>)"

text \<open>The octets the payload loop writes: slot \<^verbatim>\<open>read_buff_ind % NUM_BUFF\<close> of every channel.\<close>

definition payload_of :: "daq_state \<Rightarrow> 8 word list" where
  "payload_of st =
     concat (map (\<lambda>i. slot_bytes (buffer_size st) (unat (read_buff_ind st mod of_nat NUM_BUFF))
                         (buffer (rtl_receivers st ! i)))
               [0..<ch_no st])"

text \<open>The frame one cycle writes when the data is ready.\<close>

definition next_frame :: "64 word \<Rightarrow> daq_state \<Rightarrow> frame" where
  "next_frame now st =
     \<lparr>hdr = iq_header (complete_header now st),
      payload = (if en_dummy_frame st = 0 then payload_of st else [])\<rparr>"

subsection \<open>Well-formed states\<close>

text \<open>
  What startup establishes and every event keeps: \<^verbatim>\<open>rtl_receivers\<close> and \<^verbatim>\<open>new_gains\<close> have
  \<^verbatim>\<open>ch_no\<close> elements, every ring buffer has \<^verbatim>\<open>NUM_BUFF * buffer_size\<close> octets (a size that
  fits \<^verbatim>\<open>uint32_t\<close>), \<^verbatim>\<open>buffer_size\<close> is twice the configured \<^verbatim>\<open>daq_buffer_size\<close>, and the
  header field \<^verbatim>\<open>active_ant_chs\<close> is \<^verbatim>\<open>ch_no\<close>.
\<close>

definition wf_state :: "daq_state \<Rightarrow> bool" where
  "wf_state st \<longleftrightarrow>
     length (rtl_receivers st) = ch_no st \<and>
     length (new_gains st) = ch_no st \<and>
     ch_no st < 2 ^ 32 \<and>
     NUM_BUFF * buffer_size st < 2 ^ 32 \<and>
     list_all (\<lambda>r. length (buffer r) = NUM_BUFF * buffer_size st) (rtl_receivers st) \<and>
     0 \<le> cfg_daq_buffer_size (config st) \<and>
     int (buffer_size st) = 2 * cfg_daq_buffer_size (config st) \<and>
     active_ant_chs (iq_header st) = of_nat (ch_no st)"

text \<open>
  The fields the tuner control section of the cycle never writes: a state with the
  fields it may write reset.
\<close>

definition tuner_rest :: "daq_state \<Rightarrow> daq_state" where
  "tuner_rest st =
     st\<lparr>rtl_receivers := [], reconfig_trigger := 0, center_freq_change_flag := 0,
        gain_change_flag := 0, last_noise_source_state := 0, log_out := [],
        gpio_trace := [], fault := None\<rparr>"

subsection \<open>Concrete runs\<close>

text \<open>
  A driver whose calls all succeed (device \<open>d\<close> reports the centre frequency \<open>100 + d\<close>),
  and one whose calls all fail with \<open>-1\<close>.
\<close>

definition drv_ok :: driver where
  "drv_ok =
     \<lparr>rtlsdr_set_dithering = (\<lambda>d m. 0), rtlsdr_set_tuner_gain_mode = (\<lambda>d m. 0),
      rtlsdr_set_center_freq = (\<lambda>d f. 0), rtlsdr_get_center_freq = (\<lambda>d. 100 + of_nat d),
      rtlsdr_set_tuner_gain = (\<lambda>d g. 0), rtlsdr_set_sample_rate = (\<lambda>d r. 0),
      rtlsdr_get_sample_rate = (\<lambda>d. 2400000), rtlsdr_set_gpio = (\<lambda>d a b. 0),
      rtlsdr_reset_buffer = (\<lambda>d. 0), rtlsdr_cancel_async = (\<lambda>d. 0)\<rparr>"

definition drv_fail :: driver where
  "drv_fail =
     \<lparr>rtlsdr_set_dithering = (\<lambda>d m. - 1), rtlsdr_set_tuner_gain_mode = (\<lambda>d m. - 1),
      rtlsdr_set_center_freq = (\<lambda>d f. - 1), rtlsdr_get_center_freq = (\<lambda>d. 100 + of_nat d),
      rtlsdr_set_tuner_gain = (\<lambda>d g. - 1), rtlsdr_set_sample_rate = (\<lambda>d r. - 1),
      rtlsdr_get_sample_rate = (\<lambda>d. 2400000), rtlsdr_set_gpio = (\<lambda>d a b. - 1),
      rtlsdr_reset_buffer = (\<lambda>d. - 1), rtlsdr_cancel_async = (\<lambda>d. - 1)\<rparr>"

text \<open>
  A configuration with \<open>n\<close> channels and one IQ sample per block (ring buffers of 16
  octets), noise source control enabled, the control channel at serial number 1000; the
  devices are found at the indices 0, 1, ... and open, and fresh memory holds zeros.
\<close>

definition ex_cfg :: "int \<Rightarrow> configuration" where
  "ex_cfg n =
     \<lparr>cfg_num_ch = n, cfg_daq_buffer_size = 1, cfg_sample_rate = 2400000,
      cfg_center_freq = 100, cfg_gain = 10, cfg_en_noise_source_ctr = 1,
      cfg_ctr_channel_serial_no = 1000, cfg_log_level = 2, cfg_hw_name = ''k4'',
      cfg_hw_unit_id = 0, cfg_ioo_type = 0\<rparr>"

definition ex_env :: "int \<Rightarrow> startup_env" where
  "ex_env n =
     \<lparr>env_ini_parse = 0, env_config = ex_cfg n, env_SYNC_WORD = 0x2bf7b95a,
      env_index_by_serial = (\<lambda>s. s - 1000), env_malloc_fails = (\<lambda>i. False),
      env_mem = (\<lambda>i k. 0), env_open = (\<lambda>d. (0, nat d))\<rparr>"

text \<open>The state in which \<^verbatim>\<open>main\<close> enters the acquisition loop, for \<open>n\<close> channels.\<close>

definition ex_start :: "int \<Rightarrow> daq_state" where
  "ex_start n = projr (main_startup (ex_env n))"

text \<open>Every reader of a two-channel receiver has delivered its first block.\<close>

definition ex_ready :: daq_state where
  "ex_ready = run [Configure 0 drv_ok, Configure 1 drv_ok,
                   Callback 0 [255, 0], Callback 1 [3, 4]] (ex_start 2)"

text \<open>A command octet whose payload reads deliver nothing.\<close>

definition ex_cmd :: "8 word \<Rightarrow> ctl_read" where
  "ex_cmd c = \<lparr>signal = c, rd_center_freq = None, rd_sample_rate = None,
               rd_gain = None, rd_new_gains = []\<rparr>"

text \<open>The same receiver after the command \<open>n\<close> (noise source on).\<close>

definition ex_dummy :: daq_state where
  "ex_dummy = step (Control (ex_cmd 110)) ex_ready"

text \<open>What the noise source switch reads of the state.\<close>

definition noise_view ::
  "daq_state \<Rightarrow> nat \<times> int \<times> int \<times> configuration \<times> int \<times> nat \<times> access_error option" where
  "noise_view st =
     (ch_no st, noise_source_state st, last_noise_source_state st, config st,
      ctr_channel_dev_index st, length (rtl_receivers st), fault st)"

text \<open>A receiver of \<open>n\<close> channels right after startup and the command \<open>n\<close> (noise source on).\<close>

definition ex_noise :: "int \<Rightarrow> daq_state" where
  "ex_noise n = step (Control (ex_cmd 110)) (ex_start n)"

text \<open>
  The two-channel receiver after its first frame, and after every reader has then
  delivered its second block.
\<close>

definition ex_frame0 :: daq_state where
  "ex_frame0 = step (Wake 0 drv_ok) ex_ready"

definition ex_second :: daq_state where
  "ex_second = run [Callback 0 [1, 1], Callback 1 [2, 2]] ex_frame0"

text \<open>The same, with the command \<open>n\<close> read before the second frame.\<close>

definition ex_second_dummy :: daq_state where
  "ex_second_dummy = step (Control (ex_cmd 110)) ex_second"

text \<open>
  The retune command \<open>r\<close> with centre frequency 200, sample rate 2400000 and gain 300, read
  when every reader has delivered its first block; then the wake-up of \<^verbatim>\<open>main\<close>; then every
  reader configures its device again, with every driver call rejected, and delivers a
  block.
\<close>

definition ex_r300 :: ctl_read where
  "ex_r300 = \<lparr>signal = 114, rd_center_freq = Some 200, rd_sample_rate = Some 2400000,
              rd_gain = Some 300, rd_new_gains = []\<rparr>"

definition ex_retune :: daq_state where
  "ex_retune = step (Control ex_r300) ex_ready"

definition ex_retune_woken :: daq_state where
  "ex_retune_woken = step (Wake 0 drv_ok) ex_retune"

definition ex_retuned :: daq_state where
  "ex_retuned = run [Configure 0 drv_fail, Configure 1 drv_fail,
                     Callback 0 [1, 1], Callback 1 [2, 2]] ex_retune_woken"

text \<open>Startup with every driver call of the first configuration rejected.\<close>

definition ex_rejected :: daq_state where
  "ex_rejected = run [Configure 0 drv_fail, Configure 1 drv_fail,
                      Callback 0 [255, 0], Callback 1 [3, 4]] (ex_start 2)"

subsection \<open>Views of a run\<close>

text \<open>The ring of a receiver: its buffer and its write counter.\<close>

definition ring_of :: "rtl_rec_struct \<Rightarrow> 8 word list \<times> 64 word" where
  "ring_of r = (buffer r, buff_ind r)"

definition rings :: "daq_state \<Rightarrow> (8 word list \<times> 64 word) list" where
  "rings st = map ring_of (rtl_receivers st)"

text \<open>The events that are commands of the control thread.\<close>

fun is_control :: "event \<Rightarrow> bool" where
  "is_control (Control rd) = True"
| "is_control _ = False"


text \<open>The frames left in the dummy window: \<^verbatim>\<open>NO_DUMMY_FRAMES - dummy_frame_cntr\<close> while it is open.\<close>

definition dummies_left :: "daq_state \<Rightarrow> nat" where
  "dummies_left st =
     (if en_dummy_frame st \<noteq> 0 then nat (NO_DUMMY_FRAMES - dummy_frame_cntr st) else 0)"

text \<open>A main thread that is in its loop, with no noise source switch pending.\<close>

definition main_running :: "daq_state \<Rightarrow> bool" where
  "main_running st \<longleftrightarrow>
     \<not> main_done st \<and> fault st = None \<and> exit_flag st = 0
     \<and> last_noise_source_state st = noise_source_state st"

text \<open>
  A one-channel receiver whose reader has delivered nine blocks before \<^verbatim>\<open>main\<close> is first
  woken: block \<open>k\<close> holds the octets \<open>k, k\<close>. Then the commands \<open>c\<close> and \<open>g\<close> are read.
\<close>

definition ex_nine_events :: "event list" where
  "ex_nine_events = [Configure 0 drv_ok,
                     Callback 0 [0, 0], Callback 0 [1, 1], Callback 0 [2, 2],
                     Callback 0 [3, 3], Callback 0 [4, 4], Callback 0 [5, 5],
                     Callback 0 [6, 6], Callback 0 [7, 7], Callback 0 [8, 8]]"

definition ex_nine :: daq_state where
  "ex_nine = run ex_nine_events (ex_start 1)"

text \<open>The events that lead the two-channel receiver to its first frame.\<close>

definition ex_ready_events :: "event list" where
  "ex_ready_events = [Configure 0 drv_ok, Configure 1 drv_ok,
                      Callback 0 [255, 0], Callback 1 [3, 4]]"

definition ex_nine_cmds :: daq_state where
  "ex_nine_cmds = run (map Control [ex_cmd 99, ex_cmd 103]) ex_nine"



section \<open>Properties\<close>

subsection \<open>The frame of one cycle\<close>

lemma fold_fill_header_ch:
  "fold fill_header_ch [0..<n] st = st\<lparr>iq_header := hdr_fill n st, overdrive_flags := hdr_scan n st\<rparr>"
proof (induction n)
  case 0
  show ?case by (simp add: hdr_fill_def hdr_scan_def)
next
  case (Suc n)
  have "fold fill_header_ch [0..<Suc n] st = fill_header_ch n (fold fill_header_ch [0..<n] st)"
    by simp
  also have "\<dots> = fill_header_ch n (st\<lparr>iq_header := hdr_fill n st, overdrive_flags := hdr_scan n st\<rparr>)"
    by (simp only: Suc.IH)
  also have "\<dots> = st\<lparr>iq_header := hdr_fill (Suc n) st, overdrive_flags := hdr_scan (Suc n) st\<rparr>"
    by (auto simp: fill_header_ch_def hdr_fill_def hdr_scan_def Let_def fun_eq_iff)
  finally show ?case .
qed

lemma fold_write_payload_ch:
  "fold write_payload_ch [0..<n] (st, out) =
     ((if n = 0 then st else st\<lparr>rd_buff_ind := unat (read_buff_ind st mod of_nat NUM_BUFF)\<rparr>),
      out @ concat (map (\<lambda>i. slot_bytes (buffer_size st)
                                  (unat (read_buff_ind st mod of_nat NUM_BUFF))
                                  (buffer (rtl_receivers st ! i))) [0..<n]))"
proof (induction n)
  case 0
  show ?case by simp
next
  case (Suc n)
  have "fold write_payload_ch [0..<Suc n] (st, out) =
          write_payload_ch n (fold write_payload_ch [0..<n] (st, out))"
    by simp
  also have "\<dots> = ((if Suc n = 0 then st
                      else st\<lparr>rd_buff_ind := unat (read_buff_ind st mod of_nat NUM_BUFF)\<rparr>),
      out @ concat (map (\<lambda>i. slot_bytes (buffer_size st)
                                  (unat (read_buff_ind st mod of_nat NUM_BUFF))
                                  (buffer (rtl_receivers st ! i))) [0..<Suc n]))"
    unfolding Suc.IH by (simp add: write_payload_ch_def Let_def)
  finally show ?case .
qed

lemma hdr_scan_upd:
  "hdr_scan n (st\<lparr>iq_header := h\<rparr>) = hdr_scan n st"
  by (simp add: hdr_scan_def)

lemma complete_header_fields:
  "rtl_receivers (complete_header now st) = rtl_receivers st"
  "ch_no (complete_header now st) = ch_no st"
  "buffer_size (complete_header now st) = buffer_size st"
  "en_dummy_frame (complete_header now st) = en_dummy_frame st"
  "dummy_frame_cntr (complete_header now st) = dummy_frame_cntr st"
  "read_buff_ind (complete_header now st) = read_buff_ind st"
  "rd_buff_ind (complete_header now st) = rd_buff_ind st"
  "stdout (complete_header now st) = stdout st"
  "overdrive_flags (complete_header now st) = hdr_scan (ch_no st) st"
  "exit_flag (complete_header now st) = exit_flag st"
  "noise_source_state (complete_header now st) = noise_source_state st"
  "config (complete_header now st) = config st"
  "fault (complete_header now st) = fault st"
  "main_done (complete_header now st) = main_done st"
  "new_gains (complete_header now st) = new_gains st"
  by (simp_all add: complete_header_def fold_fill_header_ch Let_def hdr_scan_upd)

lemma complete_header_hdr:
  "iq_header (complete_header now st) =
     (let h1 = hdr_fill (ch_no st)
                 (st\<lparr>iq_header := (iq_header st)
                      \<lparr>time_stamp := now, daq_block_index := ucast (read_buff_ind st)\<rparr>\<rparr>);
          h2 = h1\<lparr>adc_overdrive_flags := ucast (hdr_scan (ch_no st) st),
                  hdr_noise_source_state := word_of_int (noise_source_state st)\<rparr>
      in if en_dummy_frame st \<noteq> 0
         then h2\<lparr>frame_type := FRAME_TYPE_DUMMY, data_type := 0, cpi_length := 0\<rparr>
         else h2\<lparr>cpi_length := word_of_int (cfg_daq_buffer_size (config st)),
                 data_type := 1,
                 frame_type := (if noise_source_state st = 1 then FRAME_TYPE_CAL
                                else FRAME_TYPE_DATA)\<rparr>)"
  by (simp add: complete_header_def fold_fill_header_ch Let_def hdr_scan_upd)

lemma write_frame_stdout:
  "stdout (write_frame st) =
     stdout st @ [\<lparr>hdr = iq_header st,
                   payload = (if en_dummy_frame st = 0 then payload_of st else [])\<rparr>]"
  by (simp add: write_frame_def Let_def log_msg_def fold_write_payload_ch payload_of_def)

lemma write_frame_fields:
  "rtl_receivers (write_frame st) = rtl_receivers st"
  "ch_no (write_frame st) = ch_no st"
  "buffer_size (write_frame st) = buffer_size st"
  "read_buff_ind (write_frame st) = read_buff_ind st + 1"
  "overdrive_flags (write_frame st) = 0"
  "exit_flag (write_frame st) = exit_flag st"
  "noise_source_state (write_frame st) = noise_source_state st"
  "config (write_frame st) = config st"
  "fault (write_frame st) = fault st"
  "main_done (write_frame st) = main_done st"
  "new_gains (write_frame st) = new_gains st"
  "iq_header (write_frame st) = iq_header st"
  by (simp_all add: write_frame_def Let_def log_msg_def fold_write_payload_ch)

lemma write_frame_dummy:
  "en_dummy_frame (write_frame st) =
     (if en_dummy_frame st \<noteq> 0 \<and> dummy_frame_cntr st + 1 = NO_DUMMY_FRAMES then 0
      else en_dummy_frame st)"
  "dummy_frame_cntr (write_frame st) =
     (if en_dummy_frame st \<noteq> 0 then dummy_frame_cntr st + 1 else dummy_frame_cntr st)"
  "rd_buff_ind (write_frame st) =
     (if en_dummy_frame st = 0 \<and> ch_no st \<noteq> 0
      then unat (read_buff_ind st mod of_nat NUM_BUFF) else rd_buff_ind st)"
  by (simp_all add: write_frame_def Let_def log_msg_def fold_write_payload_ch)

lemma payload_of_complete_header:
  "payload_of (complete_header now st) = payload_of st"
  by (simp add: payload_of_def complete_header_fields)

lemma emit_frame_stdout:
  "stdout (emit_frame now st) = stdout st @ [next_frame now st]"
  by (simp add: emit_frame_def write_frame_stdout complete_header_fields next_frame_def
      payload_of_complete_header)

lemma emit_frame_fields:
  "rtl_receivers (emit_frame now st) = rtl_receivers st"
  "ch_no (emit_frame now st) = ch_no st"
  "buffer_size (emit_frame now st) = buffer_size st"
  "read_buff_ind (emit_frame now st) = read_buff_ind st + 1"
  "overdrive_flags (emit_frame now st) = 0"
  "exit_flag (emit_frame now st) = exit_flag st"
  "noise_source_state (emit_frame now st) = noise_source_state st"
  "config (emit_frame now st) = config st"
  "fault (emit_frame now st) = fault st"
  "main_done (emit_frame now st) = main_done st"
  "new_gains (emit_frame now st) = new_gains st"
  "iq_header (emit_frame now st) = iq_header (complete_header now st)"
  by (simp_all add: emit_frame_def write_frame_fields complete_header_fields)

lemma emit_frame_dummy:
  "en_dummy_frame (emit_frame now st) =
     (if en_dummy_frame st \<noteq> 0 \<and> dummy_frame_cntr st + 1 = NO_DUMMY_FRAMES then 0
      else en_dummy_frame st)"
  "dummy_frame_cntr (emit_frame now st) =
     (if en_dummy_frame st \<noteq> 0 then dummy_frame_cntr st + 1 else dummy_frame_cntr st)"
  "rd_buff_ind (emit_frame now st) =
     (if en_dummy_frame st = 0 \<and> ch_no st \<noteq> 0
      then unat (read_buff_ind st mod of_nat NUM_BUFF) else rd_buff_ind st)"
  by (simp_all add: emit_frame_def write_frame_dummy complete_header_fields)

subsection \<open>Tuner control leaves the frame stream alone\<close>

lemma fold_keeps:
  assumes "\<And>i s. g (f i s) = g s"
  shows "g (fold f xs s) = g s"
  using assms by (induction xs arbitrary: s) simp_all

lemma tuner_rest_cancel_async_ch: "tuner_rest (cancel_async_ch drv i st) = tuner_rest st"
  by (simp add: cancel_async_ch_def tuner_rest_def log_msg_def)

lemma tuner_rest_center_freq_ch: "tuner_rest (center_freq_ch drv i st) = tuner_rest st"
  by (simp add: center_freq_ch_def tuner_rest_def log_msg_def Let_def)

lemma tuner_rest_gain_ch: "tuner_rest (gain_ch drv i st) = tuner_rest st"
  by (simp add: gain_ch_def tuner_rest_def log_msg_def Let_def)

lemma tuner_rest_upd:
  "tuner_rest (st\<lparr>reconfig_trigger := a\<rparr>) = tuner_rest st"
  "tuner_rest (st\<lparr>center_freq_change_flag := b\<rparr>) = tuner_rest st"
  "tuner_rest (st\<lparr>gain_change_flag := c\<rparr>) = tuner_rest st"
  "tuner_rest (st\<lparr>last_noise_source_state := d\<rparr>) = tuner_rest st"
  "tuner_rest (st\<lparr>fault := e\<rparr>) = tuner_rest st"
  "tuner_rest (st\<lparr>gpio_trace := g\<rparr>) = tuner_rest st"
  "tuner_rest (log_msg lvl m st) = tuner_rest st"
  by (simp_all add: tuner_rest_def log_msg_def)

lemma tuner_rest_apply_reconfig: "tuner_rest (apply_reconfig drv st) = tuner_rest st"
  by (simp add: apply_reconfig_def tuner_rest_upd fold_keeps [where g = tuner_rest]
      tuner_rest_cancel_async_ch)

lemma tuner_rest_apply_center_freq: "tuner_rest (apply_center_freq drv st) = tuner_rest st"
  by (simp add: apply_center_freq_def tuner_rest_upd fold_keeps [where g = tuner_rest]
      tuner_rest_center_freq_ch)

lemma tuner_rest_apply_gain: "tuner_rest (apply_gain drv st) = tuner_rest st"
  by (simp add: apply_gain_def tuner_rest_upd fold_keeps [where g = tuner_rest]
      tuner_rest_gain_ch)

lemma tuner_rest_set_gpio_at:
  "set_gpio_at idx st = Inr st' \<Longrightarrow> tuner_rest st' = tuner_rest st"
  by (auto simp: set_gpio_at_def tuner_rest_upd split: if_splits sum.splits)

lemma tuner_rest_noise_source_switch:
  "noise_source_switch st = Inr st' \<Longrightarrow> tuner_rest st' = tuner_rest st"
  by (auto simp: noise_source_switch_def noise_source_log_def tuner_rest_upd Let_def
      split: if_splits sum.splits dest!: tuner_rest_set_gpio_at)

lemma tuner_rest_tuner_control: "tuner_rest (tuner_control drv st) = tuner_rest st"
  by (auto simp: tuner_control_def Let_def tuner_rest_upd tuner_rest_apply_gain
      tuner_rest_apply_center_freq tuner_rest_apply_reconfig
      split: sum.splits dest!: tuner_rest_noise_source_switch)

lemma tuner_rest_fields:
  "stdout (tuner_rest st) = stdout st"
  "en_dummy_frame (tuner_rest st) = en_dummy_frame st"
  "dummy_frame_cntr (tuner_rest st) = dummy_frame_cntr st"
  "exit_flag (tuner_rest st) = exit_flag st"
  "read_buff_ind (tuner_rest st) = read_buff_ind st"
  "rd_buff_ind (tuner_rest st) = rd_buff_ind st"
  "ch_no (tuner_rest st) = ch_no st"
  "buffer_size (tuner_rest st) = buffer_size st"
  "config (tuner_rest st) = config st"
  "iq_header (tuner_rest st) = iq_header st"
  "noise_source_state (tuner_rest st) = noise_source_state st"
  "main_done (tuner_rest st) = main_done st"
  "new_gains (tuner_rest st) = new_gains st"
  "overdrive_flags (tuner_rest st) = overdrive_flags st"
  by (simp_all add: tuner_rest_def)

lemma tuner_control_stdout: "stdout (tuner_control drv st) = stdout st"
  using arg_cong [OF tuner_rest_tuner_control, of stdout drv st]
  by (simp add: tuner_rest_fields)

lemma tuner_control_dummy:
  "en_dummy_frame (tuner_control drv st) = en_dummy_frame st"
  "dummy_frame_cntr (tuner_control drv st) = dummy_frame_cntr st"
  using arg_cong [OF tuner_rest_tuner_control, of en_dummy_frame drv st]
    arg_cong [OF tuner_rest_tuner_control, of dummy_frame_cntr drv st]
  by (simp_all add: tuner_rest_fields)

lemma tuner_control_exit_flag: "exit_flag (tuner_control drv st) = exit_flag st"
  using arg_cong [OF tuner_rest_tuner_control, of exit_flag drv st]
  by (simp add: tuner_rest_fields)

lemma tuner_control_read_buff_ind: "read_buff_ind (tuner_control drv st) = read_buff_ind st"
  using arg_cong [OF tuner_rest_tuner_control, of read_buff_ind drv st]
  by (simp add: tuner_rest_fields)

lemma main_wake_stdout:
  "stdout (main_wake now drv st) =
     stdout st @ (if \<not> main_done st \<and> fault st = None \<and> data_ready st
                  then [next_frame now st] else [])"
  by (simp add: main_wake_def main_loop_body_def Let_def tuner_control_stdout emit_frame_stdout)

lemma step_wake_stdout:
  "data_ready st \<Longrightarrow> \<not> main_done st \<Longrightarrow> fault st = None \<Longrightarrow>
     stdout (step (Wake now drv) st) = stdout st @ [next_frame now st]"
  by (simp add: main_wake_stdout)

lemma nth_update_field:
  assumes "g (f (xs ! j)) = g (xs ! j)"
  shows "g (xs[j := f (xs ! j)] ! i) = g (xs ! i)"
proof (cases "j < length xs")
  case True
  then show ?thesis using assms by (auto simp: nth_list_update)
next
  case False
  then have "length xs \<le> j" by simp
  then have "xs[j := f (xs ! j)] = xs" by (rule list_update_beyond)
  then show ?thesis by simp
qed

lemma hdr_fill_eqI:
  assumes h: "iq_header a = iq_header b"
    and g: "\<And>i. i < n \<Longrightarrow> gain (rtl_receivers a ! i) = gain (rtl_receivers b ! i)"
    and c: "center_freq (rtl_receivers a ! (n - 1)) = center_freq (rtl_receivers b ! (n - 1))"
  shows "hdr_fill n a = hdr_fill n b"
proof -
  have "(\<lambda>i. if i < n then word_of_int (gain (rtl_receivers a ! i)) else if_gains (iq_header a) i)
        = (\<lambda>i. if i < n then (word_of_int (gain (rtl_receivers b ! i)) :: 32 word)
                else if_gains (iq_header b) i)"
    by (rule ext) (simp add: g h)
  then show ?thesis
    unfolding hdr_fill_def by (simp only: h c)
qed

lemma hdr_scan_eqI:
  assumes "buffer_size a = buffer_size b" and "rd_buff_ind a = rd_buff_ind b"
    and "overdrive_flags a = overdrive_flags b"
    and b: "\<And>i. buffer (rtl_receivers a ! i) = buffer (rtl_receivers b ! i)"
  shows "hdr_scan n a = hdr_scan n b"
  unfolding hdr_scan_def by (simp only: assms)

subsection \<open>The concrete runs, evaluated\<close>

lemmas ex_defs = ex_start_def main_startup_def ex_env_def ex_cfg_def init_receiver_def
  init_header_def NUM_BUFF_def Let_def run_def read_thread_configure_def reader_callback_def
  rtlsdrCallback_def slot_offset_def log_msg_def drv_ok_def

lemma ex_ready_fields:
  "ch_no ex_ready = 2"
  "buffer_size ex_ready = 2"
  "main_done ex_ready = False"
  "fault ex_ready = None"
  "read_buff_ind ex_ready = 0"
  "rd_buff_ind ex_ready = 1"
  "en_dummy_frame ex_ready = 0"
  "dummy_frame_cntr ex_ready = 0"
  "noise_source_state ex_ready = 0"
  "exit_flag ex_ready = 0"
  "overdrive_flags ex_ready = 0"
  "stdout ex_ready = []"
  "length (new_gains ex_ready) = 2"
  "config ex_ready = ex_cfg 2"
  "active_ant_chs (iq_header ex_ready) = 2"
  "rtl_receivers ex_ready =
     [\<lparr>dev_ind = 0, gain = 10, dev = 0,
       buffer = [255, 0, 0, 0, 0, 0, 0, 0, 0, 0, 0, 0, 0, 0, 0, 0], buff_ind = 1,
       center_freq = 100, sample_rate = 2400000\<rparr>,
      \<lparr>dev_ind = 1, gain = 10, dev = 1,
       buffer = [3, 4, 0, 0, 0, 0, 0, 0, 0, 0, 0, 0, 0, 0, 0, 0], buff_ind = 1,
       center_freq = 101, sample_rate = 2400000\<rparr>]"
  by (simp_all add: ex_ready_def ex_defs upt_rec)

lemma ex_ready_data_ready: "data_ready ex_ready"
  by (simp add: data_ready_def ex_ready_fields upt_rec)

lemma ex_ready_wf: "wf_state ex_ready"
  by (simp add: wf_state_def ex_ready_fields NUM_BUFF_def ex_cfg_def)

subsection \<open>C10: the header carries the centre frequency of the last channel\<close>

text \<open>
  Claim C10. In every emitted frame the single header field \<^verbatim>\<open>rf_center_freq\<close> equals the
  \<^verbatim>\<open>center_freq\<close> of the last channel (index \<^verbatim>\<open>ch_no - 1\<close>), because the header loop overwrites
  the field on every iteration; the centre frequencies of the channels before the last are
  not represented: changing one of them changes nothing in the header.
\<close>

theorem rf_center_freq_last_channel:
  assumes "0 < ch_no st" and "data_ready st" and "\<not> main_done st" and "fault st = None"
  shows "\<exists>f. stdout (step (Wake now drv) st) = stdout st @ [f]
           \<and> rf_center_freq (hdr f) = ucast (center_freq (rtl_receivers st ! (ch_no st - 1)))
           \<and> (\<forall>j c. j < ch_no st - 1 \<longrightarrow>
                 iq_header (complete_header now
                   (st\<lparr>rtl_receivers :=
                        (rtl_receivers st)[j := (rtl_receivers st ! j)\<lparr>center_freq := c\<rparr>]\<rparr>))
                 = hdr f)"
proof -
  have 1: "stdout (step (Wake now drv) st) = stdout st @ [next_frame now st]"
    using assms(2-4) by (rule step_wake_stdout)
  have 2: "rf_center_freq (hdr (next_frame now st))
           = ucast (center_freq (rtl_receivers st ! (ch_no st - 1)))"
    using assms(1) by (simp add: next_frame_def complete_header_hdr hdr_fill_def Let_def)
  have 3: "iq_header (complete_header now
                   (st\<lparr>rtl_receivers :=
                        (rtl_receivers st)[j := (rtl_receivers st ! j)\<lparr>center_freq := c\<rparr>]\<rparr>))
           = hdr (next_frame now st)" if j: "j < ch_no st - 1" for j c
  proof -
    let ?R = "(rtl_receivers st)[j := (rtl_receivers st ! j)\<lparr>center_freq := c\<rparr>]"
    let ?H = "(iq_header st)\<lparr>time_stamp := now, daq_block_index := ucast (read_buff_ind st)\<rparr>"
    have g: "gain (?R ! i) = gain (rtl_receivers st ! i)" for i
      by (rule nth_update_field) simp
    have b: "buffer (?R ! i) = buffer (rtl_receivers st ! i)" for i
      by (rule nth_update_field) simp
    from j have "j \<noteq> ch_no st - 1" by simp
    then have c: "?R ! (ch_no st - 1) = rtl_receivers st ! (ch_no st - 1)"
      by simp
    have f: "hdr_fill (ch_no st) (st\<lparr>rtl_receivers := ?R, iq_header := ?H\<rparr>)
             = hdr_fill (ch_no st) (st\<lparr>iq_header := ?H\<rparr>)"
      by (rule hdr_fill_eqI) (use c in \<open>simp_all add: g\<close>)
    have s: "hdr_scan (ch_no st) (st\<lparr>rtl_receivers := ?R\<rparr>) = hdr_scan (ch_no st) st"
      by (rule hdr_scan_eqI) (simp_all add: b)
    show ?thesis
      by (simp add: next_frame_def complete_header_hdr Let_def f s)
  qed
  from 1 2 3 show ?thesis by blast
qed


theorem rf_center_freq_last_channel_witness:
  "0 < ch_no ex_ready \<and> data_ready ex_ready \<and> \<not> main_done ex_ready \<and> fault ex_ready = None
   \<and> (\<exists>f. stdout (step (Wake 0 drv_ok) ex_ready) = stdout ex_ready @ [f]
            \<and> rf_center_freq (hdr f) = 101)"
proof -
  have h: "0 < ch_no ex_ready" "data_ready ex_ready" "\<not> main_done ex_ready"
    "fault ex_ready = None"
    by (simp_all add: ex_ready_fields ex_ready_data_ready)
  from rf_center_freq_last_channel [OF h, of 0 drv_ok]
  obtain f where f: "stdout (step (Wake 0 drv_ok) ex_ready) = stdout ex_ready @ [f]"
    "rf_center_freq (hdr f) = ucast (center_freq (rtl_receivers ex_ready ! (ch_no ex_ready - 1)))"
    by blast
  from f(2) have "rf_center_freq (hdr f) = 101"
    by (simp add: ex_ready_fields)
  with f(1) h show ?thesis by blast
qed

subsection \<open>Slots of a ring buffer\<close>

lemma slot_offset_small:
  assumes "NUM_BUFF * bs < 2 ^ 32" and "ind < NUM_BUFF"
  shows "slot_offset bs ind = bs * ind"
proof -
  from assms(2) have "ind \<le> NUM_BUFF" by simp
  then have "bs * ind \<le> bs * NUM_BUFF" by (rule mult_le_mono2)
  also have "bs * NUM_BUFF < 2 ^ 32"
    using assms(1) by (simp only: mult.commute)
  finally have "bs * ind < 2 ^ 32" .
  then show ?thesis
    by (simp add: slot_offset_def)
qed

lemma length_slot_bytes:
  assumes "length buf = NUM_BUFF * bs" and "NUM_BUFF * bs < 2 ^ 32" and "ind < NUM_BUFF"
  shows "length (slot_bytes bs ind buf) = bs"
proof -
  have "bs * ind + bs \<le> NUM_BUFF * bs"
  proof -
    from assms(3) have "Suc ind \<le> NUM_BUFF" by simp
    then have "bs * Suc ind \<le> bs * NUM_BUFF" by (rule mult_le_mono2)
    then show ?thesis by (simp add: mult.commute)
  qed
  then show ?thesis
    using assms by (simp add: slot_bytes_def slot_offset_small)
qed

lemma unat_mod_NUM_BUFF: "unat ((k :: 64 word) mod of_nat NUM_BUFF) = unat k mod NUM_BUFF"
  by (simp add: unat_mod_distrib NUM_BUFF_def)

lemma unat_mod_NUM_BUFF_less: "unat ((k :: 64 word) mod of_nat NUM_BUFF) < NUM_BUFF"
  unfolding unat_mod_NUM_BUFF by (simp add: NUM_BUFF_def)

lemma length_concat_const:
  assumes "\<And>x. x \<in> set xs \<Longrightarrow> length (f x) = n"
  shows "length (concat (map f xs)) = length xs * n"
  using assms by (induction xs) simp_all

lemma length_payload_of:
  assumes "wf_state st"
  shows "length (payload_of st) = ch_no st * buffer_size st"
proof -
  have "length (slot_bytes (buffer_size st) (unat (read_buff_ind st mod of_nat NUM_BUFF))
                  (buffer (rtl_receivers st ! i))) = buffer_size st"
    if "i \<in> set [0..<ch_no st]" for i
  proof (rule length_slot_bytes)
    from that assms have "i < length (rtl_receivers st)"
      by (simp add: wf_state_def)
    then have "rtl_receivers st ! i \<in> set (rtl_receivers st)"
      by simp
    with assms show "length (buffer (rtl_receivers st ! i)) = NUM_BUFF * buffer_size st"
      by (simp add: wf_state_def list_all_iff)
    from assms show "NUM_BUFF * buffer_size st < 2 ^ 32"
      by (simp add: wf_state_def)
    show "unat (read_buff_ind st mod of_nat NUM_BUFF) < NUM_BUFF"
      by (rule unat_mod_NUM_BUFF_less)
  qed
  then have "length (payload_of st) = length [0..<ch_no st] * buffer_size st"
    unfolding payload_of_def by (rule length_concat_const)
  then show ?thesis by simp
qed

subsection \<open>C6: a command octet that is not a command\<close>

lemma unknown_command:
  assumes "signal rd \<notin> {114, 99, 103, 110, 102, 2}"
  shows "fifo_read_tf_cmd rd st = st\<lparr>en_dummy_frame := 1, dummy_frame_cntr := 0\<rparr>"
  using assms by (simp add: fifo_read_tf_cmd_def)

text \<open>
  Claim C6. A command octet outside \<open>r\<close>, \<open>c\<close>, \<open>g\<close>, \<open>n\<close>, \<open>f\<close> and \<open>0x02\<close> mutates no
  receiver parameter and latches no request flag. As amended: the command still starts (or
  restarts) the dummy window, since \<^verbatim>\<open>en_dummy_frame = 1\<close> and \<^verbatim>\<open>dummy_frame_cntr = 0\<close> are
  assigned after the dispatch for every octet read; these two are the only fields it
  changes, and the next frame composed is a DUMMY frame.
\<close>

theorem unknown_command_restarts_dummy_window:
  assumes "signal rd \<notin> {114, 99, 103, 110, 102, 2}"
  shows "fifo_read_tf_cmd rd st = st\<lparr>en_dummy_frame := 1, dummy_frame_cntr := 0\<rparr>
         \<and> frame_type (hdr (next_frame now (fifo_read_tf_cmd rd st))) = FRAME_TYPE_DUMMY"
proof -
  have "fifo_read_tf_cmd rd st = st\<lparr>en_dummy_frame := 1, dummy_frame_cntr := 0\<rparr>"
    using assms by (rule unknown_command)
  then show ?thesis
    by (simp add: next_frame_def complete_header_hdr Let_def)
qed

theorem unknown_command_restarts_dummy_window_witness:
  "signal (ex_cmd 120) \<notin> {114, 99, 103, 110, 102, 2}
   \<and> fifo_read_tf_cmd (ex_cmd 120) ex_ready = ex_ready\<lparr>en_dummy_frame := 1, dummy_frame_cntr := 0\<rparr>
   \<and> frame_type (hdr (next_frame 0 (fifo_read_tf_cmd (ex_cmd 120) ex_ready))) = FRAME_TYPE_DUMMY"
proof -
  have h: "signal (ex_cmd 120) \<notin> {114, 99, 103, 110, 102, 2}"
    by (simp add: ex_cmd_def)
  from unknown_command_restarts_dummy_window [OF h, of ex_ready 0] h show ?thesis
    by blast
qed

text \<open>
  The claim as stated fails: with the octet \<open>x\<close> (120) read before the first frame, the frame
  is a DUMMY frame where it is a DATA frame without the octet.
\<close>

theorem unknown_command_counterexample:
  "en_dummy_frame ex_ready = 0
   \<and> en_dummy_frame (step (Control (ex_cmd 120)) ex_ready) = 1
   \<and> map (\<lambda>f. frame_type (hdr f)) (stdout (run [Wake 0 drv_ok] ex_ready)) = [FRAME_TYPE_DATA]
   \<and> map (\<lambda>f. frame_type (hdr f)) (stdout (run [Control (ex_cmd 120), Wake 0 drv_ok] ex_ready))
       = [FRAME_TYPE_DUMMY]"
proof -
  let ?x = "fifo_read_tf_cmd (ex_cmd 120) ex_ready"
  have x: "?x = ex_ready\<lparr>en_dummy_frame := 1, dummy_frame_cntr := 0\<rparr>"
    by (rule unknown_command) (simp add: ex_cmd_def)
  have dx: "data_ready ?x"
    unfolding x using ex_ready_data_ready by (simp add: data_ready_def)
  have 1: "en_dummy_frame ex_ready = 0"
    by (simp add: ex_ready_fields)
  have 2: "en_dummy_frame (step (Control (ex_cmd 120)) ex_ready) = 1"
    by (simp add: ex_ready_fields x)
  have 3: "map (\<lambda>f. frame_type (hdr f)) (stdout (run [Wake 0 drv_ok] ex_ready)) = [FRAME_TYPE_DATA]"
    by (simp add: run_def main_wake_stdout ex_ready_fields ex_ready_data_ready next_frame_def
        complete_header_hdr Let_def)
  have "stdout (run [Control (ex_cmd 120), Wake 0 drv_ok] ex_ready) = [next_frame 0 ?x]"
    using dx by (simp add: run_def main_wake_stdout ex_ready_fields) (simp add: x ex_ready_fields)
  then have 4: "map (\<lambda>f. frame_type (hdr f))
                  (stdout (run [Control (ex_cmd 120), Wake 0 drv_ok] ex_ready)) = [FRAME_TYPE_DUMMY]"
    by (simp add: next_frame_def complete_header_hdr Let_def x)
  from 1 2 3 4 show ?thesis by blast
qed

subsection \<open>C9: the noise source switch indexes receiver 7\<close>

lemma noise_view_cancel_async_ch: "noise_view (cancel_async_ch drv i st) = noise_view st"
  by (simp add: cancel_async_ch_def noise_view_def log_msg_def)

lemma noise_view_center_freq_ch: "noise_view (center_freq_ch drv i st) = noise_view st"
  by (simp add: center_freq_ch_def noise_view_def log_msg_def Let_def)

lemma noise_view_gain_ch: "noise_view (gain_ch drv i st) = noise_view st"
  by (simp add: gain_ch_def noise_view_def log_msg_def Let_def)

lemma noise_view_upd:
  "noise_view (st\<lparr>reconfig_trigger := a\<rparr>) = noise_view st"
  "noise_view (st\<lparr>center_freq_change_flag := b\<rparr>) = noise_view st"
  "noise_view (st\<lparr>gain_change_flag := c\<rparr>) = noise_view st"
  by (simp_all add: noise_view_def)

lemma noise_view_apply:
  "noise_view (apply_gain drv (apply_center_freq drv (apply_reconfig drv st))) = noise_view st"
  by (simp add: apply_gain_def apply_center_freq_def apply_reconfig_def noise_view_upd
      fold_keeps [where g = noise_view] noise_view_cancel_async_ch noise_view_center_freq_ch
      noise_view_gain_ch)

lemma noise_source_switch_index_7:
  assumes "last_noise_source_state st \<noteq> noise_source_state st"
    and "cfg_en_noise_source_ctr (config st) = 1"
    and "4 < ch_no st"
    and "length (rtl_receivers st) = ch_no st"
    and "noise_source_state st = 0 \<or> noise_source_state st = 1"
    and "0 \<le> ctr_channel_dev_index st"
    and "ctr_channel_dev_index st < int (ch_no st)"
  shows "noise_source_switch st =
           (if 8 \<le> ch_no st
            then Inr ((log_msg LOG_WARN
                         ''Noise source is controlled on the second Kerberos SDR as well''
                         (noise_source_log st))
                      \<lparr>gpio_trace := gpio_trace st @
                          [(dev (rtl_receivers st ! nat (ctr_channel_dev_index st)),
                            noise_source_state st, 0),
                           (dev (rtl_receivers st ! 7), noise_source_state st, 0)]\<rparr>)
            else Inl (OutOfBounds 7))"
  using assms
  by (auto simp: noise_source_switch_def set_gpio_at_def get_receiver_def noise_source_log_def
      log_msg_def Let_def)

text \<open>
  Claim C9. Whenever the noise source switch is applied (the state differs from the last
  one applied and \<^verbatim>\<open>en_noise_source_ctr\<close> is 1) with more than four channels,
  \<^verbatim>\<open>rtl_receivers\<close> is indexed at the constant 7. The index lies inside the array of
  \<^verbatim>\<open>ch_no\<close> records exactly when \<^verbatim>\<open>ch_no\<close> is at least 8: then the GPIO of the control channel
  and of receiver 7 are set; with 5, 6 or 7 channels the access is out of bounds.
\<close>

theorem noise_source_index_7:
  assumes "last_noise_source_state st \<noteq> noise_source_state st"
    and "cfg_en_noise_source_ctr (config st) = 1"
    and "4 < ch_no st"
    and "length (rtl_receivers st) = ch_no st"
    and "noise_source_state st = 0 \<or> noise_source_state st = 1"
    and "0 \<le> ctr_channel_dev_index st"
    and "ctr_channel_dev_index st < int (ch_no st)"
  shows "((\<exists>r. get_receiver (rtl_receivers st) 7 = Inr r) \<longleftrightarrow> 8 \<le> ch_no st)
         \<and> (8 \<le> ch_no st \<longrightarrow>
               (\<exists>st'. noise_source_switch st = Inr st'
                  \<and> gpio_trace st' = gpio_trace st @
                        [(dev (rtl_receivers st ! nat (ctr_channel_dev_index st)),
                          noise_source_state st, 0),
                         (dev (rtl_receivers st ! 7), noise_source_state st, 0)]))
         \<and> (ch_no st \<in> {5, 6, 7} \<longrightarrow>
               noise_source_switch st = Inl (OutOfBounds 7)
               \<and> fault (tuner_control drv st) = Some (OutOfBounds 7))"
proof -
  have 1: "(\<exists>r. get_receiver (rtl_receivers st) 7 = Inr r) \<longleftrightarrow> 8 \<le> ch_no st"
    using assms(4) by (auto simp: get_receiver_def)
  have 2: "\<exists>st'. noise_source_switch st = Inr st'
                  \<and> gpio_trace st' = gpio_trace st @
                        [(dev (rtl_receivers st ! nat (ctr_channel_dev_index st)),
                          noise_source_state st, 0),
                         (dev (rtl_receivers st ! 7), noise_source_state st, 0)]"
    if "8 \<le> ch_no st"
    using that by (simp add: noise_source_switch_index_7 [OF assms])
  have 3: "noise_source_switch st = Inl (OutOfBounds 7)
           \<and> fault (tuner_control drv st) = Some (OutOfBounds 7)"
    if "ch_no st \<in> {5, 6, 7}"
  proof -
    let ?st3 = "apply_gain drv (apply_center_freq drv (apply_reconfig drv st))"
    from that have small: "\<not> 8 \<le> ch_no st" by auto
    have v: "noise_view ?st3 = noise_view st"
      by (rule noise_view_apply)
    have "noise_source_switch ?st3 =
           (if 8 \<le> ch_no ?st3
            then Inr ((log_msg LOG_WARN
                         ''Noise source is controlled on the second Kerberos SDR as well''
                         (noise_source_log ?st3))
                      \<lparr>gpio_trace := gpio_trace ?st3 @
                          [(dev (rtl_receivers ?st3 ! nat (ctr_channel_dev_index ?st3)),
                            noise_source_state ?st3, 0),
                           (dev (rtl_receivers ?st3 ! 7), noise_source_state ?st3, 0)]\<rparr>)
            else Inl (OutOfBounds 7))"
      by (rule noise_source_switch_index_7) (use v assms in \<open>simp_all add: noise_view_def\<close>)
    moreover from v have "ch_no ?st3 = ch_no st"
      by (simp add: noise_view_def)
    ultimately have "noise_source_switch ?st3 = Inl (OutOfBounds 7)"
      using small by simp
    then have "fault (tuner_control drv st) = Some (OutOfBounds 7)"
      by (simp add: tuner_control_def Let_def)
    moreover have "noise_source_switch st = Inl (OutOfBounds 7)"
      using small by (simp add: noise_source_switch_index_7 [OF assms])
    ultimately show ?thesis by simp
  qed
  from 1 2 3 show ?thesis by blast
qed

lemma ex_noise_fields:
  "last_noise_source_state (ex_noise 5) = 0"
  "noise_source_state (ex_noise 5) = 1"
  "cfg_en_noise_source_ctr (config (ex_noise 5)) = 1"
  "ch_no (ex_noise 5) = 5"
  "length (rtl_receivers (ex_noise 5)) = 5"
  "ctr_channel_dev_index (ex_noise 5) = 0"
  "last_noise_source_state (ex_noise 8) = 0"
  "noise_source_state (ex_noise 8) = 1"
  "cfg_en_noise_source_ctr (config (ex_noise 8)) = 1"
  "ch_no (ex_noise 8) = 8"
  "length (rtl_receivers (ex_noise 8)) = 8"
  "ctr_channel_dev_index (ex_noise 8) = 0"
  "gpio_trace (ex_noise 8) = []"
  "dev (rtl_receivers (ex_noise 8) ! 0) = 0"
  "dev (rtl_receivers (ex_noise 8) ! 7) = 7"
  by (simp_all add: ex_noise_def ex_cmd_def fifo_read_tf_cmd_def ex_start_def main_startup_def
      ex_env_def ex_cfg_def init_receiver_def log_msg_def Let_def upt_rec)

theorem noise_source_index_7_witness:
  "last_noise_source_state (ex_noise 5) \<noteq> noise_source_state (ex_noise 5)
   \<and> cfg_en_noise_source_ctr (config (ex_noise 5)) = 1
   \<and> 4 < ch_no (ex_noise 5)
   \<and> length (rtl_receivers (ex_noise 5)) = ch_no (ex_noise 5)
   \<and> noise_source_state (ex_noise 5) = 1
   \<and> 0 \<le> ctr_channel_dev_index (ex_noise 5)
   \<and> ctr_channel_dev_index (ex_noise 5) < int (ch_no (ex_noise 5))
   \<and> ch_no (ex_noise 5) = 5
   \<and> noise_source_switch (ex_noise 5) = Inl (OutOfBounds 7)
   \<and> fault (tuner_control drv_ok (ex_noise 5)) = Some (OutOfBounds 7)
   \<and> ch_no (ex_noise 8) = 8
   \<and> (\<exists>st'. noise_source_switch (ex_noise 8) = Inr st' \<and> gpio_trace st' = [(0, 1, 0), (7, 1, 0)])"
proof -
  have h5: "last_noise_source_state (ex_noise 5) \<noteq> noise_source_state (ex_noise 5)"
    "cfg_en_noise_source_ctr (config (ex_noise 5)) = 1"
    "4 < ch_no (ex_noise 5)"
    "length (rtl_receivers (ex_noise 5)) = ch_no (ex_noise 5)"
    "noise_source_state (ex_noise 5) = 0 \<or> noise_source_state (ex_noise 5) = 1"
    "0 \<le> ctr_channel_dev_index (ex_noise 5)"
    "ctr_channel_dev_index (ex_noise 5) < int (ch_no (ex_noise 5))"
    by (simp_all add: ex_noise_fields)
  have h8: "last_noise_source_state (ex_noise 8) \<noteq> noise_source_state (ex_noise 8)"
    "cfg_en_noise_source_ctr (config (ex_noise 8)) = 1"
    "4 < ch_no (ex_noise 8)"
    "length (rtl_receivers (ex_noise 8)) = ch_no (ex_noise 8)"
    "noise_source_state (ex_noise 8) = 0 \<or> noise_source_state (ex_noise 8) = 1"
    "0 \<le> ctr_channel_dev_index (ex_noise 8)"
    "ctr_channel_dev_index (ex_noise 8) < int (ch_no (ex_noise 8))"
    by (simp_all add: ex_noise_fields)
  from noise_source_index_7 [OF h5, of drv_ok]
  have A: "noise_source_switch (ex_noise 5) = Inl (OutOfBounds 7)
           \<and> fault (tuner_control drv_ok (ex_noise 5)) = Some (OutOfBounds 7)"
    by (simp add: ex_noise_fields)
  from noise_source_index_7 [OF h8, of drv_ok]
  have B: "\<exists>st'. noise_source_switch (ex_noise 8) = Inr st' \<and> gpio_trace st' = [(0, 1, 0), (7, 1, 0)]"
    by (simp add: ex_noise_fields)
  from h5 A B show ?thesis
    by (simp add: ex_noise_fields)
qed

subsection \<open>The fields after one wake-up\<close>

lemma next_frame_fields:
  "frame_type (hdr (next_frame now st)) =
     (if en_dummy_frame st \<noteq> 0 then FRAME_TYPE_DUMMY
      else if noise_source_state st = 1 then FRAME_TYPE_CAL else FRAME_TYPE_DATA)"
  "adc_overdrive_flags (hdr (next_frame now st)) = ucast (hdr_scan (ch_no st) st)"
  "payload (next_frame now st) = (if en_dummy_frame st = 0 then payload_of st else [])"
  "if_gains (hdr (next_frame now st)) i =
     (if i < ch_no st then word_of_int (gain (rtl_receivers st ! i))
      else if_gains (iq_header st) i)"
  "daq_block_index (hdr (next_frame now st)) = ucast (read_buff_ind st)"
  "cpi_length (hdr (next_frame now st)) =
     (if en_dummy_frame st \<noteq> 0 then 0 else word_of_int (cfg_daq_buffer_size (config st)))"
  "data_type (hdr (next_frame now st)) = (if en_dummy_frame st \<noteq> 0 then 0 else 1)"
  by (simp_all add: next_frame_def complete_header_hdr Let_def hdr_fill_def)

lemma write_frame_flags:
  "reconfig_trigger (write_frame st) = reconfig_trigger st"
  "center_freq_change_flag (write_frame st) = center_freq_change_flag st"
  "gain_change_flag (write_frame st) = gain_change_flag st"
  "last_noise_source_state (write_frame st) = last_noise_source_state st"
  "ctr_channel_dev_index (write_frame st) = ctr_channel_dev_index st"
  "gpio_trace (write_frame st) = gpio_trace st"
  "new_center_freq (write_frame st) = new_center_freq st"
  by (simp_all add: write_frame_def Let_def log_msg_def fold_write_payload_ch)

lemma complete_header_flags:
  "reconfig_trigger (complete_header now st) = reconfig_trigger st"
  "center_freq_change_flag (complete_header now st) = center_freq_change_flag st"
  "gain_change_flag (complete_header now st) = gain_change_flag st"
  "last_noise_source_state (complete_header now st) = last_noise_source_state st"
  "ctr_channel_dev_index (complete_header now st) = ctr_channel_dev_index st"
  "gpio_trace (complete_header now st) = gpio_trace st"
  "new_center_freq (complete_header now st) = new_center_freq st"
  by (simp_all add: complete_header_def fold_fill_header_ch Let_def)

lemma emit_frame_flags:
  "reconfig_trigger (emit_frame now st) = reconfig_trigger st"
  "center_freq_change_flag (emit_frame now st) = center_freq_change_flag st"
  "gain_change_flag (emit_frame now st) = gain_change_flag st"
  "last_noise_source_state (emit_frame now st) = last_noise_source_state st"
  "ctr_channel_dev_index (emit_frame now st) = ctr_channel_dev_index st"
  "gpio_trace (emit_frame now st) = gpio_trace st"
  "new_center_freq (emit_frame now st) = new_center_freq st"
  by (simp_all add: emit_frame_def write_frame_flags complete_header_flags)

lemma tuner_control_rest_fields:
  "stdout (tuner_control drv st) = stdout st"
  "en_dummy_frame (tuner_control drv st) = en_dummy_frame st"
  "dummy_frame_cntr (tuner_control drv st) = dummy_frame_cntr st"
  "exit_flag (tuner_control drv st) = exit_flag st"
  "read_buff_ind (tuner_control drv st) = read_buff_ind st"
  "rd_buff_ind (tuner_control drv st) = rd_buff_ind st"
  "ch_no (tuner_control drv st) = ch_no st"
  "buffer_size (tuner_control drv st) = buffer_size st"
  "config (tuner_control drv st) = config st"
  "iq_header (tuner_control drv st) = iq_header st"
  "noise_source_state (tuner_control drv st) = noise_source_state st"
  "main_done (tuner_control drv st) = main_done st"
  "new_gains (tuner_control drv st) = new_gains st"
  "overdrive_flags (tuner_control drv st) = overdrive_flags st"
  using arg_cong [OF tuner_rest_tuner_control, of stdout drv st]
    arg_cong [OF tuner_rest_tuner_control, of en_dummy_frame drv st]
    arg_cong [OF tuner_rest_tuner_control, of dummy_frame_cntr drv st]
    arg_cong [OF tuner_rest_tuner_control, of exit_flag drv st]
    arg_cong [OF tuner_rest_tuner_control, of read_buff_ind drv st]
    arg_cong [OF tuner_rest_tuner_control, of rd_buff_ind drv st]
    arg_cong [OF tuner_rest_tuner_control, of ch_no drv st]
    arg_cong [OF tuner_rest_tuner_control, of buffer_size drv st]
    arg_cong [OF tuner_rest_tuner_control, of config drv st]
    arg_cong [OF tuner_rest_tuner_control, of iq_header drv st]
    arg_cong [OF tuner_rest_tuner_control, of noise_source_state drv st]
    arg_cong [OF tuner_rest_tuner_control, of main_done drv st]
    arg_cong [OF tuner_rest_tuner_control, of new_gains drv st]
    arg_cong [OF tuner_rest_tuner_control, of overdrive_flags drv st]
  by (simp_all add: tuner_rest_fields)

text \<open>The fields one wake-up with data ready leaves as the frame emission set them.\<close>

lemma main_wake_fields:
  assumes "data_ready st" and "\<not> main_done st" and "fault st = None"
  shows "en_dummy_frame (main_wake now drv st) =
           (if en_dummy_frame st \<noteq> 0 \<and> dummy_frame_cntr st + 1 = NO_DUMMY_FRAMES then 0
            else en_dummy_frame st)"
    and "dummy_frame_cntr (main_wake now drv st) =
           (if en_dummy_frame st \<noteq> 0 then dummy_frame_cntr st + 1 else dummy_frame_cntr st)"
    and "read_buff_ind (main_wake now drv st) = read_buff_ind st + 1"
    and "rd_buff_ind (main_wake now drv st) =
           (if en_dummy_frame st = 0 \<and> ch_no st \<noteq> 0
            then unat (read_buff_ind st mod of_nat NUM_BUFF) else rd_buff_ind st)"
    and "overdrive_flags (main_wake now drv st) = 0"
    and "ch_no (main_wake now drv st) = ch_no st"
    and "buffer_size (main_wake now drv st) = buffer_size st"
    and "config (main_wake now drv st) = config st"
    and "noise_source_state (main_wake now drv st) = noise_source_state st"
    and "exit_flag (main_wake now drv st) = exit_flag st"
    and "new_gains (main_wake now drv st) = new_gains st"
    and "main_done (main_wake now drv st) = (exit_flag st \<noteq> 0)"
    and "iq_header (main_wake now drv st) = hdr (next_frame now st)"
  using assms
  by (simp_all add: main_wake_def main_loop_body_def Let_def tuner_control_rest_fields
      emit_frame_fields emit_frame_dummy next_frame_def)

text \<open>Tuner control with no frequency or gain request keeps the receiver records.\<close>

lemma set_gpio_at_receivers:
  "set_gpio_at idx st = Inr st' \<Longrightarrow> rtl_receivers st' = rtl_receivers st"
  by (auto simp: set_gpio_at_def split: if_splits sum.splits)

lemma noise_source_switch_receivers:
  "noise_source_switch st = Inr st' \<Longrightarrow> rtl_receivers st' = rtl_receivers st"
  by (auto simp: noise_source_switch_def noise_source_log_def log_msg_def Let_def
      split: if_splits sum.splits dest!: set_gpio_at_receivers)

lemma cancel_async_ch_receivers:
  "rtl_receivers (cancel_async_ch drv i st) = rtl_receivers st"
  by (simp add: cancel_async_ch_def log_msg_def)

lemma apply_reconfig_fields:
  "rtl_receivers (apply_reconfig drv st) = rtl_receivers st"
  "center_freq_change_flag (apply_reconfig drv st) = center_freq_change_flag st"
  "gain_change_flag (apply_reconfig drv st) = gain_change_flag st"
  "last_noise_source_state (apply_reconfig drv st) = last_noise_source_state st"
  "fault (apply_reconfig drv st) = fault st"
  "gpio_trace (apply_reconfig drv st) = gpio_trace st"
  "reconfig_trigger (apply_reconfig drv st) = (if reconfig_trigger st = 1 then 0 else reconfig_trigger st)"
  by (simp_all add: apply_reconfig_def fold_keeps [where f = "cancel_async_ch drv"]
      cancel_async_ch_def log_msg_def)

lemma tuner_control_receivers:
  assumes "center_freq_change_flag st \<noteq> 1" and "gain_change_flag st \<noteq> 1"
  shows "rtl_receivers (tuner_control drv st) = rtl_receivers st"
  using assms
  by (auto simp: tuner_control_def Let_def apply_gain_def apply_center_freq_def
      apply_reconfig_fields split: sum.splits dest!: noise_source_switch_receivers)

lemma tuner_control_fault:
  assumes "last_noise_source_state st = noise_source_state st
           \<or> cfg_en_noise_source_ctr (config st) \<noteq> 1"
  shows "fault (tuner_control drv st) = fault st"
proof -
  let ?st3 = "apply_gain drv (apply_center_freq drv (apply_reconfig drv st))"
  have v: "noise_view ?st3 = noise_view st"
    by (rule noise_view_apply)
  with assms have "noise_source_switch ?st3 = Inr ?st3"
    by (auto simp: noise_view_def noise_source_switch_def)
  with v show ?thesis
    by (simp add: tuner_control_def Let_def noise_view_def)
qed

lemma main_wake_receivers:
  assumes "center_freq_change_flag st \<noteq> 1" and "gain_change_flag st \<noteq> 1"
  shows "rtl_receivers (main_wake now drv st) = rtl_receivers st"
  using assms
  by (simp add: main_wake_def main_loop_body_def Let_def tuner_control_receivers
      emit_frame_flags emit_frame_fields)

lemma main_wake_fault:
  assumes "last_noise_source_state st = noise_source_state st
           \<or> cfg_en_noise_source_ctr (config st) \<noteq> 1"
  shows "fault (main_wake now drv st) = fault st"
  using assms
  by (simp add: main_wake_def main_loop_body_def Let_def tuner_control_fault
      emit_frame_flags emit_frame_fields)

lemma tuner_control_last_noise:
  assumes "last_noise_source_state st = noise_source_state st
           \<or> cfg_en_noise_source_ctr (config st) \<noteq> 1"
  shows "last_noise_source_state (tuner_control drv st) = noise_source_state st"
proof -
  let ?st3 = "apply_gain drv (apply_center_freq drv (apply_reconfig drv st))"
  have v: "noise_view ?st3 = noise_view st"
    by (rule noise_view_apply)
  with assms have "noise_source_switch ?st3 = Inr ?st3"
    by (auto simp: noise_view_def noise_source_switch_def)
  with v show ?thesis
    by (simp add: tuner_control_def Let_def noise_view_def)
qed

subsection \<open>C2: the overdrive flags\<close>

lemma ex_ready_flags:
  "reconfig_trigger ex_ready = 0"
  "center_freq_change_flag ex_ready = 0"
  "gain_change_flag ex_ready = 0"
  "last_noise_source_state ex_ready = 0"
  "ctr_channel_dev_index ex_ready = 0"
  by (simp_all add: ex_ready_def ex_defs upt_rec)

lemma ex_frame0_fields:
  "ch_no ex_frame0 = 2"
  "buffer_size ex_frame0 = 2"
  "main_done ex_frame0 = False"
  "fault ex_frame0 = None"
  "read_buff_ind ex_frame0 = 1"
  "rd_buff_ind ex_frame0 = 0"
  "en_dummy_frame ex_frame0 = 0"
  "dummy_frame_cntr ex_frame0 = 0"
  "noise_source_state ex_frame0 = 0"
  "exit_flag ex_frame0 = 0"
  "overdrive_flags ex_frame0 = 0"
  "stdout ex_frame0 = [next_frame 0 ex_ready]"
  "rtl_receivers ex_frame0 = rtl_receivers ex_ready"
  by (simp_all add: ex_frame0_def main_wake_fields main_wake_stdout main_wake_receivers
      main_wake_fault ex_ready_data_ready ex_ready_fields ex_ready_flags NUM_BUFF_def)

lemma ex_second_fields:
  "ch_no ex_second = 2"
  "buffer_size ex_second = 2"
  "main_done ex_second = False"
  "fault ex_second = None"
  "read_buff_ind ex_second = 1"
  "rd_buff_ind ex_second = 0"
  "en_dummy_frame ex_second = 0"
  "noise_source_state ex_second = 0"
  "exit_flag ex_second = 0"
  "overdrive_flags ex_second = 0"
  "stdout ex_second = [next_frame 0 ex_ready]"
  "rtl_receivers ex_second =
     [\<lparr>dev_ind = 0, gain = 10, dev = 0,
       buffer = [255, 0, 1, 1, 0, 0, 0, 0, 0, 0, 0, 0, 0, 0, 0, 0], buff_ind = 2,
       center_freq = 100, sample_rate = 2400000\<rparr>,
      \<lparr>dev_ind = 1, gain = 10, dev = 1,
       buffer = [3, 4, 2, 2, 0, 0, 0, 0, 0, 0, 0, 0, 0, 0, 0, 0], buff_ind = 2,
       center_freq = 101, sample_rate = 2400000\<rparr>]"
  by (simp_all add: ex_second_def run_def reader_callback_def rtlsdrCallback_def
      slot_offset_def log_msg_def NUM_BUFF_def Let_def ex_frame0_fields ex_ready_fields)

lemma ex_second_data_ready: "data_ready ex_second"
  by (simp add: data_ready_def ex_second_fields upt_rec word_le_nat_alt)

lemma ex_frame0_view:
  "frame_type (hdr (next_frame 0 ex_ready)) = FRAME_TYPE_DATA"
  "payload (next_frame 0 ex_ready) = [255, 0, 3, 4]"
  "adc_overdrive_flags (hdr (next_frame 0 ex_ready)) = 0"
  by (simp_all add: next_frame_fields ex_ready_fields payload_of_def hdr_scan_def
      check_overdrive_def slot_bytes_def slot_offset_def NUM_BUFF_def upt_rec)

lemma ex_frame1_view:
  "frame_type (hdr (next_frame 1 ex_second)) = FRAME_TYPE_DATA"
  "payload (next_frame 1 ex_second) = [1, 1, 2, 2]"
  "adc_overdrive_flags (hdr (next_frame 1 ex_second)) = 1"
  by (simp_all add: next_frame_fields ex_second_fields payload_of_def hdr_scan_def
      check_overdrive_def slot_bytes_def slot_offset_def NUM_BUFF_def upt_rec)

lemma ex_second_dummy_fields:
  "ch_no ex_second_dummy = 2"
  "buffer_size ex_second_dummy = 2"
  "main_done ex_second_dummy = False"
  "fault ex_second_dummy = None"
  "read_buff_ind ex_second_dummy = 1"
  "rd_buff_ind ex_second_dummy = 0"
  "en_dummy_frame ex_second_dummy = 1"
  "overdrive_flags ex_second_dummy = 0"
  "stdout ex_second_dummy = [next_frame 0 ex_ready]"
  "rtl_receivers ex_second_dummy = rtl_receivers ex_second"
  by (simp_all add: ex_second_dummy_def ex_cmd_def fifo_read_tf_cmd_def log_msg_def
      ex_second_fields)

lemma ex_second_dummy_data_ready: "data_ready ex_second_dummy"
  using ex_second_data_ready by (simp add: data_ready_def ex_second_dummy_fields ex_second_fields)

lemma ex_frame1_dummy_view:
  "frame_type (hdr (next_frame 1 ex_second_dummy)) = FRAME_TYPE_DUMMY"
  "payload (next_frame 1 ex_second_dummy) = []"
  "adc_overdrive_flags (hdr (next_frame 1 ex_second_dummy)) = 1"
  by (simp_all add: next_frame_fields ex_second_dummy_fields ex_second_fields hdr_scan_def
      check_overdrive_def slot_bytes_def slot_offset_def upt_rec)

text \<open>
  Claim C2 (not met by the code). Bit \<open>i\<close> of \<^verbatim>\<open>adc_overdrive_flags\<close> should be set exactly when an
  octet of channel \<open>i\<close> written in the same frame is 255, and DUMMY frames should carry no
  flag. The scan reads slot \<^verbatim>\<open>rd_buff_ind\<close>, which is 1 at startup and is assigned only in the
  payload loop, after the scan: the flags of a frame describe the slot of the last DATA or
  CAL frame written before it. In the run below, from startup, the first frame carries a
  255 of channel 0 with no flag; the second frame carries no 255 and has bit 0 set; and
  when the command \<open>n\<close> comes before the second frame, that frame is a DUMMY frame with
  bit 0 set.
\<close>

theorem overdrive_scan_reads_stale_slot:
  "map (\<lambda>f. (frame_type (hdr f), payload f, adc_overdrive_flags (hdr f)))
     (stdout (run [Configure 0 drv_ok, Configure 1 drv_ok,
                   Callback 0 [255, 0], Callback 1 [3, 4], Wake 0 drv_ok,
                   Callback 0 [1, 1], Callback 1 [2, 2], Wake 1 drv_ok] (ex_start 2)))
   = [(FRAME_TYPE_DATA, [255, 0, 3, 4], 0), (FRAME_TYPE_DATA, [1, 1, 2, 2], 1)]
   \<and> map (\<lambda>f. (frame_type (hdr f), payload f, adc_overdrive_flags (hdr f)))
     (stdout (run [Configure 0 drv_ok, Configure 1 drv_ok,
                   Callback 0 [255, 0], Callback 1 [3, 4], Wake 0 drv_ok,
                   Callback 0 [1, 1], Callback 1 [2, 2], Control (ex_cmd 110), Wake 1 drv_ok]
                (ex_start 2)))
   = [(FRAME_TYPE_DATA, [255, 0, 3, 4], 0), (FRAME_TYPE_DUMMY, [], 1)]"
proof -
  have "run [Configure 0 drv_ok, Configure 1 drv_ok,
             Callback 0 [255, 0], Callback 1 [3, 4], Wake 0 drv_ok,
             Callback 0 [1, 1], Callback 1 [2, 2], Wake 1 drv_ok] (ex_start 2)
        = step (Wake 1 drv_ok) ex_second"
    by (simp add: run_def ex_second_def ex_frame0_def ex_ready_def)
  moreover have "run [Configure 0 drv_ok, Configure 1 drv_ok,
             Callback 0 [255, 0], Callback 1 [3, 4], Wake 0 drv_ok,
             Callback 0 [1, 1], Callback 1 [2, 2], Control (ex_cmd 110), Wake 1 drv_ok]
            (ex_start 2)
        = step (Wake 1 drv_ok) ex_second_dummy"
    by (simp add: run_def ex_second_dummy_def ex_second_def ex_frame0_def ex_ready_def)
  ultimately show ?thesis
    by (simp add: main_wake_stdout ex_second_fields ex_second_data_ready ex_frame0_view
        ex_frame1_view ex_second_dummy_fields ex_second_dummy_data_ready ex_frame1_dummy_view)
qed

subsection \<open>C7: the gains in the header\<close>

lemma ex_rejected_fields:
  "ch_no ex_rejected = 2"
  "main_done ex_rejected = False"
  "fault ex_rejected = None"
  "read_buff_ind ex_rejected = 0"
  "en_dummy_frame ex_rejected = 0"
  "noise_source_state ex_rejected = 0"
  "stdout ex_rejected = []"
  "map gain (rtl_receivers ex_rejected) = [10, 10]"
  "map buff_ind (rtl_receivers ex_rejected) = [1, 1]"
  by (simp_all add: ex_rejected_def ex_start_def main_startup_def ex_env_def ex_cfg_def
      init_receiver_def init_header_def NUM_BUFF_def Let_def run_def read_thread_configure_def
      reader_callback_def rtlsdrCallback_def slot_offset_def log_msg_def drv_fail_def upt_rec)

lemma ex_rejected_data_ready: "data_ready ex_rejected"
proof -
  have "buff_ind (rtl_receivers ex_rejected ! 0) = 1" "buff_ind (rtl_receivers ex_rejected ! 1) = 1"
    using ex_rejected_fields(9) by (auto simp: map_eq_Cons_conv)
  then show ?thesis
    by (simp add: data_ready_def ex_rejected_fields upt_rec)
qed

lemma ex_retune_fields:
  "ch_no ex_retune = 2"
  "buffer_size ex_retune = 2"
  "main_done ex_retune = False"
  "fault ex_retune = None"
  "read_buff_ind ex_retune = 0"
  "en_dummy_frame ex_retune = 1"
  "dummy_frame_cntr ex_retune = 0"
  "noise_source_state ex_retune = 0"
  "last_noise_source_state ex_retune = 0"
  "exit_flag ex_retune = 0"
  "stdout ex_retune = []"
  "center_freq_change_flag ex_retune = 0"
  "gain_change_flag ex_retune = 0"
  "rtl_receivers ex_retune =
     [\<lparr>dev_ind = 0, gain = 300, dev = 0,
       buffer = [255, 0, 0, 0, 0, 0, 0, 0, 0, 0, 0, 0, 0, 0, 0, 0], buff_ind = 1,
       center_freq = 200, sample_rate = 2400000\<rparr>,
      \<lparr>dev_ind = 1, gain = 300, dev = 1,
       buffer = [3, 4, 0, 0, 0, 0, 0, 0, 0, 0, 0, 0, 0, 0, 0, 0], buff_ind = 1,
       center_freq = 200, sample_rate = 2400000\<rparr>]"
  by (simp_all add: ex_retune_def ex_r300_def fifo_read_tf_cmd_def log_msg_def upd_receivers_def
      ex_ready_fields ex_ready_flags Let_def)

lemma ex_retune_data_ready: "data_ready ex_retune"
  by (simp add: data_ready_def ex_retune_fields upt_rec)

lemma ex_retune_woken_fields:
  "ch_no ex_retune_woken = 2"
  "buffer_size ex_retune_woken = 2"
  "main_done ex_retune_woken = False"
  "fault ex_retune_woken = None"
  "read_buff_ind ex_retune_woken = 1"
  "en_dummy_frame ex_retune_woken = 1"
  "dummy_frame_cntr ex_retune_woken = 1"
  "noise_source_state ex_retune_woken = 0"
  "exit_flag ex_retune_woken = 0"
  "stdout ex_retune_woken = [next_frame 0 ex_retune]"
  "rtl_receivers ex_retune_woken = rtl_receivers ex_retune"
  by (simp_all add: ex_retune_woken_def main_wake_fields main_wake_stdout main_wake_receivers
      main_wake_fault ex_retune_data_ready ex_retune_fields NO_DUMMY_FRAMES_def)

lemma ex_retuned_fields:
  "ch_no ex_retuned = 2"
  "main_done ex_retuned = False"
  "fault ex_retuned = None"
  "read_buff_ind ex_retuned = 1"
  "en_dummy_frame ex_retuned = 1"
  "noise_source_state ex_retuned = 0"
  "stdout ex_retuned = [next_frame 0 ex_retune]"
  "rtl_receivers ex_retuned =
     [\<lparr>dev_ind = 0, gain = 300, dev = 0,
       buffer = [255, 0, 1, 1, 0, 0, 0, 0, 0, 0, 0, 0, 0, 0, 0, 0], buff_ind = 2,
       center_freq = 100, sample_rate = 2400000\<rparr>,
      \<lparr>dev_ind = 1, gain = 300, dev = 1,
       buffer = [3, 4, 2, 2, 0, 0, 0, 0, 0, 0, 0, 0, 0, 0, 0, 0], buff_ind = 2,
       center_freq = 101, sample_rate = 2400000\<rparr>]"
  by (simp_all add: ex_retuned_def run_def read_thread_configure_def reader_callback_def
      rtlsdrCallback_def slot_offset_def log_msg_def NUM_BUFF_def Let_def drv_fail_def
      ex_retune_woken_fields ex_retune_fields)

lemma ex_retuned_data_ready: "data_ready ex_retuned"
  by (simp add: data_ready_def ex_retuned_fields upt_rec word_le_nat_alt)

text \<open>
  Claim C7 (not met by the code). \<^verbatim>\<open>if_gains[i]\<close> should be the gain most recently applied
  with success to channel \<open>i\<close>, on every path that changes the gain. The \<open>g\<close> path stores a
  gain in the receiver record only when the driver accepted it; the \<open>r\<close> path stores the
  gain in the record when the command is read, before any driver call, and the reader
  thread, which applies it (as it applies the configured gain at startup), only logs a
  rejection. In the runs below every \<^verbatim>\<open>rtlsdr_set_tuner_gain\<close> call of \<open>drv_fail\<close> is
  rejected: the configured gain 10 is reported although its only application failed; and
  after the command \<open>r\<close> with gain 300 both frames report 300, the first before the driver
  is called at all, the second after the driver rejected it.
\<close>

theorem rejected_gain_reported:
  "map (\<lambda>f. (frame_type (hdr f), if_gains (hdr f) 0, if_gains (hdr f) 1))
     (stdout (run [Configure 0 drv_fail, Configure 1 drv_fail,
                   Callback 0 [255, 0], Callback 1 [3, 4], Wake 0 drv_ok] (ex_start 2)))
   = [(FRAME_TYPE_DATA, 10, 10)]
   \<and> map (\<lambda>f. (frame_type (hdr f), if_gains (hdr f) 0, if_gains (hdr f) 1))
     (stdout (run [Configure 0 drv_ok, Configure 1 drv_ok,
                   Callback 0 [255, 0], Callback 1 [3, 4], Control ex_r300, Wake 0 drv_ok,
                   Configure 0 drv_fail, Configure 1 drv_fail,
                   Callback 0 [1, 1], Callback 1 [2, 2], Wake 1 drv_ok] (ex_start 2)))
   = [(FRAME_TYPE_DUMMY, 300, 300), (FRAME_TYPE_DUMMY, 300, 300)]"
proof -
  have g: "gain (rtl_receivers ex_rejected ! 0) = 10" "gain (rtl_receivers ex_rejected ! 1) = 10"
    using ex_rejected_fields(8) by (auto simp: map_eq_Cons_conv)
  have "run [Configure 0 drv_fail, Configure 1 drv_fail,
             Callback 0 [255, 0], Callback 1 [3, 4], Wake 0 drv_ok] (ex_start 2)
        = step (Wake 0 drv_ok) ex_rejected"
    by (simp add: run_def ex_rejected_def)
  then have A: "map (\<lambda>f. (frame_type (hdr f), if_gains (hdr f) 0, if_gains (hdr f) 1))
     (stdout (run [Configure 0 drv_fail, Configure 1 drv_fail,
                   Callback 0 [255, 0], Callback 1 [3, 4], Wake 0 drv_ok] (ex_start 2)))
   = [(FRAME_TYPE_DATA, 10, 10)]"
    using g by (simp add: main_wake_stdout ex_rejected_fields ex_rejected_data_ready next_frame_fields)
  have "run [Configure 0 drv_ok, Configure 1 drv_ok,
                   Callback 0 [255, 0], Callback 1 [3, 4], Control ex_r300, Wake 0 drv_ok,
                   Configure 0 drv_fail, Configure 1 drv_fail,
                   Callback 0 [1, 1], Callback 1 [2, 2], Wake 1 drv_ok] (ex_start 2)
        = step (Wake 1 drv_ok) ex_retuned"
    by (simp add: run_def ex_retuned_def ex_retune_woken_def ex_retune_def ex_ready_def)
  then have B: "map (\<lambda>f. (frame_type (hdr f), if_gains (hdr f) 0, if_gains (hdr f) 1))
     (stdout (run [Configure 0 drv_ok, Configure 1 drv_ok,
                   Callback 0 [255, 0], Callback 1 [3, 4], Control ex_r300, Wake 0 drv_ok,
                   Configure 0 drv_fail, Configure 1 drv_fail,
                   Callback 0 [1, 1], Callback 1 [2, 2], Wake 1 drv_ok] (ex_start 2)))
   = [(FRAME_TYPE_DUMMY, 300, 300), (FRAME_TYPE_DUMMY, 300, 300)]"
    by (simp add: main_wake_stdout ex_retuned_fields ex_retuned_data_ready next_frame_fields
        ex_retune_fields)
  from A B show ?thesis by (rule conjI)
qed

subsection \<open>C5: the exit code\<close>

lemma main_startup_ex_env: "main_startup (ex_env 2) = Inr (ex_start 2)"
  by (simp add: ex_start_def main_startup_def ex_env_def ex_cfg_def Let_def upt_rec)

lemma ex_start_2_fields:
  "ch_no (ex_start 2) = 2"
  "main_done (ex_start 2) = False"
  "fault (ex_start 2) = None"
  "exit_flag (ex_start 2) = 0"
  "read_buff_ind (ex_start 2) = 0"
  "stdout (ex_start 2) = []"
  "map buff_ind (rtl_receivers (ex_start 2)) = [0, 0]"
  "map dev (rtl_receivers (ex_start 2)) = [0, 1]"
  by (simp_all add: ex_start_def main_startup_def ex_env_def ex_cfg_def init_receiver_def
      Let_def upt_rec)

lemma ex_start_2_nth:
  "buff_ind (rtl_receivers (ex_start 2) ! 0) = 0"
  "dev (rtl_receivers (ex_start 2) ! 0) = 0"
  "dev (rtl_receivers (ex_start 2) ! 1) = 1"
  using ex_start_2_fields(7,8) by (auto simp: map_eq_Cons_conv)

lemma ex_start_2_not_ready: "\<not> data_ready (ex_start 2)"
  using ex_start_2_nth by (simp add: data_ready_def ex_start_2_fields upt_rec)

lemma fifo_read_tf_open_fields:
  "ch_no (fifo_read_tf_open ok st) = ch_no st"
  "rtl_receivers (fifo_read_tf_open ok st) = rtl_receivers st"
  "read_buff_ind (fifo_read_tf_open ok st) = read_buff_ind st"
  "main_done (fifo_read_tf_open ok st) = main_done st"
  "fault (fifo_read_tf_open ok st) = fault st"
  "stdout (fifo_read_tf_open ok st) = stdout st"
  "exit_flag (fifo_read_tf_open ok st) = (if ok then exit_flag st else 1)"
  by (simp_all add: fifo_read_tf_open_def log_msg_def)

lemma data_ready_cong:
  assumes "ch_no a = ch_no b" and "rtl_receivers a = rtl_receivers b"
    and "read_buff_ind a = read_buff_ind b"
  shows "data_ready a = data_ready b"
  by (simp add: data_ready_def assms)

lemma shutdown_loop_ok:
  assumes "\<not> list_ex (\<lambda>i. rtlsdr_cancel_async drv (dev (rtl_receivers st ! i)) \<noteq> 0) xs"
  shows "shutdown_loop drv xs st = (None, st)"
  using assms by (induction xs) simp_all

lemma shutdown_loop_fail:
  assumes "list_ex (\<lambda>i. rtlsdr_cancel_async drv (dev (rtl_receivers st ! i)) \<noteq> 0) xs"
  shows "shutdown_loop drv xs st =
           (Some (- 1), log_msg LOG_FATAL ''Async read stop failed: %s'' st)"
  using assms by (induction xs) auto

lemma main_exit_code:
  "fst (main_exit drv st) =
     (if list_ex (\<lambda>i. rtlsdr_cancel_async drv (dev (rtl_receivers st ! i)) \<noteq> 0) [0..<ch_no st]
      then - 1 else 0)"
proof -
  let ?st = "log_msg LOG_INFO ''Exiting..'' st"
  have r: "rtl_receivers ?st = rtl_receivers st"
    by (simp add: log_msg_def)
  show ?thesis
  proof (cases "list_ex (\<lambda>i. rtlsdr_cancel_async drv (dev (rtl_receivers st ! i)) \<noteq> 0)
                  [0..<ch_no st]")
    case True
    then have "shutdown_loop drv [0..<ch_no st] ?st =
                 (Some (- 1), log_msg LOG_FATAL ''Async read stop failed: %s'' ?st)"
      by (intro shutdown_loop_fail) (simp add: r)
    with True show ?thesis by (simp add: main_exit_def)
  next
    case False
    then have "shutdown_loop drv [0..<ch_no st] ?st = (None, ?st)"
      by (intro shutdown_loop_ok) (simp add: r)
    with False show ?thesis by (simp add: main_exit_def)
  qed
qed

lemma main_exit_fatal_logged:
  assumes "list_ex (\<lambda>i. rtlsdr_cancel_async drv (dev (rtl_receivers st ! i)) \<noteq> 0) [0..<ch_no st]"
  shows "(LOG_FATAL, ''Async read stop failed: %s'') \<in> set (log_out (snd (main_exit drv st)))"
proof -
  let ?st = "log_msg LOG_INFO ''Exiting..'' st"
  have r: "rtl_receivers ?st = rtl_receivers st"
    by (simp add: log_msg_def)
  from assms have "shutdown_loop drv [0..<ch_no st] ?st =
                 (Some (- 1), log_msg LOG_FATAL ''Async read stop failed: %s'' ?st)"
    by (intro shutdown_loop_fail) (simp add: r)
  then show ?thesis
    by (simp add: main_exit_def log_msg_def)
qed

lemma main_wake_done:
  assumes "\<not> main_done st" and "fault st = None"
  shows "main_done (main_wake now drv st) = (exit_flag st \<noteq> 0)"
  using assms
  by (simp add: main_wake_def main_loop_body_def Let_def tuner_control_rest_fields
      emit_frame_fields)

lemma ex_halt_run:
  "main_done (run [FifoOpen True, Control (ex_cmd 2), Wake 0 drv_ok] (ex_start 2))"
  "fault (run [FifoOpen True, Control (ex_cmd 2), Wake 0 drv_ok] (ex_start 2)) = None"
  "ch_no (run [FifoOpen True, Control (ex_cmd 2), Wake 0 drv_ok] (ex_start 2)) = 2"
proof -
  let ?h = "fifo_read_tf_cmd (ex_cmd 2) (ex_start 2)"
  have h: "main_done ?h = False" "fault ?h = None" "exit_flag ?h = 1" "ch_no ?h = 2"
    "rtl_receivers ?h = rtl_receivers (ex_start 2)" "read_buff_ind ?h = read_buff_ind (ex_start 2)"
    by (simp_all add: fifo_read_tf_cmd_def ex_cmd_def log_msg_def ex_start_2_fields)
  have nr: "\<not> data_ready ?h"
    using ex_start_2_not_ready
    by (simp add: data_ready_cong [of ?h "ex_start 2"] h ex_start_2_fields)
  have r: "run [FifoOpen True, Control (ex_cmd 2), Wake 0 drv_ok] (ex_start 2)
           = main_wake 0 drv_ok ?h"
    by (simp add: run_def fifo_read_tf_open_def ex_start_2_fields)
  show "main_done (run [FifoOpen True, Control (ex_cmd 2), Wake 0 drv_ok] (ex_start 2))"
    unfolding r by (simp add: main_wake_done h)
  show "fault (run [FifoOpen True, Control (ex_cmd 2), Wake 0 drv_ok] (ex_start 2)) = None"
    unfolding r using nr by (simp add: main_wake_def main_loop_body_def Let_def h)
  show "ch_no (run [FifoOpen True, Control (ex_cmd 2), Wake 0 drv_ok] (ex_start 2)) = 2"
    unfolding r using nr by (simp add: main_wake_def main_loop_body_def Let_def h)
qed

text \<open>
  Claim C5 (not met by the code). When the control FIFO cannot be opened the process should
  end with exit code \<open>-1\<close>, as for every fatal startup failure, and 0 should be returned only
  on graceful shutdown. The control thread logs the failure as fatal and sets
  \<^verbatim>\<open>exit_flag\<close>, \<^verbatim>\<open>main\<close> leaves the acquisition loop without a frame, and the shutdown
  returns 0 as after the halt command: no path carries the failure to the return value. The
  last conjunct is the shutdown of a \<^verbatim>\<open>main\<close> that finds \<^verbatim>\<open>exit_flag\<close> set when it first
  reaches the head of the loop, and so never waits.
\<close>

theorem fifo_open_failure_exit_code:
  "main (ex_env 2) [FifoOpen False, Wake 0 drv_ok] drv_ok = Some 0
   \<and> exit_flag (run [FifoOpen False] (ex_start 2)) = 1
   \<and> (LOG_FATAL, ''Failed to open control FIFO'') \<in> set (log_out (run [FifoOpen False] (ex_start 2)))
   \<and> main_done (run [FifoOpen False, Wake 0 drv_ok] (ex_start 2))
   \<and> stdout (run [FifoOpen False, Wake 0 drv_ok] (ex_start 2)) = []
   \<and> main (ex_env 2) [FifoOpen True, Control (ex_cmd 2), Wake 0 drv_ok] drv_ok = Some 0
   \<and> fst (main_exit drv_ok (run [FifoOpen False] (ex_start 2))) = 0"
proof -
  let ?f = "fifo_read_tf_open False (ex_start 2)"
  have nr: "\<not> data_ready ?f"
    using ex_start_2_not_ready
    by (simp add: data_ready_cong [of ?f "ex_start 2"] fifo_read_tf_open_fields)
  have w: "main_wake 0 drv_ok ?f = ?f\<lparr>main_done := True\<rparr>"
    using nr by (simp add: main_wake_def main_loop_body_def fifo_read_tf_open_fields
        ex_start_2_fields Let_def)
  have ok: "\<not> list_ex (\<lambda>i. rtlsdr_cancel_async drv_ok (dev (rtl_receivers s ! i)) \<noteq> 0)
                [0..<ch_no s]" for s :: daq_state
    by (simp add: drv_ok_def list_ex_iff)
  have 4: "main_done (run [FifoOpen False, Wake 0 drv_ok] (ex_start 2))"
    by (simp add: run_def w)
  have nf: "fault (run [FifoOpen False, Wake 0 drv_ok] (ex_start 2)) = None"
    by (simp add: run_def w fifo_read_tf_open_fields ex_start_2_fields)
  have 1: "main (ex_env 2) [FifoOpen False, Wake 0 drv_ok] drv_ok = Some 0"
    using 4 nf by (simp add: main_def main_startup_ex_env main_exit_code ok Let_def del: step.simps)
  have 2: "exit_flag (run [FifoOpen False] (ex_start 2)) = 1"
    by (simp add: run_def fifo_read_tf_open_fields)
  have 3: "(LOG_FATAL, ''Failed to open control FIFO'')
             \<in> set (log_out (run [FifoOpen False] (ex_start 2)))"
    by (simp add: run_def fifo_read_tf_open_def log_msg_def)
  have 5: "stdout (run [FifoOpen False, Wake 0 drv_ok] (ex_start 2)) = []"
    by (simp add: run_def w fifo_read_tf_open_fields ex_start_2_fields)
  have 6: "main (ex_env 2) [FifoOpen True, Control (ex_cmd 2), Wake 0 drv_ok] drv_ok = Some 0"
    using ex_halt_run(1,2)
    by (simp add: main_def main_startup_ex_env main_exit_code ok Let_def del: step.simps)
  have 7: "fst (main_exit drv_ok (run [FifoOpen False] (ex_start 2))) = 0"
    by (simp add: main_exit_code ok del: step.simps)
  from 1 2 3 4 5 6 7 show ?thesis by blast
qed

text \<open>
  A device call whose failure does change the exit code: after the halt command, the
  shutdown returns \<open>-1\<close> when \<^verbatim>\<open>rtlsdr_cancel_async\<close> fails and 0 when it succeeds.
\<close>

theorem cancel_failure_at_shutdown_counterexample:
  "main (ex_env 2) [FifoOpen True, Control (ex_cmd 2), Wake 0 drv_ok] drv_fail = Some (- 1)
   \<and> main (ex_env 2) [FifoOpen True, Control (ex_cmd 2), Wake 0 drv_ok] drv_ok = Some 0"
proof -
  have ok: "\<not> list_ex (\<lambda>i. rtlsdr_cancel_async drv_ok (dev (rtl_receivers s ! i)) \<noteq> 0)
                [0..<ch_no s]" for s :: daq_state
    by (simp add: drv_ok_def list_ex_iff)
  have bad: "list_ex (\<lambda>i. rtlsdr_cancel_async drv_fail (dev (rtl_receivers s ! i)) \<noteq> 0)
                [0..<ch_no s]" if "ch_no s = 2" for s :: daq_state
    using that by (simp add: drv_fail_def upt_rec)
  have 1: "main (ex_env 2) [FifoOpen True, Control (ex_cmd 2), Wake 0 drv_ok] drv_fail = Some (- 1)"
    using bad [OF ex_halt_run(3)] ex_halt_run(1,2)
    by (simp add: main_def main_startup_ex_env main_exit_code Let_def del: step.simps)
  have 2: "main (ex_env 2) [FifoOpen True, Control (ex_cmd 2), Wake 0 drv_ok] drv_ok = Some 0"
    using ex_halt_run(1,2)
    by (simp add: main_def main_startup_ex_env main_exit_code ok Let_def del: step.simps)
  from 1 2 show ?thesis by (rule conjI)
qed

subsection \<open>C8: failures of device calls\<close>

lemma fold_log_mono:
  assumes "\<And>j s. set (log_out s) \<subseteq> set (log_out (f j s))"
  shows "set (log_out s) \<subseteq> set (log_out (fold f xs s))"
proof (induction xs arbitrary: s)
  case Nil
  show ?case by simp
next
  case (Cons x xs)
  have "set (log_out s) \<subseteq> set (log_out (f x s))" by (rule assms)
  also have "\<dots> \<subseteq> set (log_out (fold f xs (f x s)))" by (rule Cons.IH)
  finally show ?case by simp
qed

lemma fold_logs_entry:
  assumes mono: "\<And>j s. set (log_out s) \<subseteq> set (log_out (f j s))"
    and keep: "\<And>j s. K (f j s) = K s"
    and hit: "\<And>s. bad (K s) \<Longrightarrow> e \<in> set (log_out (f i s))"
    and "i \<in> set xs" and "bad (K st)"
  shows "e \<in> set (log_out (fold f xs st))"
  using assms(4,5)
proof (induction xs arbitrary: st)
  case Nil
  then show ?case by simp
next
  case (Cons x xs)
  show ?case
  proof (cases "i = x")
    case True
    from Cons.prems(2) have "e \<in> set (log_out (f i st))" by (rule hit)
    moreover have "set (log_out (f i st)) \<subseteq> set (log_out (fold f xs (f i st)))"
      using mono by (rule fold_log_mono)
    ultimately show ?thesis using True by auto
  next
    case False
    with Cons.prems(1) have "i \<in> set xs" by simp
    moreover from Cons.prems(2) have "bad (K (f x st))" by (simp add: keep)
    ultimately have "e \<in> set (log_out (fold f xs (f x st)))" by (rule Cons.IH)
    then show ?thesis by simp
  qed
qed

lemma log_mono_steps:
  "set (log_out s) \<subseteq> set (log_out (cancel_async_ch drv j s))"
  "set (log_out s) \<subseteq> set (log_out (center_freq_ch drv j s))"
  "set (log_out s) \<subseteq> set (log_out (gain_ch drv j s))"
  by (auto simp: cancel_async_ch_def center_freq_ch_def gain_ch_def log_msg_def Let_def)

lemma log_mono_apply:
  "set (log_out s) \<subseteq> set (log_out (apply_reconfig drv s))"
  "set (log_out s) \<subseteq> set (log_out (apply_center_freq drv s))"
  "set (log_out s) \<subseteq> set (log_out (apply_gain drv s))"
  using fold_log_mono [of "cancel_async_ch drv" s "[0..<ch_no s]", OF log_mono_steps(1)]
    fold_log_mono [of "center_freq_ch drv" s "[0..<ch_no s]", OF log_mono_steps(2)]
    fold_log_mono [of "gain_ch drv" s "[0..<ch_no s]", OF log_mono_steps(3)]
  by (simp_all add: apply_reconfig_def apply_center_freq_def apply_gain_def)

lemma log_mono_set_gpio_at:
  "set_gpio_at idx st = Inr st' \<Longrightarrow> log_out st' = log_out st"
  by (auto simp: set_gpio_at_def split: if_splits sum.splits)

lemma log_mono_noise_source_switch:
  "noise_source_switch st = Inr st' \<Longrightarrow> set (log_out st) \<subseteq> set (log_out st')"
  by (auto simp: noise_source_switch_def noise_source_log_def log_msg_def Let_def
      split: if_splits sum.splits dest!: log_mono_set_gpio_at)

lemma log_mono_tuner_control_tail:
  "set (log_out (apply_gain drv (apply_center_freq drv (apply_reconfig drv st))))
     \<subseteq> set (log_out (tuner_control drv st))"
  by (auto simp: tuner_control_def Let_def split: sum.splits
      dest!: log_mono_noise_source_switch)

lemma dev_center_freq_ch:
  "dev (rtl_receivers (center_freq_ch drv j s) ! i) = dev (rtl_receivers s ! i)"
  by (simp add: center_freq_ch_def log_msg_def Let_def
      nth_update_field [where g = dev and f = "\<lambda>r. r\<lparr>center_freq := c\<rparr>" for c])

lemma dev_gain_ch:
  "dev (rtl_receivers (gain_ch drv j s) ! i) = dev (rtl_receivers s ! i)"
  by (simp add: gain_ch_def log_msg_def Let_def
      nth_update_field [where g = dev and f = "\<lambda>r. r\<lparr>gain := c\<rparr>" for c])

lemma cancel_failure_logged:
  assumes "reconfig_trigger st = 1" and "i < ch_no st"
    and "rtlsdr_cancel_async drv (dev (rtl_receivers st ! i)) \<noteq> 0"
  shows "(LOG_ERROR, ''Async read stop failed: %s'') \<in> set (log_out (apply_reconfig drv st))"
proof -
  have "(LOG_ERROR, ''Async read stop failed: %s'')
          \<in> set (log_out (fold (cancel_async_ch drv) [0..<ch_no st] st))"
  proof (rule fold_logs_entry [where K = "\<lambda>s. dev (rtl_receivers s ! i)"
        and bad = "\<lambda>d. rtlsdr_cancel_async drv d \<noteq> 0"])
    show "set (log_out s) \<subseteq> set (log_out (cancel_async_ch drv j s))" for j s
      by (rule log_mono_steps)
    show "dev (rtl_receivers (cancel_async_ch drv j s) ! i) = dev (rtl_receivers s ! i)" for j s
      by (simp add: cancel_async_ch_receivers)
    show "(LOG_ERROR, ''Async read stop failed: %s'') \<in> set (log_out (cancel_async_ch drv i s))"
      if "rtlsdr_cancel_async drv (dev (rtl_receivers s ! i)) \<noteq> 0" for s
      using that by (simp add: cancel_async_ch_def log_msg_def)
    show "i \<in> set [0..<ch_no st]" using assms(2) by simp
    show "rtlsdr_cancel_async drv (dev (rtl_receivers st ! i)) \<noteq> 0" by (rule assms(3))
  qed
  with assms(1) show ?thesis by (simp add: apply_reconfig_def)
qed

lemma center_freq_failure_logged:
  assumes "center_freq_change_flag st = 1" and "i < ch_no st"
    and "rtlsdr_set_center_freq drv (dev (rtl_receivers st ! i)) (new_center_freq st) \<noteq> 0"
  shows "(LOG_ERROR, ''Failed to set center frequency: %s'')
           \<in> set (log_out (apply_center_freq drv st))"
proof -
  have "(LOG_ERROR, ''Failed to set center frequency: %s'')
          \<in> set (log_out (fold (center_freq_ch drv) [0..<ch_no st] st))"
  proof (rule fold_logs_entry [where K = "\<lambda>s. (dev (rtl_receivers s ! i), new_center_freq s)"
        and bad = "\<lambda>k. rtlsdr_set_center_freq drv (fst k) (snd k) \<noteq> 0"])
    show "set (log_out s) \<subseteq> set (log_out (center_freq_ch drv j s))" for j s
      by (rule log_mono_steps)
    show "(dev (rtl_receivers (center_freq_ch drv j s) ! i), new_center_freq (center_freq_ch drv j s))
          = (dev (rtl_receivers s ! i), new_center_freq s)" for j s
      by (simp add: dev_center_freq_ch) (simp add: center_freq_ch_def log_msg_def Let_def)
    show "(LOG_ERROR, ''Failed to set center frequency: %s'')
            \<in> set (log_out (center_freq_ch drv i s))"
      if "rtlsdr_set_center_freq drv (fst (dev (rtl_receivers s ! i), new_center_freq s))
            (snd (dev (rtl_receivers s ! i), new_center_freq s)) \<noteq> 0" for s
      using that by (simp add: center_freq_ch_def log_msg_def Let_def)
    show "i \<in> set [0..<ch_no st]" using assms(2) by simp
    show "rtlsdr_set_center_freq drv (fst (dev (rtl_receivers st ! i), new_center_freq st))
            (snd (dev (rtl_receivers st ! i), new_center_freq st)) \<noteq> 0"
      using assms(3) by simp
  qed
  with assms(1) show ?thesis by (simp add: apply_center_freq_def)
qed

lemma gain_failure_logged:
  assumes "gain_change_flag st = 1" and "i < ch_no st"
    and "rtlsdr_set_tuner_gain drv (dev (rtl_receivers st ! i)) (new_gains st ! i) \<noteq> 0"
  shows "(LOG_ERROR, ''Failed to set gain value: %s'') \<in> set (log_out (apply_gain drv st))"
proof -
  have "(LOG_ERROR, ''Failed to set gain value: %s'')
          \<in> set (log_out (fold (gain_ch drv) [0..<ch_no st] st))"
  proof (rule fold_logs_entry [where K = "\<lambda>s. (dev (rtl_receivers s ! i), new_gains s ! i)"
        and bad = "\<lambda>k. rtlsdr_set_tuner_gain drv (fst k) (snd k) \<noteq> 0"])
    show "set (log_out s) \<subseteq> set (log_out (gain_ch drv j s))" for j s
      by (rule log_mono_steps)
    show "(dev (rtl_receivers (gain_ch drv j s) ! i), new_gains (gain_ch drv j s) ! i)
          = (dev (rtl_receivers s ! i), new_gains s ! i)" for j s
      by (simp add: dev_gain_ch) (simp add: gain_ch_def log_msg_def Let_def)
    show "(LOG_ERROR, ''Failed to set gain value: %s'') \<in> set (log_out (gain_ch drv i s))"
      if "rtlsdr_set_tuner_gain drv (fst (dev (rtl_receivers s ! i), new_gains s ! i))
            (snd (dev (rtl_receivers s ! i), new_gains s ! i)) \<noteq> 0" for s
      using that by (simp add: gain_ch_def log_msg_def Let_def)
    show "i \<in> set [0..<ch_no st]" using assms(2) by simp
    show "rtlsdr_set_tuner_gain drv (fst (dev (rtl_receivers st ! i), new_gains st ! i))
            (snd (dev (rtl_receivers st ! i), new_gains st ! i)) \<noteq> 0"
      using assms(3) by simp
  qed
  with assms(1) show ?thesis by (simp add: apply_gain_def)
qed

lemma apply_reconfig_keeps:
  "ch_no (apply_reconfig drv st) = ch_no st"
  "new_center_freq (apply_reconfig drv st) = new_center_freq st"
  "new_gains (apply_reconfig drv st) = new_gains st"
  by (simp_all add: apply_reconfig_def fold_keeps [where f = "cancel_async_ch drv"]
      cancel_async_ch_def log_msg_def)

lemma apply_center_freq_keeps:
  "ch_no (apply_center_freq drv st) = ch_no st"
  "new_gains (apply_center_freq drv st) = new_gains st"
  "gain_change_flag (apply_center_freq drv st) = gain_change_flag st"
  "dev (rtl_receivers (apply_center_freq drv st) ! i) = dev (rtl_receivers st ! i)"
proof -
  have k: "ch_no (center_freq_ch drv j s) = ch_no s"
    "new_gains (center_freq_ch drv j s) = new_gains s"
    "gain_change_flag (center_freq_ch drv j s) = gain_change_flag s" for j s
    by (simp_all add: center_freq_ch_def log_msg_def Let_def)
  show "ch_no (apply_center_freq drv st) = ch_no st"
    by (simp add: apply_center_freq_def fold_keeps [where g = ch_no] k)
  show "new_gains (apply_center_freq drv st) = new_gains st"
    by (simp add: apply_center_freq_def fold_keeps [where g = new_gains] k)
  show "gain_change_flag (apply_center_freq drv st) = gain_change_flag st"
    by (simp add: apply_center_freq_def fold_keeps [where g = gain_change_flag] k)
  show "dev (rtl_receivers (apply_center_freq drv st) ! i) = dev (rtl_receivers st ! i)"
    by (simp add: apply_center_freq_def
        fold_keeps [where g = "\<lambda>s. dev (rtl_receivers s ! i)"] dev_center_freq_ch)
qed

lemma tuner_control_logs_failures:
  assumes "i < ch_no st"
  shows "reconfig_trigger st = 1
           \<and> rtlsdr_cancel_async drv (dev (rtl_receivers st ! i)) \<noteq> 0 \<longrightarrow>
         (LOG_ERROR, ''Async read stop failed: %s'') \<in> set (log_out (tuner_control drv st))"
    and "center_freq_change_flag st = 1
           \<and> rtlsdr_set_center_freq drv (dev (rtl_receivers st ! i)) (new_center_freq st) \<noteq> 0 \<longrightarrow>
         (LOG_ERROR, ''Failed to set center frequency: %s'') \<in> set (log_out (tuner_control drv st))"
    and "gain_change_flag st = 1
           \<and> rtlsdr_set_tuner_gain drv (dev (rtl_receivers st ! i)) (new_gains st ! i) \<noteq> 0 \<longrightarrow>
         (LOG_ERROR, ''Failed to set gain value: %s'') \<in> set (log_out (tuner_control drv st))"
proof -
  let ?s1 = "apply_reconfig drv st"
  let ?s2 = "apply_center_freq drv ?s1"
  let ?s3 = "apply_gain drv ?s2"
  have tail: "set (log_out ?s3) \<subseteq> set (log_out (tuner_control drv st))"
    by (rule log_mono_tuner_control_tail)
  have m12: "set (log_out ?s1) \<subseteq> set (log_out ?s2)" by (rule log_mono_apply)
  have m23: "set (log_out ?s2) \<subseteq> set (log_out ?s3)" by (rule log_mono_apply)
  show "reconfig_trigger st = 1
           \<and> rtlsdr_cancel_async drv (dev (rtl_receivers st ! i)) \<noteq> 0 \<longrightarrow>
         (LOG_ERROR, ''Async read stop failed: %s'') \<in> set (log_out (tuner_control drv st))"
  proof
    assume a: "reconfig_trigger st = 1
           \<and> rtlsdr_cancel_async drv (dev (rtl_receivers st ! i)) \<noteq> 0"
    then have "(LOG_ERROR, ''Async read stop failed: %s'') \<in> set (log_out ?s1)"
      using assms by (intro cancel_failure_logged) blast+
    with m12 m23 tail show
      "(LOG_ERROR, ''Async read stop failed: %s'') \<in> set (log_out (tuner_control drv st))"
      by blast
  qed
  show "center_freq_change_flag st = 1
           \<and> rtlsdr_set_center_freq drv (dev (rtl_receivers st ! i)) (new_center_freq st) \<noteq> 0 \<longrightarrow>
         (LOG_ERROR, ''Failed to set center frequency: %s'') \<in> set (log_out (tuner_control drv st))"
  proof
    assume a: "center_freq_change_flag st = 1
           \<and> rtlsdr_set_center_freq drv (dev (rtl_receivers st ! i)) (new_center_freq st) \<noteq> 0"
    then have a1: "center_freq_change_flag st = 1"
      and a2: "rtlsdr_set_center_freq drv (dev (rtl_receivers st ! i)) (new_center_freq st) \<noteq> 0"
      by blast+
    have "(LOG_ERROR, ''Failed to set center frequency: %s'') \<in> set (log_out ?s2)"
    proof (rule center_freq_failure_logged)
      show "center_freq_change_flag ?s1 = 1"
        using a1 by (simp add: apply_reconfig_fields)
      show "i < ch_no ?s1"
        using assms by (simp add: apply_reconfig_keeps)
      show "rtlsdr_set_center_freq drv (dev (rtl_receivers ?s1 ! i)) (new_center_freq ?s1) \<noteq> 0"
        using a2 by (simp add: apply_reconfig_fields apply_reconfig_keeps)
    qed
    with m23 tail show
      "(LOG_ERROR, ''Failed to set center frequency: %s'') \<in> set (log_out (tuner_control drv st))"
      by blast
  qed
  show "gain_change_flag st = 1
           \<and> rtlsdr_set_tuner_gain drv (dev (rtl_receivers st ! i)) (new_gains st ! i) \<noteq> 0 \<longrightarrow>
         (LOG_ERROR, ''Failed to set gain value: %s'') \<in> set (log_out (tuner_control drv st))"
  proof
    assume a: "gain_change_flag st = 1
           \<and> rtlsdr_set_tuner_gain drv (dev (rtl_receivers st ! i)) (new_gains st ! i) \<noteq> 0"
    then have a1: "gain_change_flag st = 1"
      and a2: "rtlsdr_set_tuner_gain drv (dev (rtl_receivers st ! i)) (new_gains st ! i) \<noteq> 0"
      by blast+
    have "(LOG_ERROR, ''Failed to set gain value: %s'') \<in> set (log_out ?s3)"
    proof (rule gain_failure_logged)
      show "gain_change_flag ?s2 = 1"
        using a1 by (simp add: apply_reconfig_fields apply_center_freq_keeps)
      show "i < ch_no ?s2"
        using assms by (simp add: apply_reconfig_keeps apply_center_freq_keeps)
      show "rtlsdr_set_tuner_gain drv (dev (rtl_receivers ?s2 ! i)) (new_gains ?s2 ! i) \<noteq> 0"
        using a2 by (simp add: apply_reconfig_fields apply_reconfig_keeps apply_center_freq_keeps)
    qed
    with tail show
      "(LOG_ERROR, ''Failed to set gain value: %s'') \<in> set (log_out (tuner_control drv st))"
      by blast
  qed
qed

lemma log_out_log_msg: "log_out (log_msg lvl m st) = log_out st @ [(lvl, m)]"
  by (simp add: log_msg_def)

lemma log_out_if: "log_out (if c then a else b) = (if c then log_out a else log_out b)"
  by simp

lemma read_thread_configure_log:
  assumes "exit_flag st = 0"
  shows "log_out (read_thread_configure drv i st) =
     log_out st
     @ (if rtlsdr_set_center_freq drv (dev (rtl_receivers st ! i))
             (center_freq (rtl_receivers st ! i)) \<noteq> 0
        then [(LOG_ERROR, ''Failed to set center frequency: %s'')] else [])
     @ (if rtlsdr_set_tuner_gain drv (dev (rtl_receivers st ! i))
             (gain (rtl_receivers st ! i)) \<noteq> 0
        then [(LOG_ERROR, ''Failed to set gain value: %s'')] else [])
     @ (if rtlsdr_set_sample_rate drv (dev (rtl_receivers st ! i))
             (sample_rate (rtl_receivers st ! i)) \<noteq> 0
        then [(LOG_ERROR, ''Failed to set sample rate: %s'')] else [])
     @ (if rtlsdr_reset_buffer drv (dev (rtl_receivers st ! i)) \<noteq> 0
        then [(LOG_ERROR, ''Failed to reset receiver buffer: %s'')] else [])
     @ [(LOG_INFO, ''Device is initialized %d'')]
     @ (if dev_ind (rtl_receivers st ! i) = 0
        then [(LOG_INFO, ''Exact sample rate: %d Hz''),
              (LOG_INFO, ''Exact center frequency: %d Hz'')] else [])"
  using assms
  by (simp add: read_thread_configure_def Let_def log_msg_def)


lemma read_thread_init_log:
  "log_out (read_thread_init drv i st) =
     log_out st @ [(LOG_INFO, ''Initializing RTL-SDR device, index:%d'')]
     @ (if rtlsdr_set_dithering drv (dev (rtl_receivers st ! i)) 0 \<noteq> 0
        then [(LOG_ERROR, ''Failed to disable dithering: %s'')] else [])
     @ (if rtlsdr_set_tuner_gain_mode drv (dev (rtl_receivers st ! i)) 1 \<noteq> 0
        then [(LOG_ERROR, ''Failed to disbale AGC: %s'')] else [])"
  by (simp add: read_thread_init_def Let_def log_msg_def)

lemma read_thread_logs_failures:
  "rtlsdr_set_dithering drv (dev (rtl_receivers st ! i)) 0 \<noteq> 0 \<longrightarrow>
     (LOG_ERROR, ''Failed to disable dithering: %s'') \<in> set (log_out (read_thread_init drv i st))"
  "rtlsdr_set_tuner_gain_mode drv (dev (rtl_receivers st ! i)) 1 \<noteq> 0 \<longrightarrow>
     (LOG_ERROR, ''Failed to disbale AGC: %s'') \<in> set (log_out (read_thread_init drv i st))"
  "exit_flag st = 0 \<and> rtlsdr_set_center_freq drv (dev (rtl_receivers st ! i))
       (center_freq (rtl_receivers st ! i)) \<noteq> 0 \<longrightarrow>
     (LOG_ERROR, ''Failed to set center frequency: %s'')
       \<in> set (log_out (read_thread_configure drv i st))"
  "exit_flag st = 0 \<and> rtlsdr_set_tuner_gain drv (dev (rtl_receivers st ! i))
       (gain (rtl_receivers st ! i)) \<noteq> 0 \<longrightarrow>
     (LOG_ERROR, ''Failed to set gain value: %s'')
       \<in> set (log_out (read_thread_configure drv i st))"
  "exit_flag st = 0 \<and> rtlsdr_set_sample_rate drv (dev (rtl_receivers st ! i))
       (sample_rate (rtl_receivers st ! i)) \<noteq> 0 \<longrightarrow>
     (LOG_ERROR, ''Failed to set sample rate: %s'')
       \<in> set (log_out (read_thread_configure drv i st))"
  "exit_flag st = 0 \<and> rtlsdr_reset_buffer drv (dev (rtl_receivers st ! i)) \<noteq> 0 \<longrightarrow>
     (LOG_ERROR, ''Failed to reset receiver buffer: %s'')
       \<in> set (log_out (read_thread_configure drv i st))"
  by (simp_all add: read_thread_init_log read_thread_configure_log)

lemma tuner_rest_read_thread:
  "tuner_rest (read_thread_init drv i st) = tuner_rest st"
  "tuner_rest (read_thread_configure drv i st) = tuner_rest st"
  by (simp_all add: read_thread_init_def read_thread_configure_def Let_def log_msg_def
      tuner_rest_def)

lemma read_thread_continues:
  "exit_flag (read_thread_init drv i st) = exit_flag st"
  "exit_flag (read_thread_configure drv i st) = exit_flag st"
  "main_done (read_thread_configure drv i st) = main_done st"
  "stdout (read_thread_configure drv i st) = stdout st"
  using arg_cong [OF tuner_rest_read_thread(1), of exit_flag drv i st]
    arg_cong [OF tuner_rest_read_thread(2), of exit_flag drv i st]
    arg_cong [OF tuner_rest_read_thread(2), of main_done drv i st]
    arg_cong [OF tuner_rest_read_thread(2), of stdout drv i st]
  by (simp_all add: tuner_rest_fields)

lemma set_gpio_ignored:
  "read_thread_configure (drv\<lparr>rtlsdr_set_gpio := g\<rparr>) i st = read_thread_configure drv i st"
  "tuner_control (drv\<lparr>rtlsdr_set_gpio := g\<rparr>) st = tuner_control drv st"
proof -
  show "read_thread_configure (drv\<lparr>rtlsdr_set_gpio := g\<rparr>) i st = read_thread_configure drv i st"
    by (simp add: read_thread_configure_def Let_def split del: if_split cong: if_cong)
  have 1: "cancel_async_ch (drv\<lparr>rtlsdr_set_gpio := g\<rparr>) = cancel_async_ch drv"
    by (rule ext)+ (simp add: cancel_async_ch_def)
  have 2: "center_freq_ch (drv\<lparr>rtlsdr_set_gpio := g\<rparr>) = center_freq_ch drv"
    by (rule ext)+ (simp add: center_freq_ch_def Let_def)
  have 3: "gain_ch (drv\<lparr>rtlsdr_set_gpio := g\<rparr>) = gain_ch drv"
    by (rule ext)+ (simp add: gain_ch_def Let_def)
  show "tuner_control (drv\<lparr>rtlsdr_set_gpio := g\<rparr>) st = tuner_control drv st"
    by (simp add: tuner_control_def apply_reconfig_def apply_center_freq_def apply_gain_def 1 2 3
        split del: if_split cong: if_cong)
qed

text \<open>
  Claim C8. A failure of a device call is logged and execution continues. As amended: in
  the reader threads (\<^verbatim>\<open>set_dithering\<close>, \<^verbatim>\<open>set_tuner_gain_mode\<close>, \<^verbatim>\<open>set_center_freq\<close>,
  \<^verbatim>\<open>set_tuner_gain\<close>, \<^verbatim>\<open>set_sample_rate\<close>, \<^verbatim>\<open>reset_buffer\<close>) and in the tuner control of the
  acquisition loop (\<^verbatim>\<open>cancel_async\<close>, \<^verbatim>\<open>set_center_freq\<close>, \<^verbatim>\<open>set_tuner_gain\<close>) a failure is
  logged at error level and neither \<^verbatim>\<open>exit_flag\<close> nor the frames written change; the return
  value of \<^verbatim>\<open>set_gpio\<close> is never read, so its failure is neither logged nor acted on; and a
  failure of \<^verbatim>\<open>cancel_async\<close> in the shutdown loop is logged as fatal and makes \<^verbatim>\<open>main\<close>
  return \<open>-1\<close>: the shutdown returns 0 exactly when every cancel succeeds.
\<close>

theorem device_call_failures:
  assumes "i < ch_no st"
  shows "(rtlsdr_set_dithering drv (dev (rtl_receivers st ! i)) 0 \<noteq> 0 \<longrightarrow>
            (LOG_ERROR, ''Failed to disable dithering: %s'')
              \<in> set (log_out (read_thread_init drv i st)))
       \<and> (rtlsdr_set_tuner_gain_mode drv (dev (rtl_receivers st ! i)) 1 \<noteq> 0 \<longrightarrow>
            (LOG_ERROR, ''Failed to disbale AGC: %s'')
              \<in> set (log_out (read_thread_init drv i st)))
       \<and> (exit_flag st = 0 \<and> rtlsdr_set_center_freq drv (dev (rtl_receivers st ! i))
              (center_freq (rtl_receivers st ! i)) \<noteq> 0 \<longrightarrow>
            (LOG_ERROR, ''Failed to set center frequency: %s'')
              \<in> set (log_out (read_thread_configure drv i st)))
       \<and> (exit_flag st = 0 \<and> rtlsdr_set_tuner_gain drv (dev (rtl_receivers st ! i))
              (gain (rtl_receivers st ! i)) \<noteq> 0 \<longrightarrow>
            (LOG_ERROR, ''Failed to set gain value: %s'')
              \<in> set (log_out (read_thread_configure drv i st)))
       \<and> (exit_flag st = 0 \<and> rtlsdr_set_sample_rate drv (dev (rtl_receivers st ! i))
              (sample_rate (rtl_receivers st ! i)) \<noteq> 0 \<longrightarrow>
            (LOG_ERROR, ''Failed to set sample rate: %s'')
              \<in> set (log_out (read_thread_configure drv i st)))
       \<and> (exit_flag st = 0 \<and> rtlsdr_reset_buffer drv (dev (rtl_receivers st ! i)) \<noteq> 0 \<longrightarrow>
            (LOG_ERROR, ''Failed to reset receiver buffer: %s'')
              \<in> set (log_out (read_thread_configure drv i st)))
       \<and> exit_flag (read_thread_init drv i st) = exit_flag st
       \<and> exit_flag (read_thread_configure drv i st) = exit_flag st
       \<and> stdout (read_thread_configure drv i st) = stdout st
       \<and> (reconfig_trigger st = 1
              \<and> rtlsdr_cancel_async drv (dev (rtl_receivers st ! i)) \<noteq> 0 \<longrightarrow>
            (LOG_ERROR, ''Async read stop failed: %s'') \<in> set (log_out (tuner_control drv st)))
       \<and> (center_freq_change_flag st = 1
              \<and> rtlsdr_set_center_freq drv (dev (rtl_receivers st ! i)) (new_center_freq st) \<noteq> 0
            \<longrightarrow> (LOG_ERROR, ''Failed to set center frequency: %s'')
                  \<in> set (log_out (tuner_control drv st)))
       \<and> (gain_change_flag st = 1
              \<and> rtlsdr_set_tuner_gain drv (dev (rtl_receivers st ! i)) (new_gains st ! i) \<noteq> 0
            \<longrightarrow> (LOG_ERROR, ''Failed to set gain value: %s'')
                  \<in> set (log_out (tuner_control drv st)))
       \<and> exit_flag (tuner_control drv st) = exit_flag st
       \<and> stdout (tuner_control drv st) = stdout st
       \<and> read_thread_configure (drv\<lparr>rtlsdr_set_gpio := g\<rparr>) i st = read_thread_configure drv i st
       \<and> tuner_control (drv\<lparr>rtlsdr_set_gpio := g\<rparr>) st = tuner_control drv st
       \<and> fst (main_exit drv st) =
           (if list_ex (\<lambda>j. rtlsdr_cancel_async drv (dev (rtl_receivers st ! j)) \<noteq> 0)
                 [0..<ch_no st]
            then - 1 else 0)
       \<and> (list_ex (\<lambda>j. rtlsdr_cancel_async drv (dev (rtl_receivers st ! j)) \<noteq> 0) [0..<ch_no st]
            \<longrightarrow> (LOG_FATAL, ''Async read stop failed: %s'')
                  \<in> set (log_out (snd (main_exit drv st))))"
  using read_thread_logs_failures [where drv = drv and st = st and i = i]
    read_thread_continues [where drv = drv and st = st and i = i]
    tuner_control_logs_failures [OF assms, where drv = drv]
    tuner_control_rest_fields(1,4) [where drv = drv and st = st]
    set_gpio_ignored(1) [where drv = drv and st = st and i = i and g = g]
    set_gpio_ignored(2) [where drv = drv and st = st and g = g]
    main_exit_code [where drv = drv and st = st]
    main_exit_fatal_logged [where drv = drv and st = st]
  by (intro conjI impI) blast+

lemma ex_retune_reconfig: "reconfig_trigger ex_retune = 1"
  by (simp add: ex_retune_def ex_r300_def fifo_read_tf_cmd_def log_msg_def ex_ready_fields Let_def)

theorem device_call_failures_witness:
  "0 < ch_no ex_retune
   \<and> reconfig_trigger ex_retune = 1
   \<and> rtlsdr_cancel_async drv_fail (dev (rtl_receivers ex_retune ! 0)) \<noteq> 0
   \<and> (LOG_ERROR, ''Async read stop failed: %s'') \<in> set (log_out (tuner_control drv_fail ex_retune))
   \<and> exit_flag (tuner_control drv_fail ex_retune) = 0
   \<and> rtlsdr_set_tuner_gain drv_fail (dev (rtl_receivers ex_retune ! 0))
        (gain (rtl_receivers ex_retune ! 0)) \<noteq> 0
   \<and> (LOG_ERROR, ''Failed to set gain value: %s'')
        \<in> set (log_out (read_thread_configure drv_fail 0 ex_retune))
   \<and> exit_flag (read_thread_configure drv_fail 0 ex_retune) = 0
   \<and> fst (main_exit drv_fail ex_retune) = - 1
   \<and> fst (main_exit drv_ok ex_retune) = 0"
proof -
  have h: "0 < ch_no ex_retune"
    by (simp add: ex_retune_fields)
  have f: "rtlsdr_cancel_async drv_fail d \<noteq> 0" "rtlsdr_set_tuner_gain drv_fail d g \<noteq> 0" for d g
    by (simp_all add: drv_fail_def)
  have bad: "list_ex (\<lambda>j. rtlsdr_cancel_async drv_fail (dev (rtl_receivers ex_retune ! j)) \<noteq> 0)
               [0..<ch_no ex_retune]"
    by (simp add: drv_fail_def ex_retune_fields upt_rec)
  have ok: "\<not> list_ex (\<lambda>j. rtlsdr_cancel_async drv_ok (dev (rtl_receivers ex_retune ! j)) \<noteq> 0)
               [0..<ch_no ex_retune]"
    by (simp add: drv_ok_def list_ex_iff)
  from device_call_failures [OF h, where drv = drv_fail]
    device_call_failures [OF h, where drv = drv_ok]
    f bad ok ex_retune_reconfig h
  show ?thesis
    by (simp add: ex_retune_fields)
qed

subsection \<open>The rings are written by the driver callback only\<close>

lemma map_update_same:
  assumes "f x = f (xs ! i)"
  shows "map f (xs[i := x]) = map f xs"
proof (cases "i < length xs")
  case True
  then show ?thesis
    using assms by (simp add: map_update list_update_same_conv)
next
  case False
  then have "length xs \<le> i" by simp
  then have "xs[i := x] = xs" by (rule list_update_beyond)
  then show ?thesis by simp
qed

lemma rings_upd:
  "rings (st\<lparr>reconfig_trigger := a\<rparr>) = rings st"
  "rings (st\<lparr>center_freq_change_flag := b\<rparr>) = rings st"
  "rings (st\<lparr>gain_change_flag := c\<rparr>) = rings st"
  "rings (st\<lparr>main_done := d\<rparr>) = rings st"
  "rings (st\<lparr>fault := e\<rparr>) = rings st"
  "rings (st\<lparr>last_noise_source_state := l\<rparr>) = rings st"
  by (simp_all add: rings_def)

lemma rings_steps:
  "rings (cancel_async_ch drv j s) = rings s"
  "rings (center_freq_ch drv j s) = rings s"
  "rings (gain_ch drv j s) = rings s"
  by (simp_all add: rings_def cancel_async_ch_def center_freq_ch_def gain_ch_def log_msg_def
      Let_def map_update_same ring_of_def)

lemma rings_apply:
  "rings (apply_reconfig drv st) = rings st"
  "rings (apply_center_freq drv st) = rings st"
  "rings (apply_gain drv st) = rings st"
proof -
  have "rings (fold (cancel_async_ch drv) xs st) = rings st" for xs
    by (rule fold_keeps) (rule rings_steps)
  then show "rings (apply_reconfig drv st) = rings st"
    by (simp add: apply_reconfig_def rings_upd)
  have "rings (fold (center_freq_ch drv) xs st) = rings st" for xs
    by (rule fold_keeps) (rule rings_steps)
  then show "rings (apply_center_freq drv st) = rings st"
    by (simp add: apply_center_freq_def rings_upd)
  have "rings (fold (gain_ch drv) xs st) = rings st" for xs
    by (rule fold_keeps) (rule rings_steps)
  then show "rings (apply_gain drv st) = rings st"
    by (simp add: apply_gain_def rings_upd)
qed

lemma rings_tuner_control: "rings (tuner_control drv st) = rings st"
proof -
  let ?st3 = "apply_gain drv (apply_center_freq drv (apply_reconfig drv st))"
  have 3: "rings ?st3 = rings st"
    by (simp add: rings_apply)
  show ?thesis
  proof (cases "noise_source_switch ?st3")
    case (Inl e)
    then have "tuner_control drv st = ?st3\<lparr>fault := Some e\<rparr>"
      by (simp add: tuner_control_def Let_def)
    with 3 show ?thesis by (simp add: rings_upd)
  next
    case (Inr st4)
    then have "tuner_control drv st = st4\<lparr>last_noise_source_state := noise_source_state st4\<rparr>"
      by (simp add: tuner_control_def Let_def)
    moreover from Inr have "rtl_receivers st4 = rtl_receivers ?st3"
      by (rule noise_source_switch_receivers)
    ultimately show ?thesis using 3 by (simp add: rings_def)
  qed
qed

lemma rings_main_wake: "rings (main_wake now drv st) = rings st"
proof -
  have "rings (emit_frame now st) = rings st"
    by (simp add: rings_def emit_frame_fields)
  then show ?thesis
    by (simp add: main_wake_def main_loop_body_def Let_def rings_tuner_control rings_upd)
qed

lemma rings_upd_receivers:
  assumes "\<And>r. ring_of (f r) = ring_of r"
  shows "map ring_of (upd_receivers n f recs) = map ring_of recs"
proof -
  have "map ring_of (upd_receivers n f recs)
        = map ring_of (take n recs) @ map ring_of (drop n recs)"
    by (simp add: upd_receivers_def assms)
  also have "\<dots> = take n (map ring_of recs) @ drop n (map ring_of recs)"
    by (simp add: take_map drop_map)
  also have "\<dots> = map ring_of recs"
    by (rule append_take_drop_id)
  finally show ?thesis .
qed

lemma rings_fifo_read_tf_cmd: "rings (fifo_read_tf_cmd rd st) = rings st"
  by (simp add: fifo_read_tf_cmd_def rings_def log_msg_def Let_def rings_upd_receivers ring_of_def)

lemma rings_read_thread_configure: "rings (read_thread_configure drv i st) = rings st"
  by (simp add: read_thread_configure_def rings_def log_msg_def Let_def map_update_same
      ring_of_def)

lemma rings_step:
  "\<not> (\<exists>i buf. e = Callback i buf) \<Longrightarrow> rings (step e st) = rings st"
  by (cases e)
    (simp_all add: rings_fifo_read_tf_cmd rings_read_thread_configure rings_main_wake,
      simp add: rings_def fifo_read_tf_open_def log_msg_def)

subsection \<open>The frames of a run\<close>

lemma run_Nil: "run [] st = st"
  by (simp add: run_def)

lemma run_Cons: "run (e # evs) st = run evs (step e st)"
  by (simp add: run_def)

lemma run_append: "run (xs @ ys) st = run ys (run xs st)"
  by (simp add: run_def)

lemma fifo_read_tf_cmd_stdout: "stdout (fifo_read_tf_cmd rd st) = stdout st"
  by (simp add: fifo_read_tf_cmd_def log_msg_def Let_def)

lemma reader_callback_keeps:
  "stdout (reader_callback i buf st) = stdout st"
  "en_dummy_frame (reader_callback i buf st) = en_dummy_frame st"
  "dummy_frame_cntr (reader_callback i buf st) = dummy_frame_cntr st"
  by (simp_all add: reader_callback_def log_msg_def split: sum.splits)

lemma step_stdout:
  "stdout (step e st) =
     stdout st @ (case e of
                    Wake now drv \<Rightarrow>
                      if \<not> main_done st \<and> fault st = None \<and> data_ready st
                      then [next_frame now st] else []
                  | _ \<Rightarrow> [])"
  by (cases e)
    (simp_all add: fifo_read_tf_open_fields fifo_read_tf_cmd_stdout reader_callback_keeps
      read_thread_continues main_wake_stdout)

lemma frames_of_single:
  "frames_of [e] st =
     (case e of
        Wake now drv \<Rightarrow>
          if \<not> main_done st \<and> fault st = None \<and> data_ready st
          then [next_frame now st] else []
      | _ \<Rightarrow> [])"
  by (simp add: frames_of_def run_Cons run_Nil step_stdout)

lemma stdout_run: "stdout (run evs st) = stdout st @ frames_of evs st"
proof (induction evs arbitrary: st)
  case Nil
  show ?case by (simp add: frames_of_def run_Nil)
next
  case (Cons e evs)
  have "stdout (run (e # evs) st) = stdout (step e st) @ frames_of evs (step e st)"
    by (simp add: run_Cons Cons.IH)
  also have "\<dots> = stdout st @ frames_of [e] st @ frames_of evs (step e st)"
    by (simp add: step_stdout frames_of_single)
  finally have *: "stdout (run (e # evs) st)
                   = stdout st @ frames_of [e] st @ frames_of evs (step e st)" .
  then have "frames_of (e # evs) st = frames_of [e] st @ frames_of evs (step e st)"
    by (simp add: frames_of_def)
  with * show ?case by simp
qed

lemma frames_of_Cons:
  "frames_of (e # evs) st = frames_of [e] st @ frames_of evs (step e st)"
proof -
  have "stdout (run (e # evs) st) = stdout (step e st) @ frames_of evs (step e st)"
    by (simp add: run_Cons stdout_run)
  also have "\<dots> = stdout st @ frames_of [e] st @ frames_of evs (step e st)"
    by (simp add: step_stdout frames_of_single)
  finally show ?thesis
    by (simp add: frames_of_def)
qed

lemma frames_of_Nil: "frames_of [] st = []"
  by (simp add: frames_of_def run_Nil)

subsection \<open>The dummy window along a run\<close>

lemma fifo_read_tf_cmd_dummy:
  "en_dummy_frame (fifo_read_tf_cmd rd st) = 1"
  "dummy_frame_cntr (fifo_read_tf_cmd rd st) = 0"
  by (simp_all add: fifo_read_tf_cmd_def Let_def)

lemma main_wake_quiet:
  assumes "\<not> (\<not> main_done st \<and> fault st = None \<and> data_ready st)"
  shows "en_dummy_frame (main_wake now drv st) = en_dummy_frame st"
    and "dummy_frame_cntr (main_wake now drv st) = dummy_frame_cntr st"
  using assms by (auto simp: main_wake_def main_loop_body_def Let_def)

lemma step_dummy_cases:
  obtains
    (quiet) "frames_of [e] st = []"
      and "en_dummy_frame (step e st) = en_dummy_frame st"
      and "dummy_frame_cntr (step e st) = dummy_frame_cntr st"
  | (command) "is_control e" and "frames_of [e] st = []"
      and "en_dummy_frame (step e st) = 1"
      and "dummy_frame_cntr (step e st) = 0"
  | (emit) now drv where "e = Wake now drv"
      and "frames_of [e] st = [next_frame now st]"
      and "en_dummy_frame (step e st) =
             (if en_dummy_frame st \<noteq> 0 \<and> dummy_frame_cntr st + 1 = NO_DUMMY_FRAMES then 0
              else en_dummy_frame st)"
      and "dummy_frame_cntr (step e st) =
             (if en_dummy_frame st \<noteq> 0 then dummy_frame_cntr st + 1 else dummy_frame_cntr st)"
proof (cases e)
  case (FifoOpen ok)
  then show ?thesis
    by (intro quiet) (simp_all add: frames_of_single fifo_read_tf_open_def log_msg_def)
next
  case (Control rd)
  show ?thesis
  proof (cases "exit_flag st = 0")
    case True
    with Control show ?thesis
      by (intro command) (simp_all add: frames_of_single fifo_read_tf_cmd_dummy)
  next
    case False
    with Control show ?thesis
      by (intro quiet) (simp_all add: frames_of_single)
  qed
next
  case (Callback i buf)
  then show ?thesis
    by (intro quiet) (simp_all add: frames_of_single reader_callback_keeps)
next
  case (Configure i drv)
  have "en_dummy_frame (read_thread_configure drv i st) = en_dummy_frame st"
    "dummy_frame_cntr (read_thread_configure drv i st) = dummy_frame_cntr st"
    using arg_cong [OF tuner_rest_read_thread(2), of en_dummy_frame drv i st]
      arg_cong [OF tuner_rest_read_thread(2), of dummy_frame_cntr drv i st]
    by (simp_all add: tuner_rest_fields)
  with Configure show ?thesis
    by (intro quiet) (simp_all add: frames_of_single)
next
  case (Wake now drv)
  show ?thesis
  proof (cases "\<not> main_done st \<and> fault st = None \<and> data_ready st")
    case True
    with Wake show ?thesis
      by (intro emit [of now drv]) (simp_all add: frames_of_single main_wake_fields)
  next
    case False
    with Wake show ?thesis
      by (intro quiet) (simp_all add: frames_of_single main_wake_quiet)
  qed
qed

lemma next_frame_dummy_iff:
  "frame_type (hdr (next_frame now st)) = FRAME_TYPE_DUMMY \<longleftrightarrow> en_dummy_frame st \<noteq> 0"
  by (simp add: next_frame_fields)

text \<open>
  Whatever the events: while the window is open with at least \<open>k\<close> frames to go, the next
  \<open>k\<close> frames are dummy frames.
\<close>

lemma dummy_window_lower:
  assumes "k = 0 \<or> (en_dummy_frame st = 1 \<and> 0 \<le> dummy_frame_cntr st
                      \<and> dummy_frame_cntr st + int k \<le> NO_DUMMY_FRAMES)"
  shows "list_all (\<lambda>f. frame_type (hdr f) = FRAME_TYPE_DUMMY) (take k (frames_of evs st))"
  using assms
proof (induction evs arbitrary: st k)
  case Nil
  show ?case by (simp add: frames_of_Nil)
next
  case (Cons e evs)
  show ?case
  proof (cases "k = 0")
    case True
    then show ?thesis by simp
  next
    case False
    with Cons.prems have inv: "en_dummy_frame st = 1" "0 \<le> dummy_frame_cntr st"
      "dummy_frame_cntr st + int k \<le> NO_DUMMY_FRAMES"
      by simp_all
    show ?thesis
    proof (cases e st rule: step_dummy_cases)
      case quiet
      with inv have "list_all (\<lambda>f. frame_type (hdr f) = FRAME_TYPE_DUMMY)
                       (take k (frames_of evs (step e st)))"
        by (intro Cons.IH) simp
      with quiet(1) show ?thesis by (simp add: frames_of_Cons [of e evs])
    next
      case command
      with inv have "list_all (\<lambda>f. frame_type (hdr f) = FRAME_TYPE_DUMMY)
                       (take k (frames_of evs (step e st)))"
        by (intro Cons.IH) simp
      with command(2) show ?thesis by (simp add: frames_of_Cons [of e evs])
    next
      case (emit now drv)
      from False obtain k' where k: "k = Suc k'" by (cases k) simp_all
      have "list_all (\<lambda>f. frame_type (hdr f) = FRAME_TYPE_DUMMY)
              (take k' (frames_of evs (step e st)))"
      proof (rule Cons.IH)
        show "k' = 0 \<or> (en_dummy_frame (step e st) = 1 \<and> 0 \<le> dummy_frame_cntr (step e st)
                          \<and> dummy_frame_cntr (step e st) + int k' \<le> NO_DUMMY_FRAMES)"
          using inv k unfolding emit(3,4) by (cases "k' = 0") simp_all
      qed
      moreover have "frame_type (hdr (next_frame now st)) = FRAME_TYPE_DUMMY"
        using inv(1) by (simp add: next_frame_dummy_iff)
      ultimately show ?thesis
        using emit(2) k by (simp add: frames_of_Cons [of e evs])
    qed
  qed
qed

text \<open>
  With no command among the events: the frames are dummy frames exactly while the window
  is open.
\<close>

lemma dummy_window_exact:
  assumes "en_dummy_frame st = 0
           \<or> (en_dummy_frame st = 1 \<and> 0 \<le> dummy_frame_cntr st
               \<and> dummy_frame_cntr st < NO_DUMMY_FRAMES)"
    and "list_all (\<lambda>e. \<not> is_control e) evs"
    and "j < length (frames_of evs st)"
  shows "frame_type (hdr (frames_of evs st ! j)) = FRAME_TYPE_DUMMY \<longleftrightarrow> j < dummies_left st"
  using assms
proof (induction evs arbitrary: st j)
  case Nil
  then show ?case by (simp add: frames_of_Nil)
next
  case (Cons e evs)
  from Cons.prems(2) have nc: "\<not> is_control e" and rest: "list_all (\<lambda>e. \<not> is_control e) evs"
    by simp_all
  show ?case
  proof (cases e st rule: step_dummy_cases)
    case quiet
    have "frame_type (hdr (frames_of evs (step e st) ! j)) = FRAME_TYPE_DUMMY
          \<longleftrightarrow> j < dummies_left (step e st)"
      using Cons.prems(1,3) rest quiet by (intro Cons.IH) (simp_all add: frames_of_Cons [of e evs])
    with quiet show ?thesis
      by (simp add: frames_of_Cons [of e evs] dummies_left_def)
  next
    case command
    with nc show ?thesis by simp
  next
    case (emit now drv)
    have inv': "en_dummy_frame (step e st) = 0
           \<or> (en_dummy_frame (step e st) = 1 \<and> 0 \<le> dummy_frame_cntr (step e st)
               \<and> dummy_frame_cntr (step e st) < NO_DUMMY_FRAMES)"
      using Cons.prems(1) unfolding emit(3,4) by auto
    have left: "dummies_left (step e st) = dummies_left st - 1"
      using Cons.prems(1) unfolding dummies_left_def emit(3,4)
      by (auto simp: NO_DUMMY_FRAMES_def)
    have pos: "0 < dummies_left st \<longleftrightarrow> en_dummy_frame st \<noteq> 0"
      using Cons.prems(1) by (auto simp: dummies_left_def NO_DUMMY_FRAMES_def)
    show ?thesis
    proof (cases j)
      case 0
      with emit(2) pos show ?thesis
        by (simp add: frames_of_Cons [of e evs] next_frame_dummy_iff)
    next
      case (Suc j')
      with Cons.prems(3) emit(2) have "j' < length (frames_of evs (step e st))"
        by (simp add: frames_of_Cons [of e evs])
      with inv' rest have "frame_type (hdr (frames_of evs (step e st) ! j')) = FRAME_TYPE_DUMMY
                           \<longleftrightarrow> j' < dummies_left (step e st)"
        by (rule Cons.IH)
      with Suc emit(2) left show ?thesis
        by (auto simp: frames_of_Cons [of e evs])
    qed
  qed
qed

text \<open>After commands other than the halt command the window is open at its start.\<close>

lemma fifo_read_tf_cmd_exit_flag:
  "signal rd \<noteq> 2 \<Longrightarrow> exit_flag (fifo_read_tf_cmd rd st) = exit_flag st"
  by (simp add: fifo_read_tf_cmd_def log_msg_def Let_def)

lemma commands_open_window:
  assumes "exit_flag st = 0" and "list_all (\<lambda>rd. signal rd \<noteq> 2) rds"
  shows "exit_flag (run (map Control rds) st) = 0
         \<and> (rds \<noteq> [] \<longrightarrow> en_dummy_frame (run (map Control rds) st) = 1
                            \<and> dummy_frame_cntr (run (map Control rds) st) = 0)"
  using assms
proof (induction rds rule: rev_induct)
  case Nil
  then show ?case by (simp add: run_Nil)
next
  case (snoc rd rds)
  then have "exit_flag (run (map Control rds) st) = 0" and "signal rd \<noteq> 2"
    by simp_all
  then show ?case
    by (simp add: run_append run_Cons run_Nil fifo_read_tf_cmd_exit_flag fifo_read_tf_cmd_dummy)
qed

subsection \<open>C3: the dummy window after a command\<close>

text \<open>
  Claim C3. After the control task receives any of the commands \<open>c\<close>, \<open>g\<close>, \<open>r\<close>, \<open>n\<close>, \<open>f\<close>, the
  next \<^verbatim>\<open>NO_DUMMY_FRAMES = 8\<close> frames written are DUMMY frames, whatever happens in between;
  and several such commands with no frame between them make one window: with no further
  command, the frames written afterwards are DUMMY frames exactly up to the eighth.
\<close>

theorem dummy_window_after_commands:
  assumes "exit_flag st = 0"
    and "list_all (\<lambda>c. signal c \<in> {99, 103, 114, 110, 102}) (rd # rds)"
    and "list_all (\<lambda>e. \<not> is_control e) evs'"
  shows "list_all (\<lambda>f. frame_type (hdr f) = FRAME_TYPE_DUMMY)
           (take 8 (frames_of evs (run (map Control (rd # rds)) st)))
         \<and> (\<forall>j < length (frames_of evs' (run (map Control (rd # rds)) st)).
              frame_type (hdr (frames_of evs' (run (map Control (rd # rds)) st) ! j))
                = FRAME_TYPE_DUMMY \<longleftrightarrow> j < 8)"
proof -
  let ?st = "run (map Control (rd # rds)) st"
  from assms(2) have "list_all (\<lambda>c. signal c \<noteq> 2) (rd # rds)"
    by (auto simp: list_all_iff)
  with assms(1) have w: "en_dummy_frame ?st = 1" "dummy_frame_cntr ?st = 0"
    using commands_open_window [of st "rd # rds"] by simp_all
  have 1: "list_all (\<lambda>f. frame_type (hdr f) = FRAME_TYPE_DUMMY) (take 8 (frames_of evs ?st))"
    by (rule dummy_window_lower) (use w in \<open>simp add: NO_DUMMY_FRAMES_def\<close>)
  have left: "dummies_left ?st = 8"
    using w by (simp add: dummies_left_def NO_DUMMY_FRAMES_def)
  have 2: "frame_type (hdr (frames_of evs' ?st ! j)) = FRAME_TYPE_DUMMY \<longleftrightarrow> j < 8"
    if "j < length (frames_of evs' ?st)" for j
    using dummy_window_exact [of ?st evs' j] that assms(3) w left
    by (simp add: NO_DUMMY_FRAMES_def)
  from 1 2 show ?thesis by blast
qed

lemma ex_nine_fields:
  "ch_no ex_nine = 1"
  "buffer_size ex_nine = 2"
  "main_done ex_nine = False"
  "fault ex_nine = None"
  "exit_flag ex_nine = 0"
  "read_buff_ind ex_nine = 0"
  "rd_buff_ind ex_nine = 1"
  "en_dummy_frame ex_nine = 0"
  "noise_source_state ex_nine = 0"
  "last_noise_source_state ex_nine = 0"
  "overdrive_flags ex_nine = 0"
  "stdout ex_nine = []"
  "rtl_receivers ex_nine =
     [\<lparr>dev_ind = 0, gain = 10, dev = 0,
       buffer = [8, 8, 1, 1, 2, 2, 3, 3, 4, 4, 5, 5, 6, 6, 7, 7], buff_ind = 9,
       center_freq = 100, sample_rate = 2400000\<rparr>]"
  by (simp_all add: ex_nine_def ex_nine_events_def ex_defs upt_rec)

subsection \<open>Frames are written while blocks are waiting\<close>

lemma rings_nth:
  "i < length (rtl_receivers st) \<Longrightarrow> rings st ! i = ring_of (rtl_receivers st ! i)"
  by (simp add: rings_def)

lemma length_rings: "length (rings st) = length (rtl_receivers st)"
  by (simp add: rings_def)

lemma data_ready_rings:
  assumes "ch_no st \<le> length (rtl_receivers st)"
  shows "data_ready st
         \<longleftrightarrow> list_all (\<lambda>i. \<not> snd (rings st ! i) \<le> read_buff_ind st) [0..<ch_no st]"
  using assms by (simp add: data_ready_def list_all_iff rings_nth ring_of_def)

lemma main_wake_last_noise:
  assumes "last_noise_source_state st = noise_source_state st"
  shows "last_noise_source_state (main_wake now drv st) = noise_source_state st"
  using assms
  by (simp add: main_wake_def main_loop_body_def Let_def tuner_control_last_noise
      emit_frame_flags emit_frame_fields)

lemma main_running_wake:
  assumes "main_running st" and "data_ready st"
  shows "main_running (step (Wake now drv) st)"
    and "read_buff_ind (step (Wake now drv) st) = read_buff_ind st + 1"
    and "ch_no (step (Wake now drv) st) = ch_no st"
    and "frames_of [Wake now drv] st = [next_frame now st]"
  using assms
  by (simp_all add: main_running_def main_wake_fields main_wake_fault main_wake_last_noise
      frames_of_single)

lemma wakes_emit:
  assumes "main_running st" and "ch_no st \<le> length (rings st)"
    and "list_all (\<lambda>i. unat (read_buff_ind st) + n \<le> unat (snd (rings st ! i))) [0..<ch_no st]"
  shows "length (frames_of (replicate n (Wake now drv)) st) = n"
  using assms
proof (induction n arbitrary: st)
  case 0
  show ?case by (simp add: frames_of_Nil)
next
  case (Suc n)
  let ?st = "step (Wake now drv) st"
  have len: "ch_no st \<le> length (rtl_receivers st)"
    using Suc.prems(2) by (simp add: length_rings)
  have ahead: "unat (read_buff_ind st) + Suc n \<le> unat (snd (rings st ! i))" if "i < ch_no st" for i
    using Suc.prems(3) that by (simp add: list_all_iff)
  have ready: "data_ready st"
    unfolding data_ready_rings [OF len] list_all_iff
  proof
    fix i assume "i \<in> set [0..<ch_no st]"
    then have "unat (read_buff_ind st) < unat (snd (rings st ! i))"
      using ahead [of i] by simp
    then show "\<not> snd (rings st ! i) \<le> read_buff_ind st"
      by (simp add: word_le_nat_alt)
  qed
  note w = main_running_wake [OF Suc.prems(1) ready, of now drv]
  have r: "rings ?st = rings st"
    by (simp add: rings_main_wake)
  have next_ind: "unat (read_buff_ind ?st) = unat (read_buff_ind st) + 1" if "0 < ch_no st"
  proof -
    from ahead [OF that] have "unat (read_buff_ind st) + 1 < 2 ^ 64"
      using unsigned_less [of "snd (rings st ! 0)", where 'a = nat] by simp
    then show ?thesis
      unfolding w(2) by (simp add: unat_add_lem [THEN iffD1])
  qed
  have "length (frames_of (replicate n (Wake now drv)) ?st) = n"
  proof (rule Suc.IH)
    show "main_running ?st" by (rule w(1))
    show "ch_no ?st \<le> length (rings ?st)"
      using Suc.prems(2) by (simp only: w(3) r)
    show "list_all (\<lambda>i. unat (read_buff_ind ?st) + n \<le> unat (snd (rings ?st ! i)))
            [0..<ch_no ?st]"
      unfolding list_all_iff w(3) r
    proof
      fix i assume i: "i \<in> set [0..<ch_no st]"
      then have "0 < ch_no st" and "i < ch_no st" by simp_all
      with next_ind ahead [of i]
      show "unat (read_buff_ind ?st) + n \<le> unat (snd (rings st ! i))" by simp
    qed
  qed
  with w(4) show ?case
    by (simp add: frames_of_Cons [of "Wake now drv" "replicate n (Wake now drv)"])
qed

lemma map_by_index:
  assumes "\<forall>j < length fs. P (fs ! j) \<longleftrightarrow> Q j"
  shows "map P fs = map Q [0..<length fs]"
proof (rule nth_equalityI)
  show "length (map P fs) = length (map Q [0..<length fs])"
    by simp
  fix i assume "i < length (map P fs)"
  then show "map P fs ! i = map Q [0..<length fs] ! i"
    using assms by simp
qed

lemma ex_nine_cmds_fields:
  "ch_no ex_nine_cmds = 1"
  "main_done ex_nine_cmds = False"
  "fault ex_nine_cmds = None"
  "exit_flag ex_nine_cmds = 0"
  "read_buff_ind ex_nine_cmds = 0"
  "noise_source_state ex_nine_cmds = 0"
  "last_noise_source_state ex_nine_cmds = 0"
  "rtl_receivers ex_nine_cmds = rtl_receivers ex_nine"
  by (simp_all add: ex_nine_cmds_def run_def fifo_read_tf_cmd_def ex_cmd_def log_msg_def
      ex_nine_fields Let_def)

theorem dummy_window_after_commands_witness:
  "exit_flag ex_nine = 0
   \<and> list_all (\<lambda>c. signal c \<in> {99, 103, 114, 110, 102}) [ex_cmd 99, ex_cmd 103]
   \<and> list_all (\<lambda>e. \<not> is_control e) (replicate 9 (Wake 0 drv_ok))
   \<and> map (\<lambda>f. frame_type (hdr f) = FRAME_TYPE_DUMMY)
        (frames_of (replicate 9 (Wake 0 drv_ok))
           (run (map Control [ex_cmd 99, ex_cmd 103]) ex_nine))
      = [True, True, True, True, True, True, True, True, False]"
proof -
  let ?evs = "replicate 9 (Wake 0 drv_ok)"
  let ?fs = "frames_of ?evs (run (map Control [ex_cmd 99, ex_cmd 103]) ex_nine)"
  have h1: "exit_flag ex_nine = 0"
    by (simp add: ex_nine_fields)
  have h2: "list_all (\<lambda>c. signal c \<in> {99, 103, 114, 110, 102}) [ex_cmd 99, ex_cmd 103]"
    by (simp add: ex_cmd_def)
  have h3: "list_all (\<lambda>e. \<not> is_control e) ?evs"
    by (simp add: list_all_iff)
  have len: "length ?fs = 9"
    unfolding ex_nine_cmds_def [symmetric]
  proof (rule wakes_emit)
    show "main_running ex_nine_cmds"
      by (simp add: main_running_def ex_nine_cmds_fields)
    show "ch_no ex_nine_cmds \<le> length (rings ex_nine_cmds)"
      by (simp add: rings_def ex_nine_cmds_fields ex_nine_fields)
    show "list_all (\<lambda>i. unat (read_buff_ind ex_nine_cmds) + 9
                          \<le> unat (snd (rings ex_nine_cmds ! i))) [0..<ch_no ex_nine_cmds]"
      by (simp add: rings_def ring_of_def ex_nine_cmds_fields ex_nine_fields)
  qed
  from dummy_window_after_commands [OF h1 h2 h3, of ?evs]
  have "\<forall>j < length ?fs. frame_type (hdr (?fs ! j)) = FRAME_TYPE_DUMMY \<longleftrightarrow> j < 8"
    by blast
  then have "map (\<lambda>f. frame_type (hdr f) = FRAME_TYPE_DUMMY) ?fs
             = map (\<lambda>j. j < 8) [0..<length ?fs]"
    by (rule map_by_index)
  also have "\<dots> = [True, True, True, True, True, True, True, True, False]"
    unfolding len by (simp add: upt_rec)
  finally show ?thesis
    using h1 h2 h3 by blast
qed

subsection \<open>The ring buffer of one channel\<close>





subsection \<open>The rings along a run\<close>

lemma step_static:
  "ch_no (step e st) = ch_no st"
  "buffer_size (step e st) = buffer_size st"
proof -
  have w: "ch_no (main_wake now drv st) = ch_no st"
    "buffer_size (main_wake now drv st) = buffer_size st" for now drv
    by (simp_all add: main_wake_def main_loop_body_def Let_def tuner_control_rest_fields
        emit_frame_fields)
  have c: "ch_no (read_thread_configure drv i st) = ch_no st"
    "buffer_size (read_thread_configure drv i st) = buffer_size st" for drv i
    using arg_cong [OF tuner_rest_read_thread(2), of ch_no drv i st]
      arg_cong [OF tuner_rest_read_thread(2), of buffer_size drv i st]
    by (simp_all add: tuner_rest_fields)
  have r: "ch_no (reader_callback i buf st) = ch_no st"
    "buffer_size (reader_callback i buf st) = buffer_size st" for i buf
    by (simp_all add: reader_callback_def log_msg_def split: sum.splits)
  have f: "ch_no (fifo_read_tf_cmd rd st) = ch_no st"
    "buffer_size (fifo_read_tf_cmd rd st) = buffer_size st" for rd
    by (simp_all add: fifo_read_tf_cmd_def log_msg_def Let_def)
  have p: "ch_no (fifo_read_tf_open ok st) = ch_no st"
    "buffer_size (fifo_read_tf_open ok st) = buffer_size st" for ok
    by (simp_all add: fifo_read_tf_open_def log_msg_def)
  show "ch_no (step e st) = ch_no st"
    by (cases e) (simp_all add: w c r f p)
  show "buffer_size (step e st) = buffer_size st"
    by (cases e) (simp_all add: w c r f p)
qed

lemma run_static:
  "ch_no (run evs st) = ch_no st"
  "buffer_size (run evs st) = buffer_size st"
  by (induction evs arbitrary: st) (simp_all add: run_Nil run_Cons step_static)







subsection \<open>C1: the blocks of one frame\<close>


lemma ex_start_2_wf: "wf_state (ex_start 2)"
  by (simp add: wf_state_def ex_start_def main_startup_def ex_env_def ex_cfg_def
      init_receiver_def init_header_def NUM_BUFF_def Let_def upt_rec)


lemma ex_start_2_buffer_size: "buffer_size (ex_start 2) = 2"
  by (simp add: ex_start_def main_startup_def ex_env_def ex_cfg_def Let_def upt_rec)

lemma ex_ready_run: "ex_ready = run ex_ready_events (ex_start 2)"
  by (simp add: ex_ready_def ex_ready_events_def)



subsection \<open>Well-formed states along a run\<close>

text \<open>Every event keeps a well-formed state well-formed, and startup ends in one.\<close>

lemma length_receivers_step:
  "length (rtl_receivers (step e st)) = length (rtl_receivers st)"
proof (cases "\<exists>j buf. e = Callback j buf")
  case True
  then obtain j buf where e: "e = Callback j buf" by blast
  show ?thesis
    unfolding e by (simp add: reader_callback_def log_msg_def split: sum.splits)
next
  case False
  then have "rings (step e st) = rings st" by (rule rings_step)
  then have "length (rings (step e st)) = length (rings st)" by simp
  then show ?thesis by (simp add: length_rings)
qed

lemma buffers_rings:
  "list_all (\<lambda>r. length (buffer r) = L) (rtl_receivers st)
   \<longleftrightarrow> list_all (\<lambda>b. length (fst b) = L) (rings st)"
  by (simp add: rings_def ring_of_def list_all_iff)

lemma length_buffer_rtlsdrCallback:
  assumes "rtlsdrCallback bs buf r = Inr r'"
  shows "length (buffer r') = length (buffer r)"
  using assms by (auto simp: rtlsdrCallback_def Let_def split: if_splits)

lemma buffers_step:
  assumes "list_all (\<lambda>r. length (buffer r) = L) (rtl_receivers st)"
  shows "list_all (\<lambda>r. length (buffer r) = L) (rtl_receivers (step e st))"
proof (cases "\<exists>j buf. e = Callback j buf")
  case True
  then obtain j buf where e: "e = Callback j buf" by blast
  show ?thesis
  proof (cases "rtlsdrCallback (buffer_size st) buf (rtl_receivers st ! j)")
    case (Inl err)
    then show ?thesis
      using assms unfolding e by (simp add: reader_callback_def)
  next
    case (Inr r')
    show ?thesis
    proof (cases "j < length (rtl_receivers st)")
      case True
      with assms have "length (buffer (rtl_receivers st ! j)) = L"
        by (simp add: list_all_length)
      with Inr have "length (buffer r') = L"
        by (simp add: length_buffer_rtlsdrCallback)
      moreover have "set ((rtl_receivers st)[j := r']) \<subseteq> insert r' (set (rtl_receivers st))"
        by (rule set_update_subset_insert)
      ultimately have "list_all (\<lambda>r. length (buffer r) = L) ((rtl_receivers st)[j := r'])"
        using assms by (auto simp: list_all_iff)
      then show ?thesis
        using Inr assms unfolding e by (simp add: reader_callback_def log_msg_def)
    next
      case False
      then have "length (rtl_receivers st) \<le> j" by simp
      then have "(rtl_receivers st)[j := r'] = rtl_receivers st" by (rule list_update_beyond)
      then show ?thesis
        using Inr assms unfolding e by (simp add: reader_callback_def log_msg_def)
    qed
  qed
next
  case False
  then have "rings (step e st) = rings st" by (rule rings_step)
  with assms show ?thesis by (simp add: buffers_rings)
qed

lemma step_config:
  "config (step e st) = config st"
  "active_ant_chs (iq_header (step e st)) = active_ant_chs (iq_header st)"
proof -
  have hc: "active_ant_chs (iq_header (complete_header now st)) = active_ant_chs (iq_header st)"
    for now
    by (simp add: complete_header_hdr hdr_fill_def Let_def)
  have h: "active_ant_chs (iq_header (emit_frame now st)) = active_ant_chs (iq_header st)" for now
    by (simp add: emit_frame_def write_frame_fields hc)
  have w: "config (main_wake now drv st) = config st"
    "active_ant_chs (iq_header (main_wake now drv st)) = active_ant_chs (iq_header st)" for now drv
    by (simp_all add: main_wake_def main_loop_body_def Let_def tuner_control_rest_fields
        emit_frame_fields h hc)
  have c: "config (read_thread_configure drv i st) = config st"
    "iq_header (read_thread_configure drv i st) = iq_header st" for drv i
    using arg_cong [OF tuner_rest_read_thread(2), of config drv i st]
      arg_cong [OF tuner_rest_read_thread(2), of iq_header drv i st]
    by (simp_all add: tuner_rest_fields)
  have r: "config (reader_callback i buf st) = config st"
    "iq_header (reader_callback i buf st) = iq_header st" for i buf
    by (simp_all add: reader_callback_def log_msg_def split: sum.splits)
  have f: "config (fifo_read_tf_cmd rd st) = config st"
    "iq_header (fifo_read_tf_cmd rd st) = iq_header st" for rd
    by (simp_all add: fifo_read_tf_cmd_def log_msg_def Let_def)
  have p: "config (fifo_read_tf_open ok st) = config st"
    "iq_header (fifo_read_tf_open ok st) = iq_header st" for ok
    by (simp_all add: fifo_read_tf_open_def log_msg_def)
  show "config (step e st) = config st"
    by (cases e) (simp_all add: w c r f p)
  show "active_ant_chs (iq_header (step e st)) = active_ant_chs (iq_header st)"
    by (cases e) (simp_all add: w c r f p)
qed

lemma length_new_gains_step:
  assumes "length (new_gains st) = ch_no st"
  shows "length (new_gains (step e st)) = ch_no st"
proof -
  have w: "new_gains (main_wake now drv st) = new_gains st" for now drv
    by (simp add: main_wake_def main_loop_body_def Let_def tuner_control_rest_fields
        emit_frame_fields)
  have c: "new_gains (read_thread_configure drv i st) = new_gains st" for drv i
    using arg_cong [OF tuner_rest_read_thread(2), of new_gains drv i st]
    by (simp add: tuner_rest_fields)
  have r: "new_gains (reader_callback i buf st) = new_gains st" for i buf
    by (simp add: reader_callback_def log_msg_def split: sum.splits)
  have f: "length (new_gains (fifo_read_tf_cmd rd st)) = ch_no st" for rd
    using assms by (simp add: fifo_read_tf_cmd_def log_msg_def Let_def)
  have p: "new_gains (fifo_read_tf_open ok st) = new_gains st" for ok
    by (simp add: fifo_read_tf_open_def log_msg_def)
  show ?thesis
    using assms by (cases e) (simp_all add: w c r f p)
qed

lemma wf_state_step: "wf_state st \<Longrightarrow> wf_state (step e st)"
  unfolding wf_state_def
  by (simp add: step_static step_config length_receivers_step length_new_gains_step
      buffers_step del: step.simps)

lemma wf_state_run: "wf_state st \<Longrightarrow> wf_state (run evs st)"
  by (induction evs arbitrary: st) (simp_all add: run_Nil run_Cons wf_state_step del: step.simps)

lemma main_startup_wf:
  assumes s: "main_startup env = Inr st"
    and b: "0 \<le> cfg_daq_buffer_size (env_config env)"
           "16 * cfg_daq_buffer_size (env_config env) < 2 ^ 32"
    and n: "0 \<le> cfg_num_ch (env_config env)" "cfg_num_ch (env_config env) < 2 ^ 32"
  shows "wf_state st"
    and "list_all (\<lambda>r. buff_ind r = 0) (rtl_receivers st)"
    and "read_buff_ind st = 0" and "stdout st = []" and "\<not> main_done st" and "fault st = None"
proof -
  let ?cfg = "env_config env"
  let ?bs = "nat ((cfg_daq_buffer_size ?cfg * 2) mod 2 ^ 32)"
  let ?n = "nat (cfg_num_ch ?cfg mod 2 ^ 32)"
  have bs: "int ?bs = 2 * cfg_daq_buffer_size ?cfg"
    using b by simp
  have sm: "NUM_BUFF * ?bs < 2 ^ 32"
    using b bs by (simp add: NUM_BUFF_def nat_less_iff)
  have nn: "?n < 2 ^ 32"
    using n by (simp add: nat_less_iff)
  from s have f: "rtl_receivers st = map (init_receiver env ?bs) [0..<?n]"
    "new_gains st = replicate ?n 0" "ch_no st = ?n" "buffer_size st = ?bs"
    "config st = ?cfg" "iq_header st = init_header env ?n"
    "read_buff_ind st = 0" "stdout st = []" "main_done st = False" "fault st = None"
    by (auto simp: main_startup_def Let_def split: if_splits)
  show "wf_state st"
    using bs sm nn b(1)
    by (simp add: wf_state_def f init_receiver_def init_header_def Let_def list_all_iff)
  show "list_all (\<lambda>r. buff_ind r = 0) (rtl_receivers st)"
    by (simp add: f init_receiver_def Let_def list_all_iff)
  show "read_buff_ind st = 0" "stdout st = []" "\<not> main_done st" "fault st = None"
    by (simp_all add: f)
qed


subsection \<open>C4: the layout of a frame\<close>

text \<open>Every frame of a run is the frame of one wake-up of \<^verbatim>\<open>main\<close> with the data ready.\<close>

lemma frames_of_reachable:
  assumes "f \<in> set (frames_of evs st)"
  shows "\<exists>evs1 evs2 now drv.
           evs = evs1 @ Wake now drv # evs2
           \<and> \<not> main_done (run evs1 st) \<and> fault (run evs1 st) = None
           \<and> data_ready (run evs1 st) \<and> f = next_frame now (run evs1 st)"
  using assms
proof (induction evs arbitrary: st)
  case Nil
  then show ?case by (simp add: frames_of_Nil)
next
  case (Cons e evs)
  from Cons.prems
  consider "f \<in> set (frames_of [e] st)" | "f \<in> set (frames_of evs (step e st))"
    unfolding frames_of_Cons [of e evs st] by auto
  then show ?case
  proof cases
    case 1
    then obtain now drv where e: "e = Wake now drv"
      and c: "\<not> main_done st" "fault st = None" "data_ready st" and f: "f = next_frame now st"
      by (cases e) (auto simp: frames_of_single split: if_splits)
    have "e # evs = [] @ Wake now drv # evs" by (simp add: e)
    with c f show ?thesis
      by (metis run_Nil)
  next
    case 2
    from Cons.IH [OF 2]
    obtain evs1 evs2 now drv where a: "evs = evs1 @ Wake now drv # evs2"
      and c: "\<not> main_done (run evs1 (step e st))" "fault (run evs1 (step e st)) = None"
        "data_ready (run evs1 (step e st))" "f = next_frame now (run evs1 (step e st))"
      by blast
    have "e # evs = (e # evs1) @ Wake now drv # evs2" by (simp add: a)
    moreover have "run (e # evs1) st = run evs1 (step e st)" by (rule run_Cons)
    ultimately show ?thesis
      using c by metis
  qed
qed

lemma next_frame_layout:
  assumes wf: "wf_state st"
  shows "frame_type (hdr (next_frame now st)) = FRAME_TYPE_DUMMY \<Longrightarrow>
           payload (next_frame now st) = [] \<and> cpi_length (hdr (next_frame now st)) = 0
           \<and> data_type (hdr (next_frame now st)) = 0"
    and "frame_type (hdr (next_frame now st)) \<noteq> FRAME_TYPE_DUMMY \<Longrightarrow>
           payload (next_frame now st) =
             concat (map (\<lambda>i. slot_bytes (buffer_size st) (unat (read_buff_ind st) mod NUM_BUFF)
                                 (buffer (rtl_receivers st ! i))) [0..<ch_no st])"
    and "i < ch_no st \<Longrightarrow>
           length (slot_bytes (buffer_size st) (unat (read_buff_ind st) mod NUM_BUFF)
                     (buffer (rtl_receivers st ! i))) = buffer_size st"
    and "frame_type (hdr (next_frame now st)) \<noteq> FRAME_TYPE_DUMMY \<Longrightarrow>
           unat (active_ant_chs (hdr (next_frame now st))) = ch_no st"
    and "frame_type (hdr (next_frame now st)) \<noteq> FRAME_TYPE_DUMMY \<Longrightarrow>
           2 * unat (cpi_length (hdr (next_frame now st))) = buffer_size st"
    and "frame_type (hdr (next_frame now st)) \<noteq> FRAME_TYPE_DUMMY \<Longrightarrow>
           length (payload (next_frame now st)) = ch_no st * buffer_size st"
proof -
  let ?f = "next_frame now st"
  have ft: "frame_type (hdr ?f) = FRAME_TYPE_DUMMY \<longleftrightarrow> en_dummy_frame st \<noteq> 0"
    by (simp add: next_frame_def complete_header_hdr Let_def)
  show "payload ?f = [] \<and> cpi_length (hdr ?f) = 0 \<and> data_type (hdr ?f) = 0"
    if "frame_type (hdr ?f) = FRAME_TYPE_DUMMY"
    using that unfolding ft by (simp add: next_frame_def complete_header_hdr Let_def)
  have bs: "int (buffer_size st) = 2 * cfg_daq_buffer_size (config st)"
    using wf by (simp add: wf_state_def)
  have nd: "0 \<le> cfg_daq_buffer_size (config st)"
    using wf by (simp add: wf_state_def)
  have small: "NUM_BUFF * buffer_size st < 2 ^ 32"
    using wf by (simp add: wf_state_def)
  show "payload ?f =
             concat (map (\<lambda>i. slot_bytes (buffer_size st) (unat (read_buff_ind st) mod NUM_BUFF)
                                 (buffer (rtl_receivers st ! i))) [0..<ch_no st])"
    if "frame_type (hdr ?f) \<noteq> FRAME_TYPE_DUMMY"
    using that unfolding ft by (simp add: next_frame_def payload_of_def unat_mod_NUM_BUFF)
  show "length (slot_bytes (buffer_size st) (unat (read_buff_ind st) mod NUM_BUFF)
                     (buffer (rtl_receivers st ! i))) = buffer_size st"
    if "i < ch_no st"
  proof (rule length_slot_bytes)
    from that wf have "rtl_receivers st ! i \<in> set (rtl_receivers st)"
      by (simp add: wf_state_def)
    with wf show "length (buffer (rtl_receivers st ! i)) = NUM_BUFF * buffer_size st"
      by (simp add: wf_state_def list_all_iff)
    show "NUM_BUFF * buffer_size st < 2 ^ 32" by (rule small)
    show "unat (read_buff_ind st) mod NUM_BUFF < NUM_BUFF"
      by (simp add: NUM_BUFF_def)
  qed
  show ua: "unat (active_ant_chs (hdr ?f)) = ch_no st"
    if "frame_type (hdr ?f) \<noteq> FRAME_TYPE_DUMMY"
  proof -
    have a: "active_ant_chs (hdr ?f) = of_nat (ch_no st)"
      using wf by (simp add: next_frame_def complete_header_hdr Let_def hdr_fill_def wf_state_def)
    have "ch_no st < 2 ^ 32" using wf by (simp add: wf_state_def)
    then show ?thesis
      unfolding a by (simp add: unat_of_nat)
  qed
  show "2 * unat (cpi_length (hdr ?f)) = buffer_size st"
    if nd': "frame_type (hdr ?f) \<noteq> FRAME_TYPE_DUMMY"
  proof -
    from nd' have en: "en_dummy_frame st = 0" unfolding ft by simp
    have c: "cpi_length (hdr ?f) = word_of_int (cfg_daq_buffer_size (config st))"
      using en by (simp add: next_frame_def complete_header_hdr Let_def)
    from bs small have "2 * cfg_daq_buffer_size (config st) < 2 ^ 32"
      by (simp add: NUM_BUFF_def)
    with nd have uc: "int (unat (cpi_length (hdr ?f))) = cfg_daq_buffer_size (config st)"
      unfolding c by (simp add: unsigned_of_int take_bit_int_eq_self)
    have "int (buffer_size st) = int (2 * unat (cpi_length (hdr ?f)))"
      using bs uc by simp
    then show ?thesis
      by (simp only: of_nat_eq_iff)
  qed
  show "length (payload ?f) = ch_no st * buffer_size st"
    if nd': "frame_type (hdr ?f) \<noteq> FRAME_TYPE_DUMMY"
  proof -
    from nd' have en: "en_dummy_frame st = 0" unfolding ft by simp
    then show ?thesis
      using wf by (simp add: next_frame_def length_payload_of)
  qed
qed

text \<open>
  Claim C4. Every DATA or CAL frame is the header followed by exactly
  \<^verbatim>\<open>active_ant_chs * 2 * cpi_length\<close> payload octets: \<^verbatim>\<open>ch_no\<close> blocks of
  \<^verbatim>\<open>buffer_size = 2 * daq_buffer_size\<close> octets each, in channel order; every DUMMY frame is the
  header followed by no payload octet, with \<^verbatim>\<open>cpi_length = 0\<close> and \<^verbatim>\<open>data_type = 0\<close>. This
  holds of every frame of every run from a well-formed state, so from startup; the blocks are
  the slots \<^verbatim>\<open>read_buff_ind % NUM_BUFF\<close> of the rings of the channels \<open>0, \<dots>, ch_no - 1\<close> at
  the wake-up of \<^verbatim>\<open>main\<close> that writes the frame.
\<close>

theorem frame_layout:
  assumes "wf_state st0" and "f \<in> set (frames_of evs st0)"
  shows "(frame_type (hdr f) = FRAME_TYPE_DUMMY \<longrightarrow>
            payload f = [] \<and> cpi_length (hdr f) = 0 \<and> data_type (hdr f) = 0)
         \<and> (frame_type (hdr f) \<noteq> FRAME_TYPE_DUMMY \<longrightarrow>
              length (payload f) = unat (active_ant_chs (hdr f)) * 2 * unat (cpi_length (hdr f))
              \<and> unat (active_ant_chs (hdr f)) = ch_no st0
              \<and> 2 * unat (cpi_length (hdr f)) = buffer_size st0
              \<and> int (buffer_size st0) = 2 * cfg_daq_buffer_size (config st0)
              \<and> (\<exists>evs1 evs2 now drv.
                    evs = evs1 @ Wake now drv # evs2
                    \<and> payload f =
                        concat (map (\<lambda>i. slot_bytes (buffer_size st0)
                                            (unat (read_buff_ind (run evs1 st0)) mod NUM_BUFF)
                                            (buffer (rtl_receivers (run evs1 st0) ! i)))
                                  [0..<ch_no st0])
                    \<and> (\<forall>i < ch_no st0.
                          length (slot_bytes (buffer_size st0)
                                    (unat (read_buff_ind (run evs1 st0)) mod NUM_BUFF)
                                    (buffer (rtl_receivers (run evs1 st0) ! i)))
                            = buffer_size st0)))"
proof -
  from assms(2) obtain evs1 evs2 now drv where e: "evs = evs1 @ Wake now drv # evs2"
    and f: "f = next_frame now (run evs1 st0)"
    using frames_of_reachable by blast
  let ?s = "run evs1 st0"
  have wf: "wf_state ?s"
    using assms(1) by (rule wf_state_run)
  have st: "ch_no ?s = ch_no st0" "buffer_size ?s = buffer_size st0"
    by (rule run_static)+
  have bs: "int (buffer_size st0) = 2 * cfg_daq_buffer_size (config st0)"
    using assms(1) by (simp add: wf_state_def)
  have 1: "payload f = [] \<and> cpi_length (hdr f) = 0 \<and> data_type (hdr f) = 0"
    if "frame_type (hdr f) = FRAME_TYPE_DUMMY"
    using next_frame_layout(1) [OF wf, of now] that unfolding f by simp
  have 2: "payload f =
             concat (map (\<lambda>i. slot_bytes (buffer_size st0) (unat (read_buff_ind ?s) mod NUM_BUFF)
                                 (buffer (rtl_receivers ?s ! i))) [0..<ch_no st0])"
    if "frame_type (hdr f) \<noteq> FRAME_TYPE_DUMMY"
    using next_frame_layout(2) [OF wf, of now] that unfolding f st by simp
  have 3: "length (slot_bytes (buffer_size st0) (unat (read_buff_ind ?s) mod NUM_BUFF)
                     (buffer (rtl_receivers ?s ! i))) = buffer_size st0"
    if "i < ch_no st0" for i
    using next_frame_layout(3) [OF wf, of i] that unfolding st by simp
  have 4: "unat (active_ant_chs (hdr f)) = ch_no st0"
    if "frame_type (hdr f) \<noteq> FRAME_TYPE_DUMMY"
    using next_frame_layout(4) [OF wf, of now] that unfolding f st by simp
  have 5: "2 * unat (cpi_length (hdr f)) = buffer_size st0"
    if "frame_type (hdr f) \<noteq> FRAME_TYPE_DUMMY"
    using next_frame_layout(5) [OF wf, of now] that unfolding f st by simp
  have 6: "length (payload f) = ch_no st0 * buffer_size st0"
    if "frame_type (hdr f) \<noteq> FRAME_TYPE_DUMMY"
    using next_frame_layout(6) [OF wf, of now] that unfolding f st by simp
  have 7: "length (payload f) = unat (active_ant_chs (hdr f)) * 2 * unat (cpi_length (hdr f))"
    if "frame_type (hdr f) \<noteq> FRAME_TYPE_DUMMY"
    using 4 [OF that] 5 [OF that] 6 [OF that] by simp
  from 1 2 3 4 5 7 bs e show ?thesis by blast
qed

lemma ex_dummy_fields:
  "wf_state ex_dummy"
  "data_ready ex_dummy"
  "\<not> main_done ex_dummy"
  "fault ex_dummy = None"
  "en_dummy_frame ex_dummy = 1"
  "dummy_frame_cntr ex_dummy = 0"
  "stdout ex_dummy = []"
  by (simp_all add: ex_dummy_def ex_cmd_def fifo_read_tf_cmd_def log_msg_def wf_state_def
      data_ready_def ex_ready_fields NUM_BUFF_def ex_cfg_def upt_rec)

lemma ex_frames:
  "frames_of (ex_ready_events @ [Wake 0 drv_ok]) (ex_start 2) = [next_frame 0 ex_ready]"
  "frames_of (ex_ready_events @ [Control (ex_cmd 110), Wake 0 drv_ok]) (ex_start 2)
     = [next_frame 0 ex_dummy]"
proof -
  have h: "data_ready ex_ready" "\<not> main_done ex_ready" "fault ex_ready = None"
    by (simp_all add: ex_ready_fields ex_ready_data_ready)
  have "run (ex_ready_events @ [Wake 0 drv_ok]) (ex_start 2) = step (Wake 0 drv_ok) ex_ready"
    by (simp only: run_append ex_ready_run [symmetric] run_Cons run_Nil)
  moreover have "stdout (step (Wake 0 drv_ok) ex_ready) = stdout ex_ready @ [next_frame 0 ex_ready]"
    using h by (rule step_wake_stdout)
  ultimately show "frames_of (ex_ready_events @ [Wake 0 drv_ok]) (ex_start 2)
                   = [next_frame 0 ex_ready]"
    by (simp add: frames_of_def ex_ready_fields ex_start_2_fields)
  have "run (ex_ready_events @ [Control (ex_cmd 110), Wake 0 drv_ok]) (ex_start 2)
        = step (Wake 0 drv_ok) ex_dummy"
    by (simp only: run_append ex_ready_run [symmetric] run_Cons run_Nil ex_dummy_def)
  moreover have "stdout (step (Wake 0 drv_ok) ex_dummy) = stdout ex_dummy @ [next_frame 0 ex_dummy]"
    using ex_dummy_fields(2-4) by (rule step_wake_stdout)
  ultimately show "frames_of (ex_ready_events @ [Control (ex_cmd 110), Wake 0 drv_ok]) (ex_start 2)
                   = [next_frame 0 ex_dummy]"
    by (simp add: frames_of_def ex_dummy_fields ex_start_2_fields)
qed

theorem frame_layout_witness:
  "wf_state (ex_start 2)
   \<and> next_frame 0 ex_ready \<in> set (frames_of (ex_ready_events @ [Wake 0 drv_ok]) (ex_start 2))
   \<and> frame_type (hdr (next_frame 0 ex_ready)) = FRAME_TYPE_DATA
   \<and> payload (next_frame 0 ex_ready) = [255, 0, 3, 4]
   \<and> unat (active_ant_chs (hdr (next_frame 0 ex_ready))) = 2
   \<and> unat (cpi_length (hdr (next_frame 0 ex_ready))) = 1
   \<and> next_frame 0 ex_dummy
       \<in> set (frames_of (ex_ready_events @ [Control (ex_cmd 110), Wake 0 drv_ok]) (ex_start 2))
   \<and> frame_type (hdr (next_frame 0 ex_dummy)) = FRAME_TYPE_DUMMY
   \<and> payload (next_frame 0 ex_dummy) = []
   \<and> cpi_length (hdr (next_frame 0 ex_dummy)) = 0
   \<and> data_type (hdr (next_frame 0 ex_dummy)) = 0"
proof -
  let ?f = "next_frame 0 ex_ready" and ?g = "next_frame 0 ex_dummy"
  have m1: "?f \<in> set (frames_of (ex_ready_events @ [Wake 0 drv_ok]) (ex_start 2))"
    by (simp add: ex_frames)
  have m2: "?g \<in> set (frames_of (ex_ready_events @ [Control (ex_cmd 110), Wake 0 drv_ok])
                        (ex_start 2))"
    by (simp add: ex_frames)
  have t1: "frame_type (hdr ?f) = FRAME_TYPE_DATA"
    by (simp add: next_frame_def complete_header_hdr Let_def ex_ready_fields)
  have t2: "frame_type (hdr ?g) = FRAME_TYPE_DUMMY"
    by (simp add: next_frame_def complete_header_hdr Let_def ex_dummy_fields)
  have p: "payload ?f = [255, 0, 3, 4]"
    by (simp add: next_frame_def payload_of_def ex_ready_fields slot_bytes_def slot_offset_def
        NUM_BUFF_def upt_rec)
  from frame_layout [OF ex_start_2_wf m1] t1
  have a: "unat (active_ant_chs (hdr ?f)) = ch_no (ex_start 2)"
    and c: "2 * unat (cpi_length (hdr ?f)) = buffer_size (ex_start 2)"
    by simp_all
  from a have a': "unat (active_ant_chs (hdr ?f)) = 2"
    by (simp add: ex_start_2_fields)
  from c have c': "unat (cpi_length (hdr ?f)) = 1"
    by (simp add: ex_start_2_buffer_size)
  from frame_layout [OF ex_start_2_wf m2] t2
  have d: "payload ?g = [] \<and> cpi_length (hdr ?g) = 0 \<and> data_type (hdr ?g) = 0"
    by blast
  from ex_start_2_wf m1 m2 t1 t2 p a' c' d show ?thesis by blast
qed

end
